theory Spec2Isabelle
  imports Main "HOL-Library.Word"
begin

unbundle bit_operations_syntax

section \<open>Data model of the storage driver\<close>

text \<open>
  The development embeds the orchestration code of \<^verbatim>\<open>src/storage/storage_driver.c\<close>.
  Byte counters are \<^verbatim>\<open>unsigned long long\<close> in the C code and are 64-bit words here, so
  \<open>+\<close> and \<open>-\<close> wrap exactly as the C operators do; flag arguments are
  \<^verbatim>\<open>unsigned int\<close> and are 32-bit words.
\<close>

type_synonym u64 = "64 word"
type_synonym flags = "32 word"

text \<open>
  The pool-type tags of \<^verbatim>\<open>storage_conf.h\<close>. The driver only ever compares a tag
  with \<^verbatim>\<open>VIR_STORAGE_POOL_DISK\<close>.
\<close>

datatype pool_type =
    VIR_STORAGE_POOL_DIR
  | VIR_STORAGE_POOL_FS
  | VIR_STORAGE_POOL_NETFS
  | VIR_STORAGE_POOL_LOGICAL
  | VIR_STORAGE_POOL_DISK
  | VIR_STORAGE_POOL_ISCSI
  | VIR_STORAGE_POOL_SCSI
  | VIR_STORAGE_POOL_MPATH
  | VIR_STORAGE_POOL_RBD
  | VIR_STORAGE_POOL_SHEEPDOG
  | VIR_STORAGE_POOL_GLUSTER
  | VIR_STORAGE_POOL_ZFS
  | VIR_STORAGE_POOL_VSTORAGE

text \<open>
  \<^verbatim>\<open>virStorageVolDef\<close>, restricted to the fields the driver reads or writes:
  \<^verbatim>\<open>name\<close>, \<^verbatim>\<open>key\<close> (a nullable string), \<^verbatim>\<open>target.path\<close>,
  \<^verbatim>\<open>target.capacity\<close>, \<^verbatim>\<open>target.allocation\<close>, \<^verbatim>\<open>target.has_allocation\<close>,
  \<^verbatim>\<open>target.physical\<close>, \<^verbatim>\<open>building\<close> and the \<^verbatim>\<open>in_use\<close> reference count.
\<close>

record vol_def =
  vol_name :: string
  vol_key :: "string option"
  target_path :: string
  target_capacity :: u64
  target_allocation :: u64
  target_has_allocation :: bool
  target_physical :: u64
  building :: bool
  in_use :: nat

text \<open>\<^verbatim>\<open>virStoragePoolDef\<close>: identity, type tag and the three byte counters.\<close>

record pool_def =
  pool_name :: string
  pool_uuid :: string
  pool_type :: pool_type
  pool_target_path :: string
  capacity :: u64
  allocation :: u64
  available :: u64

text \<open>
  \<^verbatim>\<open>virStoragePoolObj\<close>: the current definition, the pending definition, the config-file
  path that makes a pool persistent, the runtime flags, the async-job counter and the
  volumes in the order they were added. A \<^verbatim>\<open>virStorageVolDefPtr\<close> held by the driver
  is a position in \<open>volumes\<close>; a \<^verbatim>\<open>virStoragePoolObjPtr\<close> is a position in the
  driver's pool list.
\<close>

record pool_obj =
  def :: pool_def
  newDef :: "pool_def option"
  configFile :: "string option"
  active :: bool
  autostart :: bool
  asyncjobs :: nat
  volumes :: "vol_def list"

subsection \<open>Errors\<close>

text \<open>
  Every \<^verbatim>\<open>virReportError\<close> of the driver is a value \<open>Err code format\<close> holding the
  libvirt error code and the format string of the message (written without its quote
  characters). An error left behind by a collaborator whose code is outside this file
  (parser, access control, backend entry point, state-file writer) is \<open>Raised_by\<close>
  with the name of the call that failed. \<open>Fault\<close> marks a place where the C code
  does not return at all: a call through a null function pointer, or a second lock of
  a mutex the thread already holds.
\<close>

datatype vir_errcode =
    VIR_ERR_INTERNAL_ERROR
  | VIR_ERR_OPERATION_INVALID
  | VIR_ERR_OPERATION_FAILED
  | VIR_ERR_NO_SUPPORT
  | VIR_ERR_INVALID_ARG
  | VIR_ERR_NO_STORAGE_POOL
  | VIR_ERR_NO_STORAGE_VOL
  | VIR_ERR_STORAGE_VOL_EXIST

datatype vir_error = Err vir_errcode string | Raised_by string | Fault string

subsection \<open>The backend capability table\<close>

text \<open>
  \<^verbatim>\<open>virStorageBackend\<close> is a struct of nullable function pointers; a null pointer is
  \<open>None\<close>. The backends themselves are not part of the driver file, so each entry point
  is a parameter. An entry point reads the whole pool object and reports success
  (\<open>True\<close>) or failure (\<open>False\<close>, the C return value \<^verbatim>\<open>< 0\<close>). The entry points that
  receive a volume definition to fill in (\<^verbatim>\<open>createVol\<close>, \<^verbatim>\<open>refreshVol\<close>) also return
  that definition. The C entry points are handed the pool object itself and may write
  to it. The driver's comments say where a backend does so: "the disk backend ...
  updates the pool values" when a volume is created or deleted, and a refresh of the
  pool overwrites them. So \<^verbatim>\<open>createVol\<close> and \<^verbatim>\<open>deleteVol\<close> return, besides their
  status, the values they leave in the pool's capacity, allocation and available space
  (in this order; a backend that leaves the pool alone returns the values it found), and
  \<^verbatim>\<open>refreshPool\<close> returns these values and the volume list. Whatever an entry point
  leaves in the pool is kept whether it succeeds or fails. \<^verbatim>\<open>refreshPool\<close> is the
  one entry point the driver calls without testing the pointer, so it is not optional.
\<close>

type_synonym pool_values = "u64 \<times> u64 \<times> u64"

record backend =
  buildPool :: "(pool_obj \<Rightarrow> flags \<Rightarrow> bool) option"
  startPool :: "(pool_obj \<Rightarrow> bool) option"
  stopPool :: "(pool_obj \<Rightarrow> bool) option"
  deletePool :: "(pool_obj \<Rightarrow> flags \<Rightarrow> bool) option"
  refreshPool :: "pool_obj \<Rightarrow> bool \<times> pool_values \<times> vol_def list"
  createVol :: "(pool_obj \<Rightarrow> vol_def \<Rightarrow> bool \<times> vol_def \<times> pool_values) option"
  buildVol :: "(pool_obj \<Rightarrow> vol_def \<Rightarrow> flags \<Rightarrow> bool) option"
  buildVolFrom :: "(pool_obj \<Rightarrow> vol_def \<Rightarrow> vol_def \<Rightarrow> flags \<Rightarrow> bool) option"
  refreshVol :: "(pool_obj \<Rightarrow> vol_def \<Rightarrow> bool \<times> vol_def) option"
  deleteVol :: "(pool_obj \<Rightarrow> vol_def \<Rightarrow> flags \<Rightarrow> bool \<times> pool_values) option"
  resizeVol :: "(pool_obj \<Rightarrow> vol_def \<Rightarrow> u64 \<Rightarrow> flags \<Rightarrow> bool) option"
  wipeVol :: "(pool_obj \<Rightarrow> vol_def \<Rightarrow> nat \<Rightarrow> flags \<Rightarrow> bool) option"

datatype entry_point =
    BuildPool | StartPool | StopPool | DeletePool | RefreshPool
  | CreateVol | BuildVol | BuildVolFrom | RefreshVol | DeleteVol | ResizeVol | WipeVol

subsection \<open>Handles, events and the driver state\<close>

text \<open>\<^verbatim>\<open>virStoragePoolPtr\<close> and \<^verbatim>\<open>virStorageVolPtr\<close>, the handles a caller passes in.\<close>

record pool_handle =
  h_name :: string
  h_uuid :: string

record vol_handle =
  v_pool :: string
  v_name :: string
  v_key :: "string option"

datatype event_kind =
    VIR_STORAGE_POOL_EVENT_DEFINED
  | VIR_STORAGE_POOL_EVENT_UNDEFINED
  | VIR_STORAGE_POOL_EVENT_STARTED
  | VIR_STORAGE_POOL_EVENT_STOPPED
  | VIR_STORAGE_POOL_EVENT_CREATED
  | VIR_STORAGE_POOL_EVENT_DELETED
  | EVENT_REFRESH

text \<open>An event carries the pool's name and UUID and its kind.\<close>

type_synonym event = "string \<times> string \<times> event_kind"

text \<open>
  What the driver does that leaves no mark on its data: each call of a backend entry
  point, and each change of a pool's async-job counter, is appended to \<open>journal\<close>. The
  journal is an observer of the run; no branch of the driver reads it.
\<close>

datatype action = Call entry_point | IncrAsyncjobs string | DecrAsyncjobs string

text \<open>
  \<^verbatim>\<open>virStorageDriverState\<close>: the pool list, the state directory, the files that exist
  in the state directory (as the set of their paths), and the queue of emitted events.
\<close>

record driver_state =
  pools :: "pool_obj list"
  stateDir :: string
  files :: "string set"
  events :: "event list"
  journal :: "action list"

text \<open>
  The collaborators of the driver whose code lives elsewhere: the backend table, the
  two parsers, the access-control checks (one per API, named by the API; \<open>True\<close>
  grants access), the state-file writer (\<open>True\<close> when the file was written), the
  duplicate-source check of the pool list (\<open>True\<close> when another pool already claims
  the source, the C return value \<^verbatim>\<open>< 0\<close>), the volume-handle constructor, the three
  helpers used to restore the descriptor of a ploop volume (\<open>True\<close> on success), and
  the target update run after a wipe, which returns 0, -1 or -2 together with the
  updated volume definition. Failing memory allocation is not part of the model.
\<close>

record env =
  virStorageBackendForType :: "pool_type \<Rightarrow> backend option"
  virStoragePoolDefParseString :: "string \<Rightarrow> pool_def option"
  virStorageVolDefParseString :: "pool_def \<Rightarrow> string \<Rightarrow> vol_def option"
  EnsureACL :: "string \<Rightarrow> pool_def \<Rightarrow> vol_def option \<Rightarrow> bool"
  virStoragePoolSaveState :: "string \<Rightarrow> pool_def \<Rightarrow> bool"
  virStoragePoolObjSourceFindDuplicate :: "pool_obj list \<Rightarrow> pool_def \<Rightarrow> bool"
  virGetStorageVol :: "string \<Rightarrow> string \<Rightarrow> string option \<Rightarrow> vol_handle option"
  virFileRemove :: "string \<Rightarrow> bool"
  virFindFileInPath :: "string \<Rightarrow> string option"
  virCommandRun :: "string list \<Rightarrow> bool"
  virStorageBackendRefreshVolTargetUpdate :: "vol_def \<Rightarrow> int \<times> vol_def"

section \<open>Helpers of the pool object and the pool list\<close>

text \<open>The position of the first element that satisfies \<open>P\<close>.\<close>

primrec find_idx :: "('a \<Rightarrow> bool) \<Rightarrow> 'a list \<Rightarrow> nat option" where
  "find_idx P [] = None"
| "find_idx P (x # xs) = (if P x then Some 0 else map_option Suc (find_idx P xs))"

text \<open>Removing the element at a position (the pointer being removed).\<close>

definition remove_nth :: "nat \<Rightarrow> 'a list \<Rightarrow> 'a list" where
  "remove_nth i xs = take i xs @ drop (Suc i) xs"

text \<open>
  Modelled from the spec: \<^verbatim>\<open>virStoragePoolObjFindByUUID\<close> and
  \<^verbatim>\<open>virStoragePoolObjFindByName\<close> of the pool-object module, which "scan the current
  set"; absence is the null pointer.
\<close>

definition virStoragePoolObjFindByUUID :: "pool_obj list \<Rightarrow> string \<Rightarrow> nat option" where
  "virStoragePoolObjFindByUUID ps uuid = find_idx (\<lambda>obj. pool_uuid (def obj) = uuid) ps"

definition virStoragePoolObjFindByName :: "pool_obj list \<Rightarrow> string \<Rightarrow> nat option" where
  "virStoragePoolObjFindByName ps name = find_idx (\<lambda>obj. pool_name (def obj) = name) ps"

text \<open>
  Modelled from the spec: \<^verbatim>\<open>virStorageVolDefFindByName\<close>, the lookup of a volume of a
  pool by its name ("name (unique within pool)").
\<close>

definition virStorageVolDefFindByName :: "pool_obj \<Rightarrow> string \<Rightarrow> nat option" where
  "virStorageVolDefFindByName obj name = find_idx (\<lambda>v. vol_name v = name) (volumes obj)"

text \<open>Writing through a pool pointer and through a volume pointer.\<close>

definition upd_pool :: "nat \<Rightarrow> (pool_obj \<Rightarrow> pool_obj) \<Rightarrow> driver_state \<Rightarrow> driver_state" where
  "upd_pool i f d = d\<lparr>pools := (pools d)[i := f (pools d ! i)]\<rparr>"

definition upd_vol :: "nat \<Rightarrow> (vol_def \<Rightarrow> vol_def) \<Rightarrow> pool_obj \<Rightarrow> pool_obj" where
  "upd_vol j f obj = obj\<lparr>volumes := (volumes obj)[j := f (volumes obj ! j)]\<rparr>"

text \<open>
  The pool values of a pool object, and the write of a backend entry point to them.
\<close>

definition pool_values_of :: "pool_obj \<Rightarrow> pool_values" where
  "pool_values_of obj = (capacity (def obj), allocation (def obj), available (def obj))"

definition with_pool_values :: "pool_values \<Rightarrow> pool_obj \<Rightarrow> pool_obj" where
  "with_pool_values vals obj =
    (case vals of (cap, alloc, avail) \<Rightarrow>
       obj\<lparr>def := (def obj)\<lparr>capacity := cap, allocation := alloc, available := avail\<rparr>\<rparr>)"

definition record_action :: "action \<Rightarrow> driver_state \<Rightarrow> driver_state" where
  "record_action a d = d\<lparr>journal := journal d @ [a]\<rparr>"

definition virObjectEventStateQueue :: "event \<Rightarrow> driver_state \<Rightarrow> driver_state" where
  "virObjectEventStateQueue ev d = d\<lparr>events := events d @ [ev]\<rparr>"

text \<open>\<^verbatim>\<open>virCheckFlags\<close>: a flag outside the supported set fails the call.\<close>

definition virCheckFlags :: "flags \<Rightarrow> flags \<Rightarrow> bool" where
  "virCheckFlags fl supported = (fl AND NOT supported = 0)"

definition unsupported_flags :: vir_error where
  "unsupported_flags = Err VIR_ERR_INVALID_ARG ''unsupported flags (0x%lx) in function %s''"

section \<open>Volume operations\<close>

subsection \<open>Finding the volume behind a handle\<close>

text \<open>
  \<^verbatim>\<open>virStorageVolDefFromVol\<close>, as every caller in this development uses it (with a
  backend requested): the pool is looked up by the handle's pool name and must be active,
  the volume is looked up by name, and the backend by the pool's type. The result is the
  pool pointer, the volume pointer and the backend.
\<close>

definition virStorageVolDefFromVol ::
  "env \<Rightarrow> driver_state \<Rightarrow> vol_handle \<Rightarrow> vir_error + (nat \<times> nat \<times> backend)" where
  "virStorageVolDefFromVol e d vol =
    (case virStoragePoolObjFindByName (pools d) (v_pool vol) of
       None \<Rightarrow> Inl (Err VIR_ERR_NO_STORAGE_POOL ''no storage pool with matching name %s'')
     | Some i \<Rightarrow>
        let obj = pools d ! i in
        if \<not> active obj then
          Inl (Err VIR_ERR_OPERATION_INVALID ''storage pool %s is not active'')
        else
          (case virStorageVolDefFindByName obj (v_name vol) of
             None \<Rightarrow> Inl (Err VIR_ERR_NO_STORAGE_VOL ''no storage vol with matching name %s'')
           | Some j \<Rightarrow>
              (case virStorageBackendForType e (pool_type (def obj)) of
                 None \<Rightarrow> Inl (Raised_by ''virStorageBackendForType'')
               | Some be \<Rightarrow> Inr (i, j, be))))"

subsection \<open>Resize\<close>

text \<open>The three resize flags of the public API header.\<close>

definition VIR_STORAGE_VOL_RESIZE_ALLOCATE :: flags where
  "VIR_STORAGE_VOL_RESIZE_ALLOCATE = 1"

definition VIR_STORAGE_VOL_RESIZE_DELTA :: flags where
  "VIR_STORAGE_VOL_RESIZE_DELTA = 2"

definition VIR_STORAGE_VOL_RESIZE_SHRINK :: flags where
  "VIR_STORAGE_VOL_RESIZE_SHRINK = 4"

text \<open>
  The first block of \<^verbatim>\<open>storageVolResize\<close> after the volume checks: the absolute
  capacity \<^verbatim>\<open>abs_capacity\<close> computed from the argument, the flags and the volume's
  current capacity.
\<close>

definition resize_abs_capacity :: "flags \<Rightarrow> u64 \<Rightarrow> u64 \<Rightarrow> u64" where
  "resize_abs_capacity fl cap cur =
    (if fl AND VIR_STORAGE_VOL_RESIZE_DELTA \<noteq> 0 then
       (if fl AND VIR_STORAGE_VOL_RESIZE_SHRINK \<noteq> 0 then cur - min cap cur
        else cur + cap)
     else cap)"

text \<open>The same block clears the delta flag once it has been applied.\<close>

definition resize_flags :: "flags \<Rightarrow> flags" where
  "resize_flags fl =
    (if fl AND VIR_STORAGE_VOL_RESIZE_DELTA \<noteq> 0
     then fl AND NOT VIR_STORAGE_VOL_RESIZE_DELTA else fl)"

definition storageVolResize ::
  "env \<Rightarrow> driver_state \<Rightarrow> vol_handle \<Rightarrow> u64 \<Rightarrow> flags \<Rightarrow> (vir_error + unit) \<times> driver_state" where
  "storageVolResize e d vol cap flags0 =
    (if \<not> virCheckFlags flags0 (VIR_STORAGE_VOL_RESIZE_ALLOCATE OR
                                 VIR_STORAGE_VOL_RESIZE_DELTA OR
                                 VIR_STORAGE_VOL_RESIZE_SHRINK)
     then (Inl unsupported_flags, d)
     else
       (case virStorageVolDefFromVol e d vol of
          Inl err \<Rightarrow> (Inl err, d)
        | Inr (i, j, be) \<Rightarrow>
           let obj = pools d ! i;
               pdef = def obj;
               voldef = volumes obj ! j
           in
           if \<not> EnsureACL e ''virStorageVolResize'' pdef (Some voldef) then
             (Inl (Raised_by ''virStorageVolResizeEnsureACL''), d)
           else if in_use voldef \<noteq> 0 then
             (Inl (Err VIR_ERR_OPERATION_INVALID ''volume %s is still in use.''), d)
           else if building voldef then
             (Inl (Err VIR_ERR_OPERATION_INVALID ''volume %s is still being allocated.''), d)
           else
             let abs_capacity = resize_abs_capacity flags0 cap (target_capacity voldef);
                 fl = resize_flags flags0
             in
             if abs_capacity < target_allocation voldef then
               (Inl (Err VIR_ERR_INVALID_ARG
                      ''can't shrink capacity below existing allocation''), d)
             else if abs_capacity < target_capacity voldef \<and>
                     fl AND VIR_STORAGE_VOL_RESIZE_SHRINK = 0 then
               (Inl (Err VIR_ERR_INVALID_ARG
                      ''Can't shrink capacity below current capacity unless shrink flag explicitly specified''), d)
             else
               let delta = (if fl AND VIR_STORAGE_VOL_RESIZE_ALLOCATE \<noteq> 0
                            then abs_capacity - target_allocation voldef else 0)
               in
               if delta > available pdef then
                 (Inl (Err VIR_ERR_OPERATION_FAILED
                        ''Not enough space left in storage pool''), d)
               else
                 (case resizeVol be of
                    None \<Rightarrow>
                     (Inl (Err VIR_ERR_NO_SUPPORT
                            ''storage pool does not support changing of volume capacity''), d)
                  | Some resize \<Rightarrow>
                     let d1 = record_action (Call ResizeVol) d in
                     if \<not> resize obj voldef abs_capacity fl then
                       (Inl (Raised_by ''resizeVol''), d1)
                     else if fl AND VIR_STORAGE_VOL_RESIZE_ALLOCATE \<noteq> 0 then
                       (Inr (),
                        upd_pool i (\<lambda>obj.
                          (upd_vol j (\<lambda>v. v\<lparr>target_capacity := abs_capacity,
                                            target_allocation := abs_capacity\<rparr>) obj)
                          \<lparr>def := (def obj)\<lparr>allocation := allocation (def obj) + delta,
                                            available := available (def obj) - delta\<rparr>\<rparr>) d1)
                     else
                       (Inr (),
                        upd_pool i (upd_vol j (\<lambda>v. v\<lparr>target_capacity := abs_capacity\<rparr>)) d1))))"

subsection \<open>Delete\<close>

text \<open>
  Modelled from the spec: \<^verbatim>\<open>virStoragePoolObjAddVol\<close> and
  \<^verbatim>\<open>virStoragePoolObjRemoveVol\<close> of the pool-object module, which register a Volume
  Object in its pool and remove it again. A new volume goes to the end of the list, so
  the pointers to the volumes already there stay valid.
\<close>

definition virStoragePoolObjAddVol :: "vol_def \<Rightarrow> pool_obj \<Rightarrow> pool_obj" where
  "virStoragePoolObjAddVol v obj = obj\<lparr>volumes := volumes obj @ [v]\<rparr>"

definition virStoragePoolObjRemoveVol :: "nat \<Rightarrow> pool_obj \<Rightarrow> pool_obj" where
  "virStoragePoolObjRemoveVol j obj = obj\<lparr>volumes := remove_nth j (volumes obj)\<rparr>"

definition virStoragePoolObjClearVols :: "pool_obj \<Rightarrow> pool_obj" where
  "virStoragePoolObjClearVols obj = obj\<lparr>volumes := []\<rparr>"

text \<open>
  \<^verbatim>\<open>storageVolDeleteInternal\<close>: the backend must have a \<^verbatim>\<open>deleteVol\<close> entry point and
  the call must succeed; then, if \<^verbatim>\<open>updateMeta\<close> is set and the pool is not a disk
  pool, the volume's allocation moves from the pool's \<^verbatim>\<open>allocation\<close> to its
  \<^verbatim>\<open>available\<close>, both read after the backend call; then the volume is removed from
  the pool.
\<close>

definition storageVolDeleteInternal ::
  "backend \<Rightarrow> nat \<Rightarrow> nat \<Rightarrow> flags \<Rightarrow> bool \<Rightarrow> driver_state \<Rightarrow> (vir_error + unit) \<times> driver_state" where
  "storageVolDeleteInternal be i j fl updateMeta d =
    (case deleteVol be of
       None \<Rightarrow> (Inl (Err VIR_ERR_NO_SUPPORT ''storage pool does not support vol deletion''), d)
     | Some del \<Rightarrow>
        let obj = pools d ! i;
            voldef = volumes obj ! j;
            (ok, vals) = del obj voldef fl;
            d1 = upd_pool i (with_pool_values vals) (record_action (Call DeleteVol) d)
        in
        if \<not> ok then (Inl (Raised_by ''deleteVol''), d1)
        else
          (Inr (),
           upd_pool i (\<lambda>obj.
             virStoragePoolObjRemoveVol j
               (if updateMeta \<and> pool_type (def obj) \<noteq> VIR_STORAGE_POOL_DISK then
                  obj\<lparr>def := (def obj)
                    \<lparr>allocation := allocation (def obj) - target_allocation voldef,
                     available := available (def obj) + target_allocation voldef\<rparr>\<rparr>
                else obj)) d1))"

definition storageVolDelete ::
  "env \<Rightarrow> driver_state \<Rightarrow> vol_handle \<Rightarrow> flags \<Rightarrow> (vir_error + unit) \<times> driver_state" where
  "storageVolDelete e d vol fl =
    (case virStorageVolDefFromVol e d vol of
       Inl err \<Rightarrow> (Inl err, d)
     | Inr (i, j, be) \<Rightarrow>
        let obj = pools d ! i;
            voldef = volumes obj ! j
        in
        if \<not> EnsureACL e ''virStorageVolDelete'' (def obj) (Some voldef) then
          (Inl (Raised_by ''virStorageVolDeleteEnsureACL''), d)
        else if in_use voldef \<noteq> 0 then
          (Inl (Err VIR_ERR_OPERATION_INVALID ''volume %s is still in use.''), d)
        else if building voldef then
          (Inl (Err VIR_ERR_OPERATION_INVALID ''volume %s is still being allocated.''), d)
        else storageVolDeleteInternal be i j fl True d)"

subsection \<open>Wipe\<close>

text \<open>
  The wipe algorithms of the public API header are numbered from zero;
  \<^verbatim>\<open>VIR_STORAGE_VOL_WIPE_ALG_ZERO\<close> is the first and
  \<^verbatim>\<open>VIR_STORAGE_VOL_WIPE_ALG_LAST\<close> is one past the last.
\<close>

definition VIR_STORAGE_VOL_WIPE_ALG_ZERO :: nat where
  "VIR_STORAGE_VOL_WIPE_ALG_ZERO = 0"

definition VIR_STORAGE_VOL_WIPE_ALG_LAST :: nat where
  "VIR_STORAGE_VOL_WIPE_ALG_LAST = 10"

definition storageVolWipePattern ::
  "env \<Rightarrow> driver_state \<Rightarrow> vol_handle \<Rightarrow> nat \<Rightarrow> flags \<Rightarrow> (vir_error + unit) \<times> driver_state" where
  "storageVolWipePattern e d vol algorithm fl =
    (if \<not> virCheckFlags fl 0 then (Inl unsupported_flags, d)
     else if algorithm \<ge> VIR_STORAGE_VOL_WIPE_ALG_LAST then
       (Inl (Err VIR_ERR_INVALID_ARG ''wiping algorithm %d not supported''), d)
     else
       (case virStorageVolDefFromVol e d vol of
          Inl err \<Rightarrow> (Inl err, d)
        | Inr (i, j, be) \<Rightarrow>
           let obj = pools d ! i;
               voldef = volumes obj ! j
           in
           if \<not> EnsureACL e ''virStorageVolWipePattern'' (def obj) (Some voldef) then
             (Inl (Raised_by ''virStorageVolWipePatternEnsureACL''), d)
           else if in_use voldef \<noteq> 0 then
             (Inl (Err VIR_ERR_OPERATION_INVALID ''volume %s is still in use.''), d)
           else if building voldef then
             (Inl (Err VIR_ERR_OPERATION_INVALID ''volume %s is still being allocated.''), d)
           else
             (case wipeVol be of
                None \<Rightarrow>
                 (Inl (Err VIR_ERR_NO_SUPPORT ''storage pool doesn't support volume wiping''), d)
              | Some wipe \<Rightarrow>
                 let d1 = record_action (Call WipeVol) d in
                 if \<not> wipe obj voldef algorithm fl then (Inl (Raised_by ''wipeVol''), d1)
                 else
                   let (rc, voldef') = virStorageBackendRefreshVolTargetUpdate e voldef;
                       d2 = upd_pool i (upd_vol j (\<lambda>_. voldef')) d1
                   in
                   if rc = -1 then
                     (Inl (Raised_by ''virStorageBackendRefreshVolTargetUpdate''), d2)
                   else (Inr (), d2))))"

definition storageVolWipe ::
  "env \<Rightarrow> driver_state \<Rightarrow> vol_handle \<Rightarrow> flags \<Rightarrow> (vir_error + unit) \<times> driver_state" where
  "storageVolWipe e d vol fl = storageVolWipePattern e d vol VIR_STORAGE_VOL_WIPE_ALG_ZERO fl"

subsection \<open>Create\<close>

text \<open>
  \<^verbatim>\<open>storagePoolObjFindByUUID\<close> and \<^verbatim>\<open>virStoragePoolObjFromStoragePool\<close>: the lookup of
  the pool behind a pool handle, by UUID; every caller passes the handle's name for the
  error message.
\<close>

definition storagePoolObjFindByUUID :: "driver_state \<Rightarrow> string \<Rightarrow> string \<Rightarrow> vir_error + nat" where
  "storagePoolObjFindByUUID d uuid name =
    (case virStoragePoolObjFindByUUID (pools d) uuid of
       None \<Rightarrow> Inl (Err VIR_ERR_NO_STORAGE_POOL ''no storage pool with matching uuid %s (%s)'')
     | Some i \<Rightarrow> Inr i)"

definition virStoragePoolObjFromStoragePool :: "driver_state \<Rightarrow> pool_handle \<Rightarrow> vir_error + nat" where
  "virStoragePoolObjFromStoragePool d pool = storagePoolObjFindByUUID d (h_uuid pool) (h_name pool)"

text \<open>
  Modelled from the spec: \<^verbatim>\<open>virStoragePoolObjIncrAsyncjobs\<close> and
  \<^verbatim>\<open>virStoragePoolObjDecrAsyncjobs\<close> of the pool-object module ("increment the pool's
  asyncJobCount", "decrement asyncJobCount"). Each change is also written to the journal.
\<close>

definition virStoragePoolObjIncrAsyncjobs :: "nat \<Rightarrow> driver_state \<Rightarrow> driver_state" where
  "virStoragePoolObjIncrAsyncjobs i d =
    record_action (IncrAsyncjobs (pool_name (def (pools d ! i))))
      (upd_pool i (\<lambda>obj. obj\<lparr>asyncjobs := asyncjobs obj + 1\<rparr>) d)"

definition virStoragePoolObjDecrAsyncjobs :: "nat \<Rightarrow> driver_state \<Rightarrow> driver_state" where
  "virStoragePoolObjDecrAsyncjobs i d =
    record_action (DecrAsyncjobs (pool_name (def (pools d ! i))))
      (upd_pool i (\<lambda>obj. obj\<lparr>asyncjobs := asyncjobs obj - 1\<rparr>) d)"

definition VIR_STORAGE_VOL_CREATE_PREALLOC_METADATA :: flags where
  "VIR_STORAGE_VOL_CREATE_PREALLOC_METADATA = 1"

definition VIR_STORAGE_VOL_CREATE_REFLINK :: flags where
  "VIR_STORAGE_VOL_CREATE_REFLINK = 2"

text \<open>
  The block \<^verbatim>\<open>if (backend->buildVol) { ... }\<close> of \<^verbatim>\<open>storageVolCreateXML\<close>. The
  snapshot \<^verbatim>\<open>buildvoldef\<close> is taken before the \<^verbatim>\<open>building\<close> flag is set; the backend
  runs with the pool lock dropped and is given the pool as it stands then. The result
  says whether the build succeeded; after a failed build the volume has been removed
  from the pool.
\<close>

definition storageVolCreateXML_build ::
  "backend \<Rightarrow> nat \<Rightarrow> nat \<Rightarrow> flags \<Rightarrow> driver_state \<Rightarrow> bool \<times> driver_state" where
  "storageVolCreateXML_build be i j fl d =
    (case buildVol be of
       None \<Rightarrow> (True, d)
     | Some build \<Rightarrow>
        let buildvoldef = volumes (pools d ! i) ! j;
            d1 = virStoragePoolObjIncrAsyncjobs i d;
            d2 = upd_pool i (upd_vol j (\<lambda>v. v\<lparr>building := True\<rparr>)) d1;
            d3 = record_action (Call BuildVol) d2;
            buildret = build (pools d3 ! i) buildvoldef fl;
            d4 = upd_pool i (upd_vol j (\<lambda>v. v\<lparr>building := False\<rparr>)) d3;
            d5 = virStoragePoolObjDecrAsyncjobs i d4
        in
        if \<not> buildret then (False, upd_pool i (virStoragePoolObjRemoveVol j) d5)
        else (True, d5))"

text \<open>
  The pool bookkeeping at the end of both create paths: unless the pool is a disk
  pool, the new volume's allocation moves from \<^verbatim>\<open>available\<close> to \<^verbatim>\<open>allocation\<close>.
\<close>

definition pool_meta_add :: "nat \<Rightarrow> nat \<Rightarrow> driver_state \<Rightarrow> driver_state" where
  "pool_meta_add i j d =
    upd_pool i (\<lambda>obj.
      if pool_type (def obj) \<noteq> VIR_STORAGE_POOL_DISK then
        obj\<lparr>def := (def obj)
          \<lparr>allocation := allocation (def obj) + target_allocation (volumes obj ! j),
           available := available (def obj) - target_allocation (volumes obj ! j)\<rparr>\<rparr>
      else obj) d"

text \<open>
  The cleanup after a failed build or refresh of a new volume:
  \<^verbatim>\<open>storageVolDeleteInternal\<close> is called without the update of the pool counters and
  its result is ignored. The caller then sees the error reported last: that of the
  deletion if the deletion failed, and the error \<open>err\<close> of the step that failed before
  it otherwise.
\<close>

definition delete_after_failure ::
  "backend \<Rightarrow> nat \<Rightarrow> nat \<Rightarrow> vir_error \<Rightarrow> driver_state \<Rightarrow> (vir_error + vol_handle) \<times> driver_state" where
  "delete_after_failure be i j err d =
    (case storageVolDeleteInternal be i j 0 False d of
       (Inl err', d') \<Rightarrow> (Inl err', d')
     | (Inr _, d') \<Rightarrow> (Inl err, d'))"

text \<open>
  The tail of \<^verbatim>\<open>storageVolCreateXML\<close>: refresh the new volume if the backend can; if
  that fails, delete the volume again and fail; otherwise update the pool counters.
\<close>

definition storageVolCreateXML_finish ::
  "backend \<Rightarrow> nat \<Rightarrow> nat \<Rightarrow> vol_handle \<Rightarrow> driver_state \<Rightarrow> (vir_error + vol_handle) \<times> driver_state" where
  "storageVolCreateXML_finish be i j newvol d =
    (case refreshVol be of
       None \<Rightarrow> (Inr newvol, pool_meta_add i j d)
     | Some refresh \<Rightarrow>
        let obj = pools d ! i;
            d1 = record_action (Call RefreshVol) d;
            (ok, voldef') = refresh obj (volumes obj ! j);
            d2 = upd_pool i (upd_vol j (\<lambda>_. voldef')) d1
        in
        if \<not> ok then delete_after_failure be i j (Raised_by ''refreshVol'') d2
        else (Inr newvol, pool_meta_add i j d2))"

definition storageVolCreateXML ::
  "env \<Rightarrow> driver_state \<Rightarrow> pool_handle \<Rightarrow> string \<Rightarrow> flags \<Rightarrow>
     (vir_error + vol_handle) \<times> driver_state" where
  "storageVolCreateXML e d pool xmldesc fl =
    (if \<not> virCheckFlags fl VIR_STORAGE_VOL_CREATE_PREALLOC_METADATA then
       (Inl unsupported_flags, d)
     else
       (case virStoragePoolObjFromStoragePool d pool of
          Inl err \<Rightarrow> (Inl err, d)
        | Inr i \<Rightarrow>
           let obj = pools d ! i;
               pdef = def obj
           in
           if \<not> active obj then
             (Inl (Err VIR_ERR_OPERATION_INVALID ''storage pool %s is not active''), d)
           else
             (case virStorageBackendForType e (pool_type pdef) of
                None \<Rightarrow> (Inl (Raised_by ''virStorageBackendForType''), d)
              | Some be \<Rightarrow>
                 (case virStorageVolDefParseString e pdef xmldesc of
                    None \<Rightarrow> (Inl (Raised_by ''virStorageVolDefParseString''), d)
                  | Some voldef0 \<Rightarrow>
                     if target_capacity voldef0 = 0 \<and> buildVol be = None then
                       (Inl (Err VIR_ERR_NO_SUPPORT
                              ''volume capacity required for this storage pool''), d)
                     else if \<not> EnsureACL e ''virStorageVolCreateXML'' pdef (Some voldef0) then
                       (Inl (Raised_by ''virStorageVolCreateXMLEnsureACL''), d)
                     else if virStorageVolDefFindByName obj (vol_name voldef0) \<noteq> None then
                       (Inl (Err VIR_ERR_STORAGE_VOL_EXIST ''%s''), d)
                     else
                       (case createVol be of
                          None \<Rightarrow>
                           (Inl (Err VIR_ERR_NO_SUPPORT
                                  ''storage pool does not support volume creation''), d)
                        | Some create \<Rightarrow>
                           let (ok, voldef, vals) = create obj (voldef0\<lparr>vol_key := None\<rparr>);
                               d1 = upd_pool i (with_pool_values vals)
                                      (record_action (Call CreateVol) d)
                           in
                           if \<not> ok then (Inl (Raised_by ''createVol''), d1)
                           else
                             (case virGetStorageVol e (pool_name pdef) (vol_name voldef)
                                     (vol_key voldef) of
                                None \<Rightarrow> (Inl (Raised_by ''virGetStorageVol''), d1)
                              | Some newvol \<Rightarrow>
                                 let j = length (volumes obj);
                                     d2 = upd_pool i (virStoragePoolObjAddVol voldef) d1;
                                     (built, d3) = storageVolCreateXML_build be i j fl d2
                                 in
                                 if \<not> built then (Inl (Raised_by ''buildVol''), d3)
                                 else storageVolCreateXML_finish be i j newvol d3))))))"

subsection \<open>Clone\<close>

text \<open>
  Lines 2081 to 2108 of \<^verbatim>\<open>storageVolCreateXMLFrom\<close>: the build with the locks
  dropped. \<open>i\<close> and \<open>j\<close> point to the destination pool and the new volume, \<open>objsrc\<close>
  is the source pool when it is another pool than the destination, and \<open>isrc\<close>,
  \<open>js\<close> point to the pool that holds the source volume and to that volume.
\<close>

definition storageVolCreateXMLFrom_build ::
  "(pool_obj \<Rightarrow> vol_def \<Rightarrow> vol_def \<Rightarrow> flags \<Rightarrow> bool) \<Rightarrow> nat \<Rightarrow> nat \<Rightarrow> nat option \<Rightarrow> nat \<Rightarrow> nat \<Rightarrow>
     vol_def \<Rightarrow> flags \<Rightarrow> driver_state \<Rightarrow> bool \<times> driver_state" where
  "storageVolCreateXMLFrom_build buildfrom i j objsrc isrc js shadowvol fl d =
    (let d1 = virStoragePoolObjIncrAsyncjobs i d;
         d2 = upd_pool i (upd_vol j (\<lambda>v. v\<lparr>building := True\<rparr>)) d1;
         d3 = upd_pool isrc (upd_vol js (\<lambda>v. v\<lparr>in_use := in_use v + 1\<rparr>)) d2;
         d4 = (case objsrc of Some s \<Rightarrow> virStoragePoolObjIncrAsyncjobs s d3 | None \<Rightarrow> d3);
         d5 = record_action (Call BuildVolFrom) d4;
         buildret = buildfrom (pools d5 ! i) shadowvol (volumes (pools d5 ! isrc) ! js) fl;
         d6 = upd_pool isrc (upd_vol js (\<lambda>v. v\<lparr>in_use := in_use v - 1\<rparr>)) d5;
         d7 = upd_pool i (upd_vol j (\<lambda>v. v\<lparr>building := False\<rparr>)) d6;
         d8 = virStoragePoolObjDecrAsyncjobs i d7;
         d9 = (case objsrc of Some s \<Rightarrow> virStoragePoolObjDecrAsyncjobs s d8 | None \<Rightarrow> d8)
     in (buildret, d9))"

text \<open>
  The tail of \<^verbatim>\<open>storageVolCreateXMLFrom\<close>: after a failed build, or a failed refresh of
  the new volume, the volume is deleted again and the call fails; otherwise the pool
  counters are updated.
\<close>

definition storageVolCreateXMLFrom_finish ::
  "backend \<Rightarrow> nat \<Rightarrow> nat \<Rightarrow> vol_handle \<Rightarrow> bool \<Rightarrow> driver_state \<Rightarrow>
     (vir_error + vol_handle) \<times> driver_state" where
  "storageVolCreateXMLFrom_finish be i j newvol buildret d =
    (if \<not> buildret then delete_after_failure be i j (Raised_by ''buildVolFrom'') d
     else
       (case refreshVol be of
          None \<Rightarrow> (Inr newvol, pool_meta_add i j d)
        | Some refresh \<Rightarrow>
           let obj = pools d ! i;
               d1 = record_action (Call RefreshVol) d;
               (ok, voldef') = refresh obj (volumes obj ! j);
               d2 = upd_pool i (upd_vol j (\<lambda>_. voldef')) d1
           in
           if \<not> ok then delete_after_failure be i j (Raised_by ''refreshVol'') d2
           else (Inr newvol, pool_meta_add i j d2)))"

text \<open>
  Lines 2053 to 2055: the source volume is refreshed if the backend can. The result
  says whether the call may go on.
\<close>

definition storageVolCreateXMLFrom_refresh_src ::
  "backend \<Rightarrow> nat \<Rightarrow> nat \<Rightarrow> nat \<Rightarrow> driver_state \<Rightarrow> bool \<times> driver_state" where
  "storageVolCreateXMLFrom_refresh_src be i isrc js d =
    (case refreshVol be of
       None \<Rightarrow> (True, d)
     | Some refresh \<Rightarrow>
        let (ok, src') = refresh (pools d ! i) (volumes (pools d ! isrc) ! js)
        in (ok, upd_pool isrc (upd_vol js (\<lambda>_. src')) (record_action (Call RefreshVol) d)))"

text \<open>
  Lines 2057 to 2079: create the new volume (the code calls \<^verbatim>\<open>createVol\<close> without
  testing the pointer), take the snapshot \<^verbatim>\<open>shadowvol\<close>, make the handle and register
  the volume; then build and finish.
\<close>

definition storageVolCreateXMLFrom_create ::
  "env \<Rightarrow> backend \<Rightarrow> (pool_obj \<Rightarrow> vol_def \<Rightarrow> vol_def \<Rightarrow> flags \<Rightarrow> bool) \<Rightarrow> nat \<Rightarrow> nat option \<Rightarrow> nat \<Rightarrow> nat \<Rightarrow>
     vol_def \<Rightarrow> flags \<Rightarrow> driver_state \<Rightarrow> (vir_error + vol_handle) \<times> driver_state" where
  "storageVolCreateXMLFrom_create e be buildfrom i objsrc isrc js voldef0 fl d =
    (let (refreshed, d1) = storageVolCreateXMLFrom_refresh_src be i isrc js d
     in
     if \<not> refreshed then (Inl (Raised_by ''refreshVol''), d1)
     else
       (case createVol be of
          None \<Rightarrow> (Inl (Fault ''createVol''), d1)
        | Some create \<Rightarrow>
           let (ok, voldef, vals) = create (pools d1 ! i) (voldef0\<lparr>vol_key := None\<rparr>);
               d2 = upd_pool i (with_pool_values vals) (record_action (Call CreateVol) d1)
           in
           if \<not> ok then (Inl (Raised_by ''createVol''), d2)
           else
             (case virGetStorageVol e (pool_name (def (pools d2 ! i))) (vol_name voldef)
                     (vol_key voldef) of
                None \<Rightarrow> (Inl (Raised_by ''virGetStorageVol''), d2)
              | Some newvol \<Rightarrow>
                 let j = length (volumes (pools d2 ! i));
                     d3 = upd_pool i (virStoragePoolObjAddVol voldef) d2;
                     (buildret, d4) =
                       storageVolCreateXMLFrom_build buildfrom i j objsrc isrc js voldef fl d3
                 in storageVolCreateXMLFrom_finish be i j newvol buildret d4)))"

text \<open>
  Lines 2021 to 2031: the new volume takes the capacity of the source volume if its own
  is smaller, and its allocation is its capacity if the document gave none.
\<close>

definition storageVolCreateXMLFrom_voldef :: "vol_def \<Rightarrow> vol_def \<Rightarrow> vol_def" where
  "storageVolCreateXMLFrom_voldef voldef0 voldefsrc =
    (let voldef1 =
           (if target_capacity voldef0 < target_capacity voldefsrc
            then voldef0\<lparr>target_capacity := target_capacity voldefsrc\<rparr>
            else voldef0)
     in
     if \<not> target_has_allocation voldef1
     then voldef1\<lparr>target_allocation := target_capacity voldef1\<rparr>
     else voldef1)"

definition storageVolCreateXMLFrom ::
  "env \<Rightarrow> driver_state \<Rightarrow> pool_handle \<Rightarrow> string \<Rightarrow> vol_handle \<Rightarrow> flags \<Rightarrow>
     (vir_error + vol_handle) \<times> driver_state" where
  "storageVolCreateXMLFrom e d pool xmldesc volsrc fl =
    (if \<not> virCheckFlags fl (VIR_STORAGE_VOL_CREATE_PREALLOC_METADATA OR
                              VIR_STORAGE_VOL_CREATE_REFLINK)
     then (Inl unsupported_flags, d)
     else
       (case virStoragePoolObjFindByUUID (pools d) (h_uuid pool) of
          None \<Rightarrow>
           (Inl (Err VIR_ERR_NO_STORAGE_POOL ''no storage pool with matching uuid %s (%s)''), d)
        | Some i \<Rightarrow>
           let objsrc = (if h_name pool \<noteq> v_pool volsrc
                         then virStoragePoolObjFindByName (pools d) (v_pool volsrc) else None)
           in
           if objsrc = Some i then (Inl (Fault ''virStoragePoolObjLock''), d)
           else if h_name pool \<noteq> v_pool volsrc \<and> objsrc = None then
             (Inl (Err VIR_ERR_NO_STORAGE_POOL ''no storage pool with matching name %s''), d)
           else
             let obj = pools d ! i;
                 pdef = def obj;
                 isrc = (case objsrc of Some s \<Rightarrow> s | None \<Rightarrow> i)
             in
             if \<not> active obj then
               (Inl (Err VIR_ERR_OPERATION_INVALID ''storage pool %s is not active''), d)
             else if objsrc \<noteq> None \<and> \<not> active (pools d ! isrc) then
               (Inl (Err VIR_ERR_OPERATION_INVALID ''storage pool %s is not active''), d)
             else
               (case virStorageBackendForType e (pool_type pdef) of
                  None \<Rightarrow> (Inl (Raised_by ''virStorageBackendForType''), d)
                | Some be \<Rightarrow>
                   (case virStorageVolDefFindByName (pools d ! isrc) (v_name volsrc) of
                      None \<Rightarrow>
                       (Inl (Err VIR_ERR_NO_STORAGE_VOL
                              ''no storage vol with matching name %s''), d)
                    | Some js \<Rightarrow>
                       (case virStorageVolDefParseString e pdef xmldesc of
                          None \<Rightarrow> (Inl (Raised_by ''virStorageVolDefParseString''), d)
                        | Some voldef0 \<Rightarrow>
                           if \<not> EnsureACL e ''virStorageVolCreateXMLFrom'' pdef (Some voldef0) then
                             (Inl (Raised_by ''virStorageVolCreateXMLFromEnsureACL''), d)
                           else if virStorageVolDefFindByName obj (vol_name voldef0) \<noteq> None then
                             (Inl (Err VIR_ERR_INTERNAL_ERROR
                                    ''storage volume name %s already in use.''), d)
                           else
                             let voldefsrc = volumes (pools d ! isrc) ! js;
                                 voldef2 = storageVolCreateXMLFrom_voldef voldef0 voldefsrc
                             in
                             (case buildVolFrom be of
                                None \<Rightarrow>
                                 (Inl (Err VIR_ERR_NO_SUPPORT
                                        ''storage pool does not support volume creation from an existing volume''), d)
                              | Some buildfrom \<Rightarrow>
                                 if building voldefsrc then
                                   (Inl (Err VIR_ERR_OPERATION_INVALID
                                          ''volume %s is still being allocated.''), d)
                                 else
                                   storageVolCreateXMLFrom_create e be buildfrom i objsrc isrc js
                                     voldef2 fl d))))))"

section \<open>Pool operations\<close>

text \<open>
  \<^verbatim>\<open>virFileBuildPath\<close> joins directory, name and extension; the state file of a pool
  is \<^verbatim>\<open>virFileBuildPath(driver->stateDir, def->name, ".xml")\<close>. \<^verbatim>\<open>unlink\<close> removes a
  path; the driver ignores its result.
\<close>

definition virFileBuildPath :: "string \<Rightarrow> string \<Rightarrow> string \<Rightarrow> string" where
  "virFileBuildPath dir name ext = dir @ ''/'' @ name @ ext"

definition unlink :: "string \<Rightarrow> driver_state \<Rightarrow> driver_state" where
  "unlink path d = d\<lparr>files := files d - {path}\<rparr>"

text \<open>
  Modelled from the spec: the insertion and removal operations of the Pool Registry,
  which live in the pool-object module. \<^verbatim>\<open>insert\<close> "rejects if a definition with the
  same name or UUID already exists"; \<^verbatim>\<open>virStoragePoolObjIsDuplicate\<close> is that test
  (\<open>True\<close> when the new definition is rejected). \<^verbatim>\<open>virStoragePoolObjAssignDef\<close> then
  adds a fresh, inactive, transient Pool Object for the definition at the end of the
  list, and \<^verbatim>\<open>virStoragePoolObjRemove\<close> takes a Pool Object out of the list.
\<close>

definition virStoragePoolObjIsDuplicate :: "pool_obj list \<Rightarrow> pool_def \<Rightarrow> bool" where
  "virStoragePoolObjIsDuplicate ps newdef =
    (virStoragePoolObjFindByUUID ps (pool_uuid newdef) \<noteq> None \<or>
     virStoragePoolObjFindByName ps (pool_name newdef) \<noteq> None)"

definition virStoragePoolObjNew :: "pool_def \<Rightarrow> pool_obj" where
  "virStoragePoolObjNew newdef =
    \<lparr>def = newdef, newDef = None, configFile = None, active = False, autostart = False,
     asyncjobs = 0, volumes = []\<rparr>"

definition virStoragePoolObjAssignDef :: "pool_obj list \<Rightarrow> pool_def \<Rightarrow> pool_obj list" where
  "virStoragePoolObjAssignDef ps newdef = ps @ [virStoragePoolObjNew newdef]"

definition virStoragePoolObjRemove :: "nat \<Rightarrow> driver_state \<Rightarrow> driver_state" where
  "virStoragePoolObjRemove i d = d\<lparr>pools := remove_nth i (pools d)\<rparr>"

text \<open>
  \<^verbatim>\<open>virStoragePoolUpdateInactive\<close>: a pool without a config file is removed from the
  list; a persistent pool with a pending definition switches to it.
\<close>

definition virStoragePoolUpdateInactive :: "nat \<Rightarrow> driver_state \<Rightarrow> driver_state" where
  "virStoragePoolUpdateInactive i d =
    (let obj = pools d ! i in
     case configFile obj of
       None \<Rightarrow> virStoragePoolObjRemove i d
     | Some _ \<Rightarrow>
        (case newDef obj of
           Some nd \<Rightarrow> upd_pool i (\<lambda>obj. obj\<lparr>def := nd, newDef := None\<rparr>) d
         | None \<Rightarrow> d))"

text \<open>The create flags and the build flags of the public API header.\<close>

definition VIR_STORAGE_POOL_CREATE_WITH_BUILD :: flags where
  "VIR_STORAGE_POOL_CREATE_WITH_BUILD = 1"

definition VIR_STORAGE_POOL_CREATE_WITH_BUILD_OVERWRITE :: flags where
  "VIR_STORAGE_POOL_CREATE_WITH_BUILD_OVERWRITE = 2"

definition VIR_STORAGE_POOL_CREATE_WITH_BUILD_NO_OVERWRITE :: flags where
  "VIR_STORAGE_POOL_CREATE_WITH_BUILD_NO_OVERWRITE = 4"

definition VIR_STORAGE_POOL_BUILD_NO_OVERWRITE :: flags where
  "VIR_STORAGE_POOL_BUILD_NO_OVERWRITE = 4"

definition VIR_STORAGE_POOL_BUILD_OVERWRITE :: flags where
  "VIR_STORAGE_POOL_BUILD_OVERWRITE = 8"

text \<open>
  The two flag checks that open \<^verbatim>\<open>storagePoolCreateXML\<close> and
  \<^verbatim>\<open>storagePoolCreate\<close>: \<^verbatim>\<open>virCheckFlags\<close> on the three create flags, then
  \<^verbatim>\<open>VIR_EXCLUSIVE_FLAGS_RET\<close> on the two build flags.
\<close>

definition pool_create_flags_error :: "flags \<Rightarrow> vir_error option" where
  "pool_create_flags_error fl =
    (if \<not> virCheckFlags fl (VIR_STORAGE_POOL_CREATE_WITH_BUILD OR
                              VIR_STORAGE_POOL_CREATE_WITH_BUILD_OVERWRITE OR
                              VIR_STORAGE_POOL_CREATE_WITH_BUILD_NO_OVERWRITE)
     then Some unsupported_flags
     else if fl AND VIR_STORAGE_POOL_BUILD_OVERWRITE \<noteq> 0 \<and>
             fl AND VIR_STORAGE_POOL_BUILD_NO_OVERWRITE \<noteq> 0
     then Some (Err VIR_ERR_INVALID_ARG ''Flags %s and %s are mutually exclusive'')
     else None)"

text \<open>
  The block \<^verbatim>\<open>if (backend->buildPool) { ... }\<close> shared by both functions: the build
  flags are derived from the create flags, and the backend builds the pool when a build
  flag results or \<^verbatim>\<open>WITH_BUILD\<close> is set. The result is \<open>False\<close> when the build failed.
\<close>

definition pool_build_flags :: "flags \<Rightarrow> flags" where
  "pool_build_flags fl =
    (if fl AND VIR_STORAGE_POOL_CREATE_WITH_BUILD_OVERWRITE \<noteq> 0
     then VIR_STORAGE_POOL_BUILD_OVERWRITE
     else if fl AND VIR_STORAGE_POOL_CREATE_WITH_BUILD_NO_OVERWRITE \<noteq> 0
     then VIR_STORAGE_POOL_BUILD_NO_OVERWRITE
     else 0)"

definition pool_create_build :: "backend \<Rightarrow> nat \<Rightarrow> flags \<Rightarrow> driver_state \<Rightarrow> bool \<times> driver_state" where
  "pool_create_build be i fl d =
    (case buildPool be of
       None \<Rightarrow> (True, d)
     | Some build \<Rightarrow>
        let build_flags = pool_build_flags fl in
        if build_flags \<noteq> 0 \<or> fl AND VIR_STORAGE_POOL_CREATE_WITH_BUILD \<noteq> 0
        then (build (pools d ! i) build_flags, record_action (Call BuildPool) d)
        else (True, d))"

text \<open>\<^verbatim>\<open>backend->startPool && backend->startPool(conn, obj) < 0\<close>, as a success flag.\<close>

definition pool_start :: "backend \<Rightarrow> nat \<Rightarrow> driver_state \<Rightarrow> bool \<times> driver_state" where
  "pool_start be i d =
    (case startPool be of
       None \<Rightarrow> (True, d)
     | Some start \<Rightarrow> (start (pools d ! i), record_action (Call StartPool) d))"

text \<open>\<^verbatim>\<open>if (backend->stopPool) backend->stopPool(conn, obj)\<close>, as a success flag.\<close>

definition pool_stop :: "backend \<Rightarrow> nat \<Rightarrow> driver_state \<Rightarrow> bool \<times> driver_state" where
  "pool_stop be i d =
    (case stopPool be of
       None \<Rightarrow> (True, d)
     | Some stop \<Rightarrow> (stop (pools d ! i), record_action (Call StopPool) d))"

text \<open>
  Clearing the volumes and calling \<^verbatim>\<open>backend->refreshPool\<close>; what the backend leaves
  in the pool is kept whether or not it succeeded.
\<close>

definition pool_refresh :: "backend \<Rightarrow> nat \<Rightarrow> driver_state \<Rightarrow> bool \<times> driver_state" where
  "pool_refresh be i d =
    (let d1 = record_action (Call RefreshPool) d;
         (ok, (cap, alloc, avail), vols') = refreshPool be (pools d1 ! i)
     in (ok,
         upd_pool i (\<lambda>obj.
           obj\<lparr>def := (def obj)\<lparr>capacity := cap, allocation := alloc, available := avail\<rparr>,
               volumes := vols'\<rparr>) d1))"

text \<open>
  The state-file block shared by \<^verbatim>\<open>storagePoolCreateXML\<close> (lines 727 to 739) and
  \<^verbatim>\<open>storagePoolCreate\<close> (lines 937 to 947): build the path, clear the volumes, write
  the state file and refresh the pool. If writing or refreshing fails, the state file is
  unlinked and the backend is asked to stop the pool. The result is the error, if any.
\<close>

definition pool_save_and_refresh ::
  "env \<Rightarrow> backend \<Rightarrow> nat \<Rightarrow> driver_state \<Rightarrow> vir_error option \<times> driver_state" where
  "pool_save_and_refresh e be i d =
    (let stateFile = virFileBuildPath (stateDir d) (pool_name (def (pools d ! i))) ''.xml'';
         d1 = upd_pool i virStoragePoolObjClearVols d
     in
     if \<not> virStoragePoolSaveState e stateFile (def (pools d1 ! i)) then
       (Some (Raised_by ''virStoragePoolSaveState''), snd (pool_stop be i (unlink stateFile d1)))
     else
       let d2 = d1\<lparr>files := insert stateFile (files d1)\<rparr>;
           (ok, d3) = pool_refresh be i d2
       in
       if \<not> ok then
         (Some (Raised_by ''refreshPool''), snd (pool_stop be i (unlink stateFile d3)))
       else (None, d3))"

definition virStoragePoolObjSetActive :: "bool \<Rightarrow> pool_obj \<Rightarrow> pool_obj" where
  "virStoragePoolObjSetActive a obj = obj\<lparr>active := a\<rparr>"

definition lifecycle_event :: "pool_def \<Rightarrow> event_kind \<Rightarrow> event" where
  "lifecycle_event pdef kind = (pool_name pdef, pool_uuid pdef, kind)"

definition storagePoolCreateXML ::
  "env \<Rightarrow> driver_state \<Rightarrow> string \<Rightarrow> flags \<Rightarrow> (vir_error + pool_handle) \<times> driver_state" where
  "storagePoolCreateXML e d xml fl =
    (case pool_create_flags_error fl of
       Some err \<Rightarrow> (Inl err, d)
     | None \<Rightarrow>
        (case virStoragePoolDefParseString e xml of
           None \<Rightarrow> (Inl (Raised_by ''virStoragePoolDefParseString''), d)
         | Some newdef \<Rightarrow>
            if \<not> EnsureACL e ''virStoragePoolCreateXML'' newdef None then
              (Inl (Raised_by ''virStoragePoolCreateXMLEnsureACL''), d)
            else if virStoragePoolObjIsDuplicate (pools d) newdef then
              (Inl (Raised_by ''virStoragePoolObjIsDuplicate''), d)
            else if virStoragePoolObjSourceFindDuplicate e (pools d) newdef then
              (Inl (Raised_by ''virStoragePoolObjSourceFindDuplicate''), d)
            else
              (case virStorageBackendForType e (pool_type newdef) of
                 None \<Rightarrow> (Inl (Raised_by ''virStorageBackendForType''), d)
               | Some be \<Rightarrow>
                  let i = length (pools d);
                      d1 = d\<lparr>pools := virStoragePoolObjAssignDef (pools d) newdef\<rparr>;
                      (built, d2) = pool_create_build be i fl d1
                  in
                  if \<not> built then (Inl (Raised_by ''buildPool''), virStoragePoolObjRemove i d2)
                  else
                    let (started, d3) = pool_start be i d2 in
                    if \<not> started then
                      (Inl (Raised_by ''startPool''), virStoragePoolObjRemove i d3)
                    else
                      (case pool_save_and_refresh e be i d3 of
                         (Some err, d4) \<Rightarrow> (Inl err, virStoragePoolObjRemove i d4)
                       | (None, d4) \<Rightarrow>
                          let pdef = def (pools d4 ! i);
                              d5 = upd_pool i (virStoragePoolObjSetActive True) d4
                          in
                          (Inr \<lparr>h_name = pool_name pdef, h_uuid = pool_uuid pdef\<rparr>,
                           virObjectEventStateQueue
                             (lifecycle_event pdef VIR_STORAGE_POOL_EVENT_STARTED) d5)))))"

definition storagePoolCreate ::
  "env \<Rightarrow> driver_state \<Rightarrow> pool_handle \<Rightarrow> flags \<Rightarrow> (vir_error + unit) \<times> driver_state" where
  "storagePoolCreate e d pool fl =
    (case pool_create_flags_error fl of
       Some err \<Rightarrow> (Inl err, d)
     | None \<Rightarrow>
        (case virStoragePoolObjFromStoragePool d pool of
           Inl err \<Rightarrow> (Inl err, d)
         | Inr i \<Rightarrow>
            let obj = pools d ! i in
            if \<not> EnsureACL e ''virStoragePoolCreate'' (def obj) None then
              (Inl (Raised_by ''virStoragePoolCreateEnsureACL''), d)
            else
              (case virStorageBackendForType e (pool_type (def obj)) of
                 None \<Rightarrow> (Inl (Raised_by ''virStorageBackendForType''), d)
               | Some be \<Rightarrow>
                  if active obj then
                    (Inl (Err VIR_ERR_OPERATION_INVALID ''storage pool %s is already active''), d)
                  else
                    let (built, d2) = pool_create_build be i fl d in
                    if \<not> built then (Inl (Raised_by ''buildPool''), d2)
                    else
                      let (started, d3) = pool_start be i d2 in
                      if \<not> started then (Inl (Raised_by ''startPool''), d3)
                      else
                        (case pool_save_and_refresh e be i d3 of
                           (Some err, d4) \<Rightarrow> (Inl err, d4)
                         | (None, d4) \<Rightarrow>
                            let pdef = def (pools d4 ! i);
                                d5 = upd_pool i (virStoragePoolObjSetActive True) d4
                            in
                            (Inr (),
                             virObjectEventStateQueue
                               (lifecycle_event pdef VIR_STORAGE_POOL_EVENT_STARTED) d5)))))"

definition storagePoolDestroy ::
  "env \<Rightarrow> driver_state \<Rightarrow> pool_handle \<Rightarrow> (vir_error + unit) \<times> driver_state" where
  "storagePoolDestroy e d pool =
    (case storagePoolObjFindByUUID d (h_uuid pool) (h_name pool) of
       Inl err \<Rightarrow> (Inl err, d)
     | Inr i \<Rightarrow>
        let obj = pools d ! i;
            pdef = def obj
        in
        if \<not> EnsureACL e ''virStoragePoolDestroy'' pdef None then
          (Inl (Raised_by ''virStoragePoolDestroyEnsureACL''), d)
        else
          (case virStorageBackendForType e (pool_type pdef) of
             None \<Rightarrow> (Inl (Raised_by ''virStorageBackendForType''), d)
           | Some be \<Rightarrow>
              if \<not> active obj then
                (Inl (Err VIR_ERR_OPERATION_INVALID ''storage pool %s is not active''), d)
              else if asyncjobs obj > 0 then
                (Inl (Err VIR_ERR_INTERNAL_ERROR ''pool %s has asynchronous jobs running.''), d)
              else
                let stateFile = virFileBuildPath (stateDir d) (pool_name pdef) ''.xml'';
                    d1 = unlink stateFile d;
                    (stopped, d2) = pool_stop be i d1
                in
                if \<not> stopped then (Inl (Raised_by ''stopPool''), d2)
                else
                  let d3 = upd_pool i virStoragePoolObjClearVols d2;
                      d4 = upd_pool i (virStoragePoolObjSetActive False) d3;
                      d5 = virStoragePoolUpdateInactive i d4
                  in
                  (Inr (),
                   virObjectEventStateQueue
                     (lifecycle_event pdef VIR_STORAGE_POOL_EVENT_STOPPED) d5)))"

definition storagePoolRefresh ::
  "env \<Rightarrow> driver_state \<Rightarrow> pool_handle \<Rightarrow> flags \<Rightarrow> (vir_error + unit) \<times> driver_state" where
  "storagePoolRefresh e d pool fl =
    (if \<not> virCheckFlags fl 0 then (Inl unsupported_flags, d)
     else
       (case storagePoolObjFindByUUID d (h_uuid pool) (h_name pool) of
          Inl err \<Rightarrow> (Inl err, d)
        | Inr i \<Rightarrow>
           let obj = pools d ! i;
               pdef = def obj
           in
           if \<not> EnsureACL e ''virStoragePoolRefresh'' pdef None then
             (Inl (Raised_by ''virStoragePoolRefreshEnsureACL''), d)
           else
             (case virStorageBackendForType e (pool_type pdef) of
                None \<Rightarrow> (Inl (Raised_by ''virStorageBackendForType''), d)
              | Some be \<Rightarrow>
                 if \<not> active obj then
                   (Inl (Err VIR_ERR_OPERATION_INVALID ''storage pool %s is not active''), d)
                 else if asyncjobs obj > 0 then
                   (Inl (Err VIR_ERR_INTERNAL_ERROR
                          ''pool %s has asynchronous jobs running.''), d)
                 else
                   let d1 = upd_pool i virStoragePoolObjClearVols d;
                       (ok, d2) = pool_refresh be i d1;
                       pdef2 = def (pools d2 ! i)
                   in
                   if \<not> ok then
                     let d3 = snd (pool_stop be i d2);
                         d4 = upd_pool i (virStoragePoolObjSetActive False) d3;
                         d5 = virStoragePoolUpdateInactive i d4
                     in
                     (Inl (Raised_by ''refreshPool''),
                      virObjectEventStateQueue
                        (lifecycle_event pdef2 VIR_STORAGE_POOL_EVENT_STOPPED) d5)
                   else
                     (Inr (),
                      virObjectEventStateQueue (lifecycle_event pdef2 EVENT_REFRESH) d2))))"

section \<open>The refresh after an upload\<close>

text \<open>
  \<^verbatim>\<open>virStorageBackendPloopRestoreDesc\<close>: remove the descriptor of a ploop volume, find
  the \<^verbatim>\<open>ploop\<close> tool and run it. The result is \<open>True\<close> for the C return value 0.
\<close>

definition virStorageBackendPloopRestoreDesc :: "env \<Rightarrow> string \<Rightarrow> bool" where
  "virStorageBackendPloopRestoreDesc e path =
    (let desc = path @ ''/DiskDescriptor.xml'' in
     if \<not> virFileRemove e desc then False
     else
       (case virFindFileInPath e ''ploop'' of
          None \<Rightarrow> False
        | Some refresh_tool \<Rightarrow>
           virCommandRun e [refresh_tool, ''restore-descriptor'', path, path @ ''/root.hds'']))"

text \<open>\<^verbatim>\<open>virStorageVolStreamInfo\<close>, the data handed to the refresh thread.\<close>

record stream_info =
  cb_pool_name :: string
  cb_vol_path :: "string option"

text \<open>
  \<^verbatim>\<open>virStorageVolPoolRefreshThread\<close> returns nothing; its whole effect is the new
  driver state.
\<close>

definition virStorageVolPoolRefreshThread :: "env \<Rightarrow> driver_state \<Rightarrow> stream_info \<Rightarrow> driver_state" where
  "virStorageVolPoolRefreshThread e d cbdata =
    (if (case cb_vol_path cbdata of
           Some p \<Rightarrow> \<not> virStorageBackendPloopRestoreDesc e p
         | None \<Rightarrow> False)
     then d
     else
       (case virStoragePoolObjFindByName (pools d) (cb_pool_name cbdata) of
          None \<Rightarrow> d
        | Some i \<Rightarrow>
           let obj = pools d ! i in
           if asyncjobs obj > 0 then d
           else
             (case virStorageBackendForType e (pool_type (def obj)) of
                None \<Rightarrow> d
              | Some be \<Rightarrow>
                 let d1 = upd_pool i virStoragePoolObjClearVols d;
                     (ok, d2) = pool_refresh be i d1
                 in
                 virObjectEventStateQueue
                   (lifecycle_event (def (pools d2 ! i)) EVENT_REFRESH) d2)))"

section \<open>A concrete configuration\<close>

text \<open>
  A small configuration on which the operations are evaluated: a backend whose entry
  points all succeed and leave the pool values alone (it has no \<^verbatim>\<open>buildPool\<close>,
  \<^verbatim>\<open>deletePool\<close> and \<^verbatim>\<open>refreshVol\<close>), an
  environment that grants every access, reads a pool or volume document as the name of
  the object, and one active persistent pool \<open>p1\<close> with a volume \<open>v1\<close> of ten bytes.
\<close>

definition sample_vol :: "string \<Rightarrow> u64 \<Rightarrow> vol_def" where
  "sample_vol name cap =
    \<lparr>vol_name = name, vol_key = None, target_path = [], target_capacity = cap,
     target_allocation = cap, target_has_allocation = True, target_physical = 0,
     building = False, in_use = 0\<rparr>"

definition sample_pool_def :: "string \<Rightarrow> pool_type \<Rightarrow> pool_def" where
  "sample_pool_def name ty =
    \<lparr>pool_name = name, pool_uuid = name, pool_type = ty, pool_target_path = [],
     capacity = 100, allocation = 10, available = 90\<rparr>"

definition sample_pool :: "string \<Rightarrow> pool_type \<Rightarrow> pool_obj" where
  "sample_pool name ty =
    \<lparr>def = sample_pool_def name ty, newDef = None, configFile = Some ''/etc/p.xml'',
     active = True, autostart = False, asyncjobs = 0, volumes = [sample_vol ''v1'' 10]\<rparr>"

definition sample_backend :: backend where
  "sample_backend =
    \<lparr>buildPool = None,
     startPool = Some (\<lambda>_. True),
     stopPool = Some (\<lambda>_. True),
     deletePool = None,
     refreshPool = (\<lambda>obj. (True, (100, 0, 100), [])),
     createVol = Some (\<lambda>obj v. (True, v\<lparr>vol_key := Some (vol_name v)\<rparr>, pool_values_of obj)),
     buildVol = Some (\<lambda>_ _ _. True),
     buildVolFrom = Some (\<lambda>_ _ _ _. True),
     refreshVol = None,
     deleteVol = Some (\<lambda>obj _ _. (True, pool_values_of obj)),
     resizeVol = Some (\<lambda>_ _ _ _. True),
     wipeVol = Some (\<lambda>_ _ _ _. True)\<rparr>"

text \<open>
  A backend as the driver's comments describe the one of the disk pools: creating and
  deleting a volume updates the pool values itself, by the allocation of the volume. It
  has no entry points for building and for resizing a volume.
\<close>

definition sample_disk_backend :: backend where
  "sample_disk_backend =
    sample_backend
      \<lparr>createVol := Some (\<lambda>obj v.
         (True, v\<lparr>vol_key := Some (vol_name v)\<rparr>,
          (capacity (def obj), allocation (def obj) + target_allocation v,
           available (def obj) - target_allocation v))),
       buildVol := None,
       deleteVol := Some (\<lambda>obj v _.
         (True, (capacity (def obj), allocation (def obj) - target_allocation v,
                 available (def obj) + target_allocation v))),
       resizeVol := None\<rparr>"

definition sample_env :: "backend \<Rightarrow> env" where
  "sample_env be =
    \<lparr>virStorageBackendForType = (\<lambda>_. Some be),
     virStoragePoolDefParseString = (\<lambda>xml. Some (sample_pool_def xml VIR_STORAGE_POOL_DIR)),
     virStorageVolDefParseString = (\<lambda>_ xml. Some (sample_vol xml 10)),
     EnsureACL = (\<lambda>_ _ _. True),
     virStoragePoolSaveState = (\<lambda>_ _. True),
     virStoragePoolObjSourceFindDuplicate = (\<lambda>_ _. False),
     virGetStorageVol = (\<lambda>p n k. Some \<lparr>v_pool = p, v_name = n, v_key = k\<rparr>),
     virFileRemove = (\<lambda>_. True),
     virFindFileInPath = (\<lambda>_. Some ''/usr/sbin/ploop''),
     virCommandRun = (\<lambda>_. True),
     virStorageBackendRefreshVolTargetUpdate = (\<lambda>v. (0, v))\<rparr>"

definition sample_driver :: "pool_type \<Rightarrow> driver_state" where
  "sample_driver ty =
    \<lparr>pools = [sample_pool ''p1'' ty], stateDir = ''/run'', files = {''/run/p1.xml''},
     events = [], journal = []\<rparr>"

text \<open>Two pools of this kind, \<open>p1\<close> and \<open>p2\<close>, for a clone from one pool into another.\<close>

definition sample_driver2 :: driver_state where
  "sample_driver2 =
    \<lparr>pools = [sample_pool ''p1'' VIR_STORAGE_POOL_DIR, sample_pool ''p2'' VIR_STORAGE_POOL_DIR],
     stateDir = ''/run'', files = {''/run/p1.xml'', ''/run/p2.xml''},
     events = [], journal = []\<rparr>"

definition sample_vol_handle :: vol_handle where
  "sample_vol_handle = \<lparr>v_pool = ''p1'', v_name = ''v1'', v_key = None\<rparr>"

definition sample_pool_handle :: pool_handle where
  "sample_pool_handle = \<lparr>h_name = ''p1'', h_uuid = ''p1''\<rparr>"

section \<open>Error classes of the design\<close>

text \<open>
  The error taxonomy of the design puts a failure into the class invalid-state when
  the "operation [is] forbidden by current state: already active, still active, still has
  async jobs, volume in-use/building". The class is read off the error the driver
  reports for each of these states (and for a pool that is not active).
\<close>

definition invalid_state_error :: "vir_error \<Rightarrow> bool" where
  "invalid_state_error err =
    (err \<in> {Err VIR_ERR_OPERATION_INVALID ''storage pool %s is already active'',
            Err VIR_ERR_OPERATION_INVALID ''storage pool %s is still active'',
            Err VIR_ERR_OPERATION_INVALID ''storage pool %s is not active'',
            Err VIR_ERR_INTERNAL_ERROR ''pool %s has asynchronous jobs running.'',
            Err VIR_ERR_OPERATION_INVALID ''volume %s is still in use.'',
            Err VIR_ERR_OPERATION_INVALID ''volume %s is still being allocated.''})"

section \<open>Observations on a driver state\<close>

text \<open>
  The async-job counters of all pools, in list order, and the part of the journal
  that concerns async jobs: the changes of a counter and the two backend calls that run
  with the pool lock dropped.
\<close>

definition job_counts :: "driver_state \<Rightarrow> nat list" where
  "job_counts d = map asyncjobs (pools d)"

fun async_related :: "action \<Rightarrow> bool" where
  "async_related (IncrAsyncjobs _) = True"
| "async_related (DecrAsyncjobs _) = True"
| "async_related (Call ep) = (ep = BuildVol \<or> ep = BuildVolFrom)"

definition async_trace :: "driver_state \<Rightarrow> action list" where
  "async_trace d = filter async_related (journal d)"

text \<open>
  The name and the active flag of every pool, in list order; whether a state file
  exists for a pool name; and the state-file rule the driver keeps: a state file exists
  for a name only if an active pool of that name is in the pool list. For the pools in
  the list this says that an inactive pool has no state file.
\<close>

definition pool_status :: "driver_state \<Rightarrow> (string \<times> bool) list" where
  "pool_status d = map (\<lambda>obj. (pool_name (def obj), active obj)) (pools d)"

definition has_state_file :: "driver_state \<Rightarrow> string \<Rightarrow> bool" where
  "has_state_file d name = (virFileBuildPath (stateDir d) name ''.xml'' \<in> files d)"

definition state_files_backed :: "driver_state \<Rightarrow> bool" where
  "state_files_backed d = (\<forall>name. has_state_file d name \<longrightarrow> (name, True) \<in> set (pool_status d))"

text \<open>
  The pool object as \<open>pool_refresh\<close> leaves it: the counters and the volumes are
  those the backend reported.
\<close>

definition refreshed_obj :: "backend \<Rightarrow> pool_obj \<Rightarrow> pool_obj" where
  "refreshed_obj be obj =
    (case refreshPool be obj of
       (ok, (cap, alloc, avail), vols') \<Rightarrow>
         obj\<lparr>def := (def obj)\<lparr>capacity := cap, allocation := alloc, available := avail\<rparr>,
             volumes := vols'\<rparr>)"

section \<open>Verified properties\<close>

subsection \<open>Lookups\<close>

lemma find_idx_Some: "find_idx P xs = Some i \<Longrightarrow> i < length xs \<and> P (xs ! i)"
proof (induction xs arbitrary: i)
  case Nil
  then show ?case by simp
next
  case (Cons x xs)
  then show ?case by (auto split: if_splits)
qed

lemma virStorageVolDefFromVol_Inr:
  assumes "virStorageVolDefFromVol e d vol = Inr (i, j, be)"
  shows "i < length (pools d)" and "j < length (volumes (pools d ! i))"
    and "active (pools d ! i)"
    and "virStorageBackendForType e (pool_type (def (pools d ! i))) = Some be"
    and "pool_name (def (pools d ! i)) = v_pool vol"
    and "vol_name (volumes (pools d ! i) ! j) = v_name vol"
  using assms
  by (auto simp: virStorageVolDefFromVol_def virStoragePoolObjFindByName_def
      virStorageVolDefFindByName_def Let_def
      split: option.splits if_splits dest: find_idx_Some)

subsection \<open>Resize: the target capacity\<close>

text \<open>
  C10. When both the delta and the shrink flag are set, the absolute target capacity
  computed by \<^verbatim>\<open>storageVolResize\<close> is the current capacity minus the smaller of the
  requested delta and the current capacity. Read as unbounded numbers the result is
  exactly that difference, so the 64-bit subtraction never wraps; it is at most the
  current capacity, and it is zero whenever the requested delta reaches or exceeds the
  current capacity.
\<close>

theorem resize_delta_shrink_clamped:
  assumes "fl AND VIR_STORAGE_VOL_RESIZE_DELTA \<noteq> 0"
    and "fl AND VIR_STORAGE_VOL_RESIZE_SHRINK \<noteq> 0"
  shows "resize_abs_capacity fl cap cur = cur - min cap cur \<and>
         unat (resize_abs_capacity fl cap cur) = unat cur - min (unat cap) (unat cur) \<and>
         resize_abs_capacity fl cap cur \<le> cur \<and>
         (cur \<le> cap \<longrightarrow> resize_abs_capacity fl cap cur = 0)"
proof -
  have eq: "resize_abs_capacity fl cap cur = cur - min cap cur"
    using assms by (simp add: resize_abs_capacity_def)
  have le: "min cap cur \<le> cur" by simp
  have "unat (cur - min cap cur) = unat cur - min (unat cap) (unat cur)"
    using le by (metis min_def unat_sub word_le_nat_alt)
  moreover have "cur - min cap cur \<le> cur"
    using le by (simp add: word_sub_le)
  moreover have "cur \<le> cap \<longrightarrow> cur - min cap cur = 0"
    by (simp add: min_def)
  ultimately show ?thesis
    unfolding eq by simp
qed

theorem resize_delta_shrink_clamped_witness:
  "(6::flags) AND VIR_STORAGE_VOL_RESIZE_DELTA \<noteq> 0 \<and>
   (6::flags) AND VIR_STORAGE_VOL_RESIZE_SHRINK \<noteq> 0 \<and>
   (10::u64) \<le> 30 \<and>
   resize_abs_capacity 6 30 10 = 0 \<and>
   unat (resize_abs_capacity 6 3 10) = 7"
proof -
  have h1: "(6::flags) AND VIR_STORAGE_VOL_RESIZE_DELTA \<noteq> 0"
    by (simp add: VIR_STORAGE_VOL_RESIZE_DELTA_def)
  have h2: "(6::flags) AND VIR_STORAGE_VOL_RESIZE_SHRINK \<noteq> 0"
    by (simp add: VIR_STORAGE_VOL_RESIZE_SHRINK_def)
  have h3: "(10::u64) \<le> 30" by simp
  show ?thesis
    using h1 h2 h3 resize_delta_shrink_clamped [OF h1 h2, of 30 10]
      resize_delta_shrink_clamped [OF h1 h2, of 3 10]
    by simp
qed

subsection \<open>Resize: what is refused and what a permitted resize does\<close>

lemma resize_flags_shrink:
  "resize_flags fl AND VIR_STORAGE_VOL_RESIZE_SHRINK = fl AND VIR_STORAGE_VOL_RESIZE_SHRINK"
proof -
  have "NOT (2::flags) AND 4 = 4" by simp
  then have "(fl AND NOT 2) AND 4 = fl AND 4" by (simp add: and.assoc)
  then show ?thesis
    by (simp add: resize_flags_def VIR_STORAGE_VOL_RESIZE_SHRINK_def
        VIR_STORAGE_VOL_RESIZE_DELTA_def)
qed

lemma resize_flags_allocate:
  "resize_flags fl AND VIR_STORAGE_VOL_RESIZE_ALLOCATE = fl AND VIR_STORAGE_VOL_RESIZE_ALLOCATE"
proof -
  have "NOT (2::flags) AND 1 = 1" by simp
  then have "(fl AND NOT 2) AND 1 = fl AND 1" by (simp add: and.assoc)
  then show ?thesis
    by (simp add: resize_flags_def VIR_STORAGE_VOL_RESIZE_ALLOCATE_def
        VIR_STORAGE_VOL_RESIZE_DELTA_def)
qed

lemma resize_fails_below_allocation:
  assumes "virStorageVolDefFromVol e d vol = Inr (i, j, be)"
    and "resize_abs_capacity fl cap (target_capacity (volumes (pools d ! i) ! j))
          < target_allocation (volumes (pools d ! i) ! j)"
  shows "\<exists>err. storageVolResize e d vol cap fl = (Inl err, d)"
  using assms by (simp add: storageVolResize_def Let_def)

lemma resize_fails_without_shrink:
  assumes "virStorageVolDefFromVol e d vol = Inr (i, j, be)"
    and "resize_abs_capacity fl cap (target_capacity (volumes (pools d ! i) ! j))
          < target_capacity (volumes (pools d ! i) ! j)"
    and "fl AND VIR_STORAGE_VOL_RESIZE_SHRINK = 0"
  shows "\<exists>err. storageVolResize e d vol cap fl = (Inl err, d)"
  using assms by (simp add: storageVolResize_def Let_def resize_flags_shrink)

lemma resize_succeeds:
  assumes lookup: "virStorageVolDefFromVol e d vol = Inr (i, j, be)"
    and flags_ok: "virCheckFlags fl (VIR_STORAGE_VOL_RESIZE_ALLOCATE OR
                     VIR_STORAGE_VOL_RESIZE_DELTA OR VIR_STORAGE_VOL_RESIZE_SHRINK)"
    and acl: "EnsureACL e ''virStorageVolResize'' (def (pools d ! i))
                (Some (volumes (pools d ! i) ! j))"
    and idle: "in_use (volumes (pools d ! i) ! j) = 0" "\<not> building (volumes (pools d ! i) ! j)"
    and a: "a = resize_abs_capacity fl cap (target_capacity (volumes (pools d ! i) ! j))"
    and ge_alloc: "target_allocation (volumes (pools d ! i) ! j) \<le> a"
    and shrink: "target_capacity (volumes (pools d ! i) ! j) \<le> a \<or>
                 fl AND VIR_STORAGE_VOL_RESIZE_SHRINK \<noteq> 0"
    and alloc: "fl AND VIR_STORAGE_VOL_RESIZE_ALLOCATE \<noteq> 0"
    and fits: "a - target_allocation (volumes (pools d ! i) ! j) \<le> available (def (pools d ! i))"
    and be: "resizeVol be = Some rz"
            "rz (pools d ! i) (volumes (pools d ! i) ! j) a (resize_flags fl)"
  shows "fst (storageVolResize e d vol cap fl) = Inr () \<and>
    pools (snd (storageVolResize e d vol cap fl)) = (pools d)[i := (pools d ! i)
          \<lparr>volumes := (volumes (pools d ! i))[j := (volumes (pools d ! i) ! j)
             \<lparr>target_capacity := a, target_allocation := a\<rparr>],
           def := (def (pools d ! i))
             \<lparr>allocation := allocation (def (pools d ! i)) +
                            (a - target_allocation (volumes (pools d ! i) ! j)),
              available := available (def (pools d ! i)) -
                            (a - target_allocation (volumes (pools d ! i) ! j))\<rparr>\<rparr>]"
proof -
  have i: "i < length (pools d)" using virStorageVolDefFromVol_Inr(1)[OF lookup] .
  have n1: "\<not> a < target_allocation (volumes (pools d ! i) ! j)"
    using ge_alloc by simp
  have n2: "\<not> (a < target_capacity (volumes (pools d ! i) ! j) \<and>
               fl AND VIR_STORAGE_VOL_RESIZE_SHRINK = 0)"
    using shrink by auto
  have n3: "\<not> available (def (pools d ! i)) < a - target_allocation (volumes (pools d ! i) ! j)"
    using fits by simp
  show ?thesis
    using lookup flags_ok acl idle n1 n2 n3 alloc be i
    unfolding a
    by (simp add: storageVolResize_def Let_def resize_flags_shrink resize_flags_allocate
        upd_pool_def upd_vol_def record_action_def)
qed

text \<open>
  C4. Let the handle resolve to volume \<open>j\<close> of the active pool \<open>i\<close>, and let \<open>a\<close> be
  the absolute target capacity after the delta conversion. (1) If \<open>a\<close> is below the
  volume's allocation, \<^verbatim>\<open>storageVolResize\<close> fails for every flags value and leaves the
  driver state as it was. (2) If \<open>a\<close> is below the volume's capacity and the shrink flag
  is not set, it fails and leaves the state as it was. (3) If the flags are supported,
  access is granted, the volume is neither in use nor being built, \<open>a\<close> is not below
  the allocation, \<open>a\<close> is not below the capacity unless the shrink flag is set, the
  allocate flag is set, the allocation delta \<open>a - allocation\<close> is at most the pool's
  available space, and the backend has a \<^verbatim>\<open>resizeVol\<close> entry point that succeeds, then
  the call succeeds, the volume's capacity and allocation are both \<open>a\<close>, the pool's
  \<^verbatim>\<open>allocation\<close> has grown and its \<^verbatim>\<open>available\<close> has shrunk by exactly the delta, and
  nothing else in the pool list has changed.
\<close>

theorem storageVolResize_contract:
  assumes lookup: "virStorageVolDefFromVol e d vol = Inr (i, j, be)"
    and a: "a = resize_abs_capacity fl cap (target_capacity (volumes (pools d ! i) ! j))"
  shows
   "(a < target_allocation (volumes (pools d ! i) ! j) \<longrightarrow>
       (\<exists>err. storageVolResize e d vol cap fl = (Inl err, d))) \<and>
    (a < target_capacity (volumes (pools d ! i) ! j) \<and>
     fl AND VIR_STORAGE_VOL_RESIZE_SHRINK = 0 \<longrightarrow>
       (\<exists>err. storageVolResize e d vol cap fl = (Inl err, d))) \<and>
    (virCheckFlags fl (VIR_STORAGE_VOL_RESIZE_ALLOCATE OR
        VIR_STORAGE_VOL_RESIZE_DELTA OR VIR_STORAGE_VOL_RESIZE_SHRINK) \<and>
     EnsureACL e ''virStorageVolResize'' (def (pools d ! i)) (Some (volumes (pools d ! i) ! j)) \<and>
     in_use (volumes (pools d ! i) ! j) = 0 \<and>
     \<not> building (volumes (pools d ! i) ! j) \<and>
     target_allocation (volumes (pools d ! i) ! j) \<le> a \<and>
     (target_capacity (volumes (pools d ! i) ! j) \<le> a \<or>
      fl AND VIR_STORAGE_VOL_RESIZE_SHRINK \<noteq> 0) \<and>
     fl AND VIR_STORAGE_VOL_RESIZE_ALLOCATE \<noteq> 0 \<and>
     a - target_allocation (volumes (pools d ! i) ! j) \<le> available (def (pools d ! i)) \<and>
     (\<exists>rz. resizeVol be = Some rz \<and>
           rz (pools d ! i) (volumes (pools d ! i) ! j) a (resize_flags fl)) \<longrightarrow>
       fst (storageVolResize e d vol cap fl) = Inr () \<and>
       pools (snd (storageVolResize e d vol cap fl)) = (pools d)[i := (pools d ! i)
          \<lparr>volumes := (volumes (pools d ! i))[j := (volumes (pools d ! i) ! j)
             \<lparr>target_capacity := a, target_allocation := a\<rparr>],
           def := (def (pools d ! i))
             \<lparr>allocation := allocation (def (pools d ! i)) +
                            (a - target_allocation (volumes (pools d ! i) ! j)),
              available := available (def (pools d ! i)) -
                            (a - target_allocation (volumes (pools d ! i) ! j))\<rparr>\<rparr>])"
proof (intro conjI impI)
  assume "a < target_allocation (volumes (pools d ! i) ! j)"
  then show "\<exists>err. storageVolResize e d vol cap fl = (Inl err, d)"
    using resize_fails_below_allocation [OF lookup] a by simp
next
  assume "a < target_capacity (volumes (pools d ! i) ! j) \<and>
          fl AND VIR_STORAGE_VOL_RESIZE_SHRINK = 0"
  then show "\<exists>err. storageVolResize e d vol cap fl = (Inl err, d)"
    using resize_fails_without_shrink [OF lookup] a by simp
next
  assume h: "virCheckFlags fl (VIR_STORAGE_VOL_RESIZE_ALLOCATE OR
        VIR_STORAGE_VOL_RESIZE_DELTA OR VIR_STORAGE_VOL_RESIZE_SHRINK) \<and>
     EnsureACL e ''virStorageVolResize'' (def (pools d ! i)) (Some (volumes (pools d ! i) ! j)) \<and>
     in_use (volumes (pools d ! i) ! j) = 0 \<and>
     \<not> building (volumes (pools d ! i) ! j) \<and>
     target_allocation (volumes (pools d ! i) ! j) \<le> a \<and>
     (target_capacity (volumes (pools d ! i) ! j) \<le> a \<or>
      fl AND VIR_STORAGE_VOL_RESIZE_SHRINK \<noteq> 0) \<and>
     fl AND VIR_STORAGE_VOL_RESIZE_ALLOCATE \<noteq> 0 \<and>
     a - target_allocation (volumes (pools d ! i) ! j) \<le> available (def (pools d ! i)) \<and>
     (\<exists>rz. resizeVol be = Some rz \<and>
           rz (pools d ! i) (volumes (pools d ! i) ! j) a (resize_flags fl))"
  then obtain rz where rz: "resizeVol be = Some rz"
      "rz (pools d ! i) (volumes (pools d ! i) ! j) a (resize_flags fl)"
    by blast
  have r: "fst (storageVolResize e d vol cap fl) = Inr () \<and>
    pools (snd (storageVolResize e d vol cap fl)) = (pools d)[i := (pools d ! i)
          \<lparr>volumes := (volumes (pools d ! i))[j := (volumes (pools d ! i) ! j)
             \<lparr>target_capacity := a, target_allocation := a\<rparr>],
           def := (def (pools d ! i))
             \<lparr>allocation := allocation (def (pools d ! i)) +
                            (a - target_allocation (volumes (pools d ! i) ! j)),
              available := available (def (pools d ! i)) -
                            (a - target_allocation (volumes (pools d ! i) ! j))\<rparr>\<rparr>]"
    using resize_succeeds [OF lookup _ _ _ _ a _ _ _ _ rz] h by simp
  from r show "fst (storageVolResize e d vol cap fl) = Inr ()" by simp
  from r show "pools (snd (storageVolResize e d vol cap fl)) = (pools d)[i := (pools d ! i)
          \<lparr>volumes := (volumes (pools d ! i))[j := (volumes (pools d ! i) ! j)
             \<lparr>target_capacity := a, target_allocation := a\<rparr>],
           def := (def (pools d ! i))
             \<lparr>allocation := allocation (def (pools d ! i)) +
                            (a - target_allocation (volumes (pools d ! i) ! j)),
              available := available (def (pools d ! i)) -
                            (a - target_allocation (volumes (pools d ! i) ! j))\<rparr>\<rparr>]" by simp
qed
lemmas sample_defs = sample_vol_def sample_pool_def_def sample_pool_def sample_backend_def
  sample_env_def sample_driver_def sample_vol_handle_def sample_pool_handle_def

lemma sample_lookup:
  "virStorageVolDefFromVol (sample_env be) (sample_driver ty) sample_vol_handle = Inr (0, 0, be)"
  by (simp add: sample_defs virStorageVolDefFromVol_def virStoragePoolObjFindByName_def
      virStorageVolDefFindByName_def)

theorem storageVolResize_contract_witness:
  "virStorageVolDefFromVol (sample_env sample_backend) (sample_driver VIR_STORAGE_POOL_DIR)
      sample_vol_handle = Inr (0, 0, sample_backend) \<and>
   (\<exists>err. storageVolResize (sample_env sample_backend) (sample_driver VIR_STORAGE_POOL_DIR)
            sample_vol_handle 5 VIR_STORAGE_VOL_RESIZE_SHRINK
          = (Inl err, sample_driver VIR_STORAGE_POOL_DIR)) \<and>
   (\<exists>err. storageVolResize (sample_env sample_backend) (sample_driver VIR_STORAGE_POOL_DIR)
            sample_vol_handle 5 0
          = (Inl err, sample_driver VIR_STORAGE_POOL_DIR)) \<and>
   fst (storageVolResize (sample_env sample_backend) (sample_driver VIR_STORAGE_POOL_DIR)
          sample_vol_handle 30 VIR_STORAGE_VOL_RESIZE_ALLOCATE) = Inr () \<and>
   map (\<lambda>obj. (allocation (def obj), available (def obj),
              map (\<lambda>v. (target_capacity v, target_allocation v)) (volumes obj)))
     (pools (snd (storageVolResize (sample_env sample_backend)
                    (sample_driver VIR_STORAGE_POOL_DIR)
                    sample_vol_handle 30 VIR_STORAGE_VOL_RESIZE_ALLOCATE)))
     = [(30, 70, [(30, 30)])]"
proof -
  let ?e = "sample_env sample_backend" and ?d = "sample_driver VIR_STORAGE_POOL_DIR"
  have lookup: "virStorageVolDefFromVol ?e ?d sample_vol_handle = Inr (0, 0, sample_backend)"
    by (rule sample_lookup)
  have below: "\<exists>err. storageVolResize ?e ?d sample_vol_handle 5 VIR_STORAGE_VOL_RESIZE_SHRINK
                 = (Inl err, ?d)"
    using storageVolResize_contract [OF lookup refl, of VIR_STORAGE_VOL_RESIZE_SHRINK 5]
    by (simp add: sample_defs resize_abs_capacity_def VIR_STORAGE_VOL_RESIZE_SHRINK_def
        VIR_STORAGE_VOL_RESIZE_DELTA_def)
  have noshrink: "\<exists>err. storageVolResize ?e ?d sample_vol_handle 5 0 = (Inl err, ?d)"
    using storageVolResize_contract [OF lookup refl, of 0 5]
    by (simp add: sample_defs resize_abs_capacity_def)
  have ok: "fst (storageVolResize ?e ?d sample_vol_handle 30 VIR_STORAGE_VOL_RESIZE_ALLOCATE)
              = Inr () \<and>
        map (\<lambda>obj. (allocation (def obj), available (def obj),
              map (\<lambda>v. (target_capacity v, target_allocation v)) (volumes obj)))
          (pools (snd (storageVolResize ?e ?d sample_vol_handle 30
                         VIR_STORAGE_VOL_RESIZE_ALLOCATE)))
          = [(30, 70, [(30, 30)])]"
    using storageVolResize_contract [OF lookup refl, of VIR_STORAGE_VOL_RESIZE_ALLOCATE 30]
    by (simp add: sample_defs resize_abs_capacity_def resize_flags_def virCheckFlags_def
        VIR_STORAGE_VOL_RESIZE_SHRINK_def VIR_STORAGE_VOL_RESIZE_DELTA_def
        VIR_STORAGE_VOL_RESIZE_ALLOCATE_def)
  from lookup below noshrink ok show ?thesis by blast
qed

subsection \<open>Wipe\<close>

text \<open>
  C9. For every environment, driver state, volume handle and flags value,
  \<^verbatim>\<open>storageVolWipe\<close> returns the same result and leaves the same driver state (volume
  and pool included) as \<^verbatim>\<open>storageVolWipePattern\<close> called with the zero algorithm.
\<close>

theorem storageVolWipe_is_WipePattern_zero:
  "storageVolWipe e d vol fl = storageVolWipePattern e d vol VIR_STORAGE_VOL_WIPE_ALG_ZERO fl"
  by (simp add: storageVolWipe_def)

subsection \<open>Destroy while a build is running\<close>

lemma storagePoolObjFindByUUID_Inr:
  "storagePoolObjFindByUUID d uuid name = Inr i \<Longrightarrow>
     i < length (pools d) \<and> pool_uuid (def (pools d ! i)) = uuid"
  by (auto simp: storagePoolObjFindByUUID_def virStoragePoolObjFindByUUID_def
      split: option.splits dest: find_idx_Some)

text \<open>
  C5. If the handle resolves to a pool whose async-job counter is positive,
  \<^verbatim>\<open>storagePoolDestroy\<close> fails and returns the driver state it was given: the pool is
  still in the list, still active if it was, and no field of it has changed. If moreover
  access is granted, the pool's backend exists and the pool is active, the error is the
  one reported for running asynchronous jobs, which belongs to the invalid-state class.
\<close>

theorem storagePoolDestroy_asyncjobs:
  assumes "storagePoolObjFindByUUID d (h_uuid pool) (h_name pool) = Inr i"
    and "asyncjobs (pools d ! i) > 0"
  shows "(\<exists>err. storagePoolDestroy e d pool = (Inl err, d)) \<and>
         (EnsureACL e ''virStoragePoolDestroy'' (def (pools d ! i)) None \<and>
          virStorageBackendForType e (pool_type (def (pools d ! i))) \<noteq> None \<and>
          active (pools d ! i) \<longrightarrow>
            storagePoolDestroy e d pool =
              (Inl (Err VIR_ERR_INTERNAL_ERROR ''pool %s has asynchronous jobs running.''), d) \<and>
            invalid_state_error
              (Err VIR_ERR_INTERNAL_ERROR ''pool %s has asynchronous jobs running.''))"
  using assms
  by (auto simp: storagePoolDestroy_def Let_def invalid_state_error_def split: option.splits)

theorem storagePoolDestroy_asyncjobs_witness:
  "storagePoolObjFindByUUID ((sample_driver VIR_STORAGE_POOL_DIR)
       \<lparr>pools := [(sample_pool ''p1'' VIR_STORAGE_POOL_DIR)\<lparr>asyncjobs := 1\<rparr>]\<rparr>)
     (h_uuid sample_pool_handle) (h_name sample_pool_handle) = Inr 0 \<and>
   storagePoolDestroy (sample_env sample_backend)
     ((sample_driver VIR_STORAGE_POOL_DIR)
        \<lparr>pools := [(sample_pool ''p1'' VIR_STORAGE_POOL_DIR)\<lparr>asyncjobs := 1\<rparr>]\<rparr>)
     sample_pool_handle
   = (Inl (Err VIR_ERR_INTERNAL_ERROR ''pool %s has asynchronous jobs running.''),
      (sample_driver VIR_STORAGE_POOL_DIR)
        \<lparr>pools := [(sample_pool ''p1'' VIR_STORAGE_POOL_DIR)\<lparr>asyncjobs := 1\<rparr>]\<rparr>)"
proof -
  let ?d = "(sample_driver VIR_STORAGE_POOL_DIR)
        \<lparr>pools := [(sample_pool ''p1'' VIR_STORAGE_POOL_DIR)\<lparr>asyncjobs := 1\<rparr>]\<rparr>"
  have found: "storagePoolObjFindByUUID ?d (h_uuid sample_pool_handle)
                 (h_name sample_pool_handle) = Inr 0"
    by (simp add: sample_defs storagePoolObjFindByUUID_def virStoragePoolObjFindByUUID_def)
  have busy: "asyncjobs (pools ?d ! 0) > 0"
    by (simp add: sample_defs)
  show ?thesis
    using found storagePoolDestroy_asyncjobs [OF found busy, of "sample_env sample_backend"]
    by (simp add: sample_defs)
qed
subsection \<open>Creating a volume without a capacity\<close>

text \<open>
  C7. Let the pool handle resolve to an active pool whose backend has no
  \<^verbatim>\<open>buildVol\<close> entry point, and let the volume document parse to a definition whose
  capacity is zero (omitted). Then \<^verbatim>\<open>storageVolCreateXML\<close>, called with supported
  flags, fails with the error "volume capacity required for this storage pool" and
  returns the driver state it was given: no volume has been added to any pool, and the
  journal shows that no backend entry point was called.
\<close>

theorem storageVolCreateXML_capacity_required:
  assumes "virCheckFlags fl VIR_STORAGE_VOL_CREATE_PREALLOC_METADATA"
    and "virStoragePoolObjFromStoragePool d pool = Inr i"
    and "active (pools d ! i)"
    and "virStorageBackendForType e (pool_type (def (pools d ! i))) = Some be"
    and "buildVol be = None"
    and "virStorageVolDefParseString e (def (pools d ! i)) xmldesc = Some voldef"
    and "target_capacity voldef = 0"
  shows "storageVolCreateXML e d pool xmldesc fl =
           (Inl (Err VIR_ERR_NO_SUPPORT ''volume capacity required for this storage pool''), d)"
  using assms by (simp add: storageVolCreateXML_def Let_def)

theorem storageVolCreateXML_capacity_required_witness:
  "storageVolCreateXML
     ((sample_env (sample_backend\<lparr>buildVol := None\<rparr>))
        \<lparr>virStorageVolDefParseString := (\<lambda>_ xml. Some (sample_vol xml 0))\<rparr>)
     (sample_driver VIR_STORAGE_POOL_DIR) sample_pool_handle ''v2'' 0
   = (Inl (Err VIR_ERR_NO_SUPPORT ''volume capacity required for this storage pool''),
      sample_driver VIR_STORAGE_POOL_DIR)"
proof -
  let ?be = "sample_backend\<lparr>buildVol := None\<rparr>"
  let ?e = "(sample_env ?be)\<lparr>virStorageVolDefParseString := (\<lambda>_ xml. Some (sample_vol xml 0))\<rparr>"
  let ?d = "sample_driver VIR_STORAGE_POOL_DIR"
  have 1: "virCheckFlags 0 VIR_STORAGE_VOL_CREATE_PREALLOC_METADATA"
    by (simp add: virCheckFlags_def)
  have 2: "virStoragePoolObjFromStoragePool ?d sample_pool_handle = Inr 0"
    by (simp add: sample_defs virStoragePoolObjFromStoragePool_def storagePoolObjFindByUUID_def
        virStoragePoolObjFindByUUID_def)
  have 3: "active (pools ?d ! 0)" by (simp add: sample_defs)
  have 4: "virStorageBackendForType ?e (pool_type (def (pools ?d ! 0))) = Some ?be"
    by (simp add: sample_defs)
  have 5: "buildVol ?be = None" by simp
  have 6: "virStorageVolDefParseString ?e (def (pools ?d ! 0)) ''v2'' = Some (sample_vol ''v2'' 0)"
    by simp
  have 7: "target_capacity (sample_vol ''v2'' 0) = 0" by (simp add: sample_vol_def)
  show ?thesis
    by (rule storageVolCreateXML_capacity_required [OF 1 2 3 4 5 6 7])
qed

subsection \<open>The refresh thread\<close>

lemma find_by_name_Some:
  "virStoragePoolObjFindByName ps name = Some i \<Longrightarrow>
     i < length ps \<and> pool_name (def (ps ! i)) = name"
  by (auto simp: virStoragePoolObjFindByName_def dest: find_idx_Some)

text \<open>
  C8. Let the pool named in the stream data be pool \<open>i\<close>. (1) If its async-job
  counter is positive, \<^verbatim>\<open>virStorageVolPoolRefreshThread\<close> returns the driver state it
  was given: volumes and flags of every pool are untouched, no event has been queued,
  and the journal shows that the backend was not called. (2) If the counter is zero, the
  descriptor of a ploop volume (if one is named) was restored and the pool's backend
  exists, the thread clears the pool's volumes, calls \<^verbatim>\<open>refreshPool\<close> exactly once on
  the cleared pool, keeps the counters and the volumes the backend returned, and
  queues one "refreshed" event; it does so whether \<^verbatim>\<open>refreshPool\<close> reported success or
  failure. The function has no result through which an error could be passed on.
\<close>

theorem virStorageVolPoolRefreshThread_effect:
  assumes "virStoragePoolObjFindByName (pools d) (cb_pool_name cbdata) = Some i"
  shows "(asyncjobs (pools d ! i) > 0 \<longrightarrow> virStorageVolPoolRefreshThread e d cbdata = d) \<and>
         (asyncjobs (pools d ! i) = 0 \<and>
          (\<forall>p. cb_vol_path cbdata = Some p \<longrightarrow> virStorageBackendPloopRestoreDesc e p) \<and>
          virStorageBackendForType e (pool_type (def (pools d ! i))) = Some be \<and>
          refreshPool be ((pools d ! i)\<lparr>volumes := []\<rparr>) = (ok, (cap, alloc, avail), vols') \<longrightarrow>
            virStorageVolPoolRefreshThread e d cbdata =
              d\<lparr>journal := journal d @ [Call RefreshPool],
                pools := (pools d)[i := (pools d ! i)
                  \<lparr>def := (def (pools d ! i))
                     \<lparr>capacity := cap, allocation := alloc, available := avail\<rparr>,
                   volumes := vols'\<rparr>],
                events := events d @ [(pool_name (def (pools d ! i)),
                                       pool_uuid (def (pools d ! i)), EVENT_REFRESH)]\<rparr>)"
proof (intro conjI impI)
  assume "asyncjobs (pools d ! i) > 0"
  then show "virStorageVolPoolRefreshThread e d cbdata = d"
    using assms
    by (simp add: virStorageVolPoolRefreshThread_def Let_def split: option.splits)
next
  assume h: "asyncjobs (pools d ! i) = 0 \<and>
          (\<forall>p. cb_vol_path cbdata = Some p \<longrightarrow> virStorageBackendPloopRestoreDesc e p) \<and>
          virStorageBackendForType e (pool_type (def (pools d ! i))) = Some be \<and>
          refreshPool be ((pools d ! i)\<lparr>volumes := []\<rparr>) = (ok, (cap, alloc, avail), vols')"
  have i: "i < length (pools d)"
    using find_by_name_Some [OF assms] by simp
  have ploop: "\<not> (case cb_vol_path cbdata of
           Some p \<Rightarrow> \<not> virStorageBackendPloopRestoreDesc e p | None \<Rightarrow> False)"
    using h by (simp split: option.splits)
  show "virStorageVolPoolRefreshThread e d cbdata =
              d\<lparr>journal := journal d @ [Call RefreshPool],
                pools := (pools d)[i := (pools d ! i)
                  \<lparr>def := (def (pools d ! i))
                     \<lparr>capacity := cap, allocation := alloc, available := avail\<rparr>,
                   volumes := vols'\<rparr>],
                events := events d @ [(pool_name (def (pools d ! i)),
                                       pool_uuid (def (pools d ! i)), EVENT_REFRESH)]\<rparr>"
    using assms h i ploop
    by (simp add: virStorageVolPoolRefreshThread_def Let_def pool_refresh_def upd_pool_def
        virStoragePoolObjClearVols_def record_action_def virObjectEventStateQueue_def
        lifecycle_event_def)
qed
theorem virStorageVolPoolRefreshThread_effect_witness:
  "virStorageVolPoolRefreshThread (sample_env sample_backend)
     ((sample_driver VIR_STORAGE_POOL_DIR)
        \<lparr>pools := [(sample_pool ''p1'' VIR_STORAGE_POOL_DIR)\<lparr>asyncjobs := 1\<rparr>]\<rparr>)
     \<lparr>cb_pool_name = ''p1'', cb_vol_path = None\<rparr>
   = (sample_driver VIR_STORAGE_POOL_DIR)
        \<lparr>pools := [(sample_pool ''p1'' VIR_STORAGE_POOL_DIR)\<lparr>asyncjobs := 1\<rparr>]\<rparr> \<and>
   virStorageVolPoolRefreshThread
     (sample_env (sample_backend\<lparr>refreshPool := (\<lambda>obj. (False, (100, 0, 100), []))\<rparr>))
     (sample_driver VIR_STORAGE_POOL_DIR)
     \<lparr>cb_pool_name = ''p1'', cb_vol_path = Some ''/vol''\<rparr>
   = (sample_driver VIR_STORAGE_POOL_DIR)
        \<lparr>journal := [Call RefreshPool],
         pools := [(sample_pool ''p1'' VIR_STORAGE_POOL_DIR)
                     \<lparr>def := (sample_pool_def ''p1'' VIR_STORAGE_POOL_DIR)
                               \<lparr>capacity := 100, allocation := 0, available := 100\<rparr>,
                      volumes := []\<rparr>],
         events := [(''p1'', ''p1'', EVENT_REFRESH)]\<rparr>"
proof -
  let ?busy = "(sample_driver VIR_STORAGE_POOL_DIR)
        \<lparr>pools := [(sample_pool ''p1'' VIR_STORAGE_POOL_DIR)\<lparr>asyncjobs := 1\<rparr>]\<rparr>"
  let ?idle = "sample_driver VIR_STORAGE_POOL_DIR"
  let ?cb1 = "\<lparr>cb_pool_name = ''p1'', cb_vol_path = None\<rparr>"
  let ?cb2 = "\<lparr>cb_pool_name = ''p1'', cb_vol_path = Some ''/vol''\<rparr>"
  let ?be = "sample_backend\<lparr>refreshPool := (\<lambda>obj. (False, (100, 0, 100), []))\<rparr>"
  have f1: "virStoragePoolObjFindByName (pools ?busy) (cb_pool_name ?cb1) = Some 0"
    by (simp add: sample_defs virStoragePoolObjFindByName_def)
  have f2: "virStoragePoolObjFindByName (pools ?idle) (cb_pool_name ?cb2) = Some 0"
    by (simp add: sample_defs virStoragePoolObjFindByName_def)
  have skip: "virStorageVolPoolRefreshThread (sample_env sample_backend) ?busy ?cb1 = ?busy"
    using virStorageVolPoolRefreshThread_effect [OF f1, of "sample_env sample_backend"]
    by (simp add: sample_defs)
  have ploop: "\<forall>p. cb_vol_path ?cb2 = Some p \<longrightarrow>
                 virStorageBackendPloopRestoreDesc (sample_env ?be) p"
    by (simp add: sample_env_def virStorageBackendPloopRestoreDesc_def)
  have run: "virStorageVolPoolRefreshThread (sample_env ?be) ?idle ?cb2 =
     ?idle\<lparr>journal := [Call RefreshPool],
           pools := [(sample_pool ''p1'' VIR_STORAGE_POOL_DIR)
                       \<lparr>def := (sample_pool_def ''p1'' VIR_STORAGE_POOL_DIR)
                                 \<lparr>capacity := 100, allocation := 0, available := 100\<rparr>,
                        volumes := []\<rparr>],
           events := [(''p1'', ''p1'', EVENT_REFRESH)]\<rparr>"
    using virStorageVolPoolRefreshThread_effect [OF f2, of "sample_env ?be" ?be False
        100 0 100 "[]"] ploop
    by (simp add: sample_defs)
  from skip run show ?thesis by simp
qed

subsection \<open>The async-job counter\<close>

lemma pools_record_action [simp]: "pools (record_action a d) = pools d"
  by (simp add: record_action_def)

lemma journal_upd_pool [simp]: "journal (upd_pool i f d) = journal d"
  by (simp add: upd_pool_def)

lemma job_counts_record_action [simp]: "job_counts (record_action a d) = job_counts d"
  by (simp add: job_counts_def)

lemma job_counts_upd_pool:
  "asyncjobs (f (pools d ! i)) = asyncjobs (pools d ! i) \<Longrightarrow>
     job_counts (upd_pool i f d) = job_counts d"
proof (cases "i < length (pools d)")
  case True
  assume same: "asyncjobs (f (pools d ! i)) = asyncjobs (pools d ! i)"
  have "(map asyncjobs (pools d))[i := asyncjobs (pools d ! i)] = map asyncjobs (pools d)"
    using True by (metis list_update_id nth_map)
  with same show ?thesis
    by (simp add: job_counts_def upd_pool_def map_update)
next
  case False
  then show ?thesis
    by (simp add: job_counts_def upd_pool_def list_update_beyond)
qed

lemma job_counts_upd_pool_all:
  "(\<And>obj. asyncjobs (f obj) = asyncjobs obj) \<Longrightarrow> job_counts (upd_pool i f d) = job_counts d"
  by (rule job_counts_upd_pool) simp

lemma job_counts_upd_vol [simp]: "job_counts (upd_pool i (upd_vol j f) d) = job_counts d"
  by (rule job_counts_upd_pool) (simp add: upd_vol_def)

lemma job_counts_remove_vol [simp]:
  "job_counts (upd_pool i (virStoragePoolObjRemoveVol j) d) = job_counts d"
  by (rule job_counts_upd_pool) (simp add: virStoragePoolObjRemoveVol_def)

lemma job_counts_add_vol [simp]:
  "job_counts (upd_pool i (virStoragePoolObjAddVol v) d) = job_counts d"
  by (rule job_counts_upd_pool) (simp add: virStoragePoolObjAddVol_def)

lemma job_counts_meta_add [simp]: "job_counts (pool_meta_add i j d) = job_counts d"
  unfolding pool_meta_add_def by (rule job_counts_upd_pool) simp

lemma job_counts_incr:
  "i < length (pools d) \<Longrightarrow>
     job_counts (virStoragePoolObjIncrAsyncjobs i d) = (job_counts d)[i := job_counts d ! i + 1]"
  by (simp add: virStoragePoolObjIncrAsyncjobs_def job_counts_def upd_pool_def map_update
      del: job_counts_record_action)

lemma job_counts_decr:
  "i < length (pools d) \<Longrightarrow>
     job_counts (virStoragePoolObjDecrAsyncjobs i d) = (job_counts d)[i := job_counts d ! i - 1]"
  by (simp add: virStoragePoolObjDecrAsyncjobs_def job_counts_def upd_pool_def map_update
      del: job_counts_record_action)

lemma length_pools_upd_pool [simp]: "length (pools (upd_pool i f d)) = length (pools d)"
  by (simp add: upd_pool_def)

lemma length_pools_incr [simp]:
  "length (pools (virStoragePoolObjIncrAsyncjobs i d)) = length (pools d)"
  by (simp add: virStoragePoolObjIncrAsyncjobs_def)

lemma length_pools_decr [simp]:
  "length (pools (virStoragePoolObjDecrAsyncjobs i d)) = length (pools d)"
  by (simp add: virStoragePoolObjDecrAsyncjobs_def)

lemma length_job_counts [simp]: "length (job_counts d) = length (pools d)"
  by (simp add: job_counts_def)

lemma async_trace_record_action [simp]:
  "async_trace (record_action a d) = async_trace d @ (if async_related a then [a] else [])"
  by (simp add: async_trace_def record_action_def)

lemma async_trace_upd_pool [simp]: "async_trace (upd_pool i f d) = async_trace d"
  by (simp add: async_trace_def)

lemma def_upd_pool_same:
  "(\<And>obj. def (f obj) = def obj) \<Longrightarrow> def (pools (upd_pool i f d) ! k) = def (pools d ! k)"
  by (cases "i < length (pools d)")
     (simp_all add: upd_pool_def nth_list_update list_update_beyond)

lemma def_add_vol [simp]:
  "def (pools (upd_pool i (virStoragePoolObjAddVol v) d) ! k) = def (pools d ! k)"
  by (rule def_upd_pool_same) (simp add: virStoragePoolObjAddVol_def)

lemma pool_name_upd_vol [simp]:
  "pool_name (def (pools (upd_pool i (upd_vol j f) d) ! k)) = pool_name (def (pools d ! k))"
  by (cases "i < length (pools d)")
     (simp_all add: upd_pool_def upd_vol_def nth_list_update list_update_beyond)

lemma async_trace_incr:
  "i < length (pools d) \<Longrightarrow>
   async_trace (virStoragePoolObjIncrAsyncjobs i d)
     = async_trace d @ [IncrAsyncjobs (pool_name (def (pools d ! i)))]"
  by (simp add: virStoragePoolObjIncrAsyncjobs_def)

lemma async_trace_decr:
  "i < length (pools d) \<Longrightarrow>
   async_trace (virStoragePoolObjDecrAsyncjobs i d)
     = async_trace d @ [DecrAsyncjobs (pool_name (def (pools d ! i)))]"
  by (simp add: virStoragePoolObjDecrAsyncjobs_def)

lemma pool_name_incr [simp]:
  "pool_name (def (pools (virStoragePoolObjIncrAsyncjobs i d) ! k)) = pool_name (def (pools d ! k))"
  by (cases "i < length (pools d)")
     (simp_all add: virStoragePoolObjIncrAsyncjobs_def upd_pool_def nth_list_update
        list_update_beyond)

lemma pool_name_decr [simp]:
  "pool_name (def (pools (virStoragePoolObjDecrAsyncjobs i d) ! k)) = pool_name (def (pools d ! k))"
  by (cases "i < length (pools d)")
     (simp_all add: virStoragePoolObjDecrAsyncjobs_def upd_pool_def nth_list_update
        list_update_beyond)

lemma asyncjobs_with_pool_values [simp]:
  "asyncjobs (with_pool_values vals obj) = asyncjobs obj"
  by (simp add: with_pool_values_def split: prod.splits)

lemma volumes_with_pool_values [simp]:
  "volumes (with_pool_values vals obj) = volumes obj"
  by (simp add: with_pool_values_def split: prod.splits)

lemma identity_with_pool_values [simp]:
  "pool_name (def (with_pool_values vals obj)) = pool_name (def obj)"
  "pool_type (def (with_pool_values vals obj)) = pool_type (def obj)"
  "active (with_pool_values vals obj) = active obj"
  by (simp_all add: with_pool_values_def split: prod.splits)

lemma job_counts_with_pool_values [simp]:
  "job_counts (upd_pool i (with_pool_values vals) d) = job_counts d"
  by (rule job_counts_upd_pool) simp

lemma pool_name_upd_pool_values [simp]:
  "pool_name (def (pools (upd_pool i (with_pool_values vals) d) ! k)) = pool_name (def (pools d ! k))"
  by (cases "i < length (pools d)")
     (simp_all add: upd_pool_def nth_list_update list_update_beyond)

lemma pool_name_add_vol [simp]:
  "pool_name (def (pools (upd_pool i (virStoragePoolObjAddVol v) d) ! k)) = pool_name (def (pools d ! k))"
  by simp

lemma build_balanced:
  assumes "i < length (pools d)"
  shows "job_counts (snd (storageVolCreateXML_build be i j fl d)) = job_counts d"
    and "async_trace (snd (storageVolCreateXML_build be i j fl d)) =
           async_trace d @
           (if buildVol be = None then []
            else [IncrAsyncjobs (pool_name (def (pools d ! i))), Call BuildVol,
                  DecrAsyncjobs (pool_name (def (pools d ! i)))])"
  using assms
  by (simp_all add: storageVolCreateXML_build_def Let_def job_counts_incr job_counts_decr
      async_trace_incr async_trace_decr split: option.splits)

lemma build_result:
  assumes "buildVol be = Some build" and "i < length (pools d)"
  shows "fst (storageVolCreateXML_build be i j fl d) =
           build (upd_vol j (\<lambda>v. v\<lparr>building := True\<rparr>)
                    ((pools d ! i)\<lparr>asyncjobs := asyncjobs (pools d ! i) + 1\<rparr>))
                 (volumes (pools d ! i) ! j) fl"
  using assms
  by (simp add: storageVolCreateXML_build_def Let_def virStoragePoolObjIncrAsyncjobs_def
      upd_pool_def record_action_def)

lemma delete_internal_balanced [simp]:
  "job_counts (snd (storageVolDeleteInternal be i j fl um d)) = job_counts d"
  "async_trace (snd (storageVolDeleteInternal be i j fl um d)) = async_trace d"
  by (auto simp: storageVolDeleteInternal_def Let_def virStoragePoolObjRemoveVol_def
      job_counts_upd_pool_all split: option.splits prod.splits)

lemma delete_after_failure_balanced [simp]:
  "job_counts (snd (delete_after_failure be i j err d)) = job_counts d"
  "async_trace (snd (delete_after_failure be i j err d)) = async_trace d"
proof -
  obtain r x where rx: "storageVolDeleteInternal be i j 0 False d = (r, x)"
    by (cases "storageVolDeleteInternal be i j 0 False d")
  have "job_counts (snd (storageVolDeleteInternal be i j 0 False d)) = job_counts d"
    and "async_trace (snd (storageVolDeleteInternal be i j 0 False d)) = async_trace d"
    by simp_all
  then have x: "job_counts x = job_counts d" "async_trace x = async_trace d"
    by (simp_all only: rx snd_conv)
  have "snd (delete_after_failure be i j err d) = x"
    by (simp add: delete_after_failure_def rx split: sum.splits)
  with x show "job_counts (snd (delete_after_failure be i j err d)) = job_counts d"
    and "async_trace (snd (delete_after_failure be i j err d)) = async_trace d"
    by simp_all
qed

lemma delete_after_failure_fails:
  "\<exists>err'. fst (delete_after_failure be i j err d) = Inl err' \<and>
     (err' = err \<or> err' = Raised_by ''deleteVol'' \<or>
      err' = Err VIR_ERR_NO_SUPPORT ''storage pool does not support vol deletion'')"
  by (auto simp: delete_after_failure_def storageVolDeleteInternal_def Let_def
      split: prod.splits sum.splits option.splits if_splits)

lemma finish_balanced [simp]:
  "job_counts (snd (storageVolCreateXML_finish be i j newvol d)) = job_counts d"
  "async_trace (snd (storageVolCreateXML_finish be i j newvol d)) = async_trace d"
  by (auto simp: storageVolCreateXML_finish_def Let_def pool_meta_add_def
      job_counts_upd_pool_all split: option.splits prod.splits)

lemma finish_error:
  "fst (storageVolCreateXML_finish be i j newvol d) \<noteq> Inl (Raised_by ''buildVol'')"
proof -
  have "fst (delete_after_failure be i j (Raised_by ''refreshVol'') x) \<noteq> Inl (Raised_by ''buildVol'')"
    for x
    using delete_after_failure_fails [of be i j "Raised_by ''refreshVol''" x] by auto
  then show ?thesis
    by (auto simp: storageVolCreateXML_finish_def Let_def split: option.splits prod.splits)
qed

lemma from_storage_pool_Inr:
  "virStoragePoolObjFromStoragePool d pool = Inr i \<Longrightarrow> i < length (pools d)"
  by (auto simp: virStoragePoolObjFromStoragePool_def dest: storagePoolObjFindByUUID_Inr)

lemma find_by_uuid_Some:
  "virStoragePoolObjFindByUUID ps uuid = Some i \<Longrightarrow> i < length ps"
  by (auto simp: virStoragePoolObjFindByUUID_def dest: find_idx_Some)


lemma asyncjobs_add_vol [simp]:
  "asyncjobs (virStoragePoolObjAddVol v obj) = asyncjobs obj"
  by (simp add: virStoragePoolObjAddVol_def)

lemma createxml_reaches_build:
  assumes flags: "virCheckFlags fl VIR_STORAGE_VOL_CREATE_PREALLOC_METADATA"
    and found: "virStoragePoolObjFromStoragePool d pool = Inr i"
    and act: "active (pools d ! i)"
    and be: "virStorageBackendForType e (pool_type (def (pools d ! i))) = Some be"
    and parse: "virStorageVolDefParseString e (def (pools d ! i)) xmldesc = Some voldef0"
    and acl: "EnsureACL e ''virStorageVolCreateXML'' (def (pools d ! i)) (Some voldef0)"
    and fresh: "virStorageVolDefFindByName (pools d ! i) (vol_name voldef0) = None"
    and cr: "createVol be = Some create"
    and crv: "create (pools d ! i) (voldef0\<lparr>vol_key := None\<rparr>) = (True, voldef, vals)"
    and hdl: "virGetStorageVol e (pool_name (def (pools d ! i))) (vol_name voldef)
                (vol_key voldef) = Some newvol"
    and bv: "buildVol be = Some build"
  shows "storageVolCreateXML e d pool xmldesc fl =
     (case storageVolCreateXML_build be i (length (volumes (pools d ! i))) fl
             (upd_pool i (virStoragePoolObjAddVol voldef)
               (upd_pool i (with_pool_values vals) (record_action (Call CreateVol) d))) of
        (built, d3) \<Rightarrow>
          if \<not> built then (Inl (Raised_by ''buildVol''), d3)
          else storageVolCreateXML_finish be i (length (volumes (pools d ! i))) newvol d3)"
  using assms by (simp add: storageVolCreateXML_def Let_def)

lemma createxml_build_bracket:
  assumes flags: "virCheckFlags fl VIR_STORAGE_VOL_CREATE_PREALLOC_METADATA"
    and found: "virStoragePoolObjFromStoragePool d pool = Inr i"
    and act: "active (pools d ! i)"
    and be: "virStorageBackendForType e (pool_type (def (pools d ! i))) = Some be"
    and parse: "virStorageVolDefParseString e (def (pools d ! i)) xmldesc = Some voldef0"
    and acl: "EnsureACL e ''virStorageVolCreateXML'' (def (pools d ! i)) (Some voldef0)"
    and fresh: "virStorageVolDefFindByName (pools d ! i) (vol_name voldef0) = None"
    and cr: "createVol be = Some create"
    and crv: "create (pools d ! i) (voldef0\<lparr>vol_key := None\<rparr>) = (True, voldef, vals)"
    and hdl: "virGetStorageVol e (pool_name (def (pools d ! i))) (vol_name voldef)
                (vol_key voldef) = Some newvol"
    and bv: "buildVol be = Some build"
  shows "async_trace (snd (storageVolCreateXML e d pool xmldesc fl)) =
           async_trace d @ [IncrAsyncjobs (pool_name (def (pools d ! i))), Call BuildVol,
                            DecrAsyncjobs (pool_name (def (pools d ! i)))]"
    and "fst (storageVolCreateXML e d pool xmldesc fl) = Inl (Raised_by ''buildVol'') \<longleftrightarrow>
         \<not> build (upd_vol (length (volumes (pools d ! i))) (\<lambda>v. v\<lparr>building := True\<rparr>)
                   ((virStoragePoolObjAddVol voldef (with_pool_values vals (pools d ! i)))
                      \<lparr>asyncjobs := asyncjobs (pools d ! i) + 1\<rparr>))
                 voldef fl"
proof -
  have i: "i < length (pools d)" by (rule from_storage_pool_Inr [OF found])
  define j where "j = length (volumes (pools d ! i))"
  define d2 where "d2 = upd_pool i (virStoragePoolObjAddVol voldef)
               (upd_pool i (with_pool_values vals) (record_action (Call CreateVol) d))"
  have i2: "i < length (pools d2)" using i by (simp add: d2_def)
  have p2: "pools d2 ! i = virStoragePoolObjAddVol voldef (with_pool_values vals (pools d ! i))"
    using i by (simp add: d2_def upd_pool_def)
  have n2: "pool_name (def (pools d2 ! i)) = pool_name (def (pools d ! i))"
    by (simp add: d2_def)
  have t2: "async_trace d2 = async_trace d" by (simp add: d2_def)
  obtain built d3 where b: "storageVolCreateXML_build be i j fl d2 = (built, d3)"
    by (cases "storageVolCreateXML_build be i j fl d2")
  have eq: "storageVolCreateXML e d pool xmldesc fl =
      (if \<not> built then (Inl (Raised_by ''buildVol''), d3)
       else storageVolCreateXML_finish be i j newvol d3)"
    using createxml_reaches_build [OF assms] b
    by (simp add: j_def [symmetric] d2_def [symmetric])
  have t3: "async_trace d3 = async_trace d @ [IncrAsyncjobs (pool_name (def (pools d ! i))),
              Call BuildVol, DecrAsyncjobs (pool_name (def (pools d ! i)))]"
    using build_balanced(2) [OF i2, of be j fl] b bv by (simp add: n2 t2)
  show "async_trace (snd (storageVolCreateXML e d pool xmldesc fl)) =
           async_trace d @ [IncrAsyncjobs (pool_name (def (pools d ! i))), Call BuildVol,
                            DecrAsyncjobs (pool_name (def (pools d ! i)))]"
    using t3 by (simp add: eq)
  have vj: "volumes (pools d2 ! i) ! j = voldef"
    by (simp add: p2 j_def virStoragePoolObjAddVol_def)
  have built: "built = build (upd_vol j (\<lambda>v. v\<lparr>building := True\<rparr>)
                    ((pools d2 ! i)\<lparr>asyncjobs := asyncjobs (pools d2 ! i) + 1\<rparr>)) voldef fl"
    using build_result [OF bv i2, of j fl] b by (simp add: vj)
  have a2: "asyncjobs (pools d2 ! i) = asyncjobs (pools d ! i)"
    by (simp add: p2 virStoragePoolObjAddVol_def)
  show "fst (storageVolCreateXML e d pool xmldesc fl) = Inl (Raised_by ''buildVol'') \<longleftrightarrow>
         \<not> build (upd_vol (length (volumes (pools d ! i))) (\<lambda>v. v\<lparr>building := True\<rparr>)
                   ((virStoragePoolObjAddVol voldef (with_pool_values vals (pools d ! i)))
                      \<lparr>asyncjobs := asyncjobs (pools d ! i) + 1\<rparr>))
                 voldef fl"
    using built finish_error [of be i j newvol d3]
    by (simp add: eq p2 j_def [symmetric])
qed

lemma createxml_balanced:
  "job_counts (snd (storageVolCreateXML e d pool xmldesc fl)) = job_counts d"
  "virStoragePoolObjFromStoragePool d pool = Inr i \<Longrightarrow>
   async_trace (snd (storageVolCreateXML e d pool xmldesc fl)) = async_trace d \<or>
   async_trace (snd (storageVolCreateXML e d pool xmldesc fl)) =
     async_trace d @ [IncrAsyncjobs (pool_name (def (pools d ! i))), Call BuildVol,
                      DecrAsyncjobs (pool_name (def (pools d ! i)))]"
  "virStoragePoolObjFromStoragePool d pool = Inl err \<Longrightarrow>
         snd (storageVolCreateXML e d pool xmldesc fl) = d"
proof -
  show "snd (storageVolCreateXML e d pool xmldesc fl) = d"
    if "virStoragePoolObjFromStoragePool d pool = Inl err"
    using that by (simp add: storageVolCreateXML_def)
  have main: "job_counts (snd (storageVolCreateXML e d pool xmldesc fl)) = job_counts d \<and>
     (async_trace (snd (storageVolCreateXML e d pool xmldesc fl)) = async_trace d \<or>
      async_trace (snd (storageVolCreateXML e d pool xmldesc fl)) =
       async_trace d @ [IncrAsyncjobs (pool_name (def (pools d ! i))), Call BuildVol,
                        DecrAsyncjobs (pool_name (def (pools d ! i)))])"
    if Inr: "virStoragePoolObjFromStoragePool d pool = Inr i" for i
  proof -
    have i: "i < length (pools d)" using Inr by (rule from_storage_pool_Inr)
    define n where "n = pool_name (def (pools d ! i))"
    define P where "P d' \<longleftrightarrow> job_counts d' = job_counts d \<and>
       (async_trace d' = async_trace d \<or>
        async_trace d' = async_trace d @ [IncrAsyncjobs n, Call BuildVol, DecrAsyncjobs n])"
      for d'
    have P0: "P d" by (simp add: P_def)
    have P1: "P (upd_pool i (with_pool_values vals) (record_action (Call CreateVol) d))" for vals
      by (simp add: P_def)
    have Pb: "P x"
      if "storageVolCreateXML_build be i j fl
            (upd_pool i (virStoragePoolObjAddVol v)
              (upd_pool i (with_pool_values vals) (record_action (Call CreateVol) d))) = (b, x)"
      for be j v b x vals
    proof -
      have "P (snd (storageVolCreateXML_build be i j fl
                (upd_pool i (virStoragePoolObjAddVol v)
                  (upd_pool i (with_pool_values vals) (record_action (Call CreateVol) d)))))"
        using i by (simp add: P_def build_balanced n_def)
      with that show ?thesis by simp
    qed
    have Pf: "P (snd (storageVolCreateXML_finish be i j nv x))" if "P x" for be j nv x
      using that by (simp add: P_def)
    have "P (snd (storageVolCreateXML e d pool xmldesc fl))"
      using Inr P0 P1
      by (auto simp: storageVolCreateXML_def Let_def
          split: option.splits prod.splits intro: Pf Pb)
    then show ?thesis by (simp add: P_def n_def)
  qed
  show "async_trace (snd (storageVolCreateXML e d pool xmldesc fl)) = async_trace d \<or>
   async_trace (snd (storageVolCreateXML e d pool xmldesc fl)) =
     async_trace d @ [IncrAsyncjobs (pool_name (def (pools d ! i))), Call BuildVol,
                      DecrAsyncjobs (pool_name (def (pools d ! i)))]"
    if "virStoragePoolObjFromStoragePool d pool = Inr i"
    using main [OF that] by simp
  show "job_counts (snd (storageVolCreateXML e d pool xmldesc fl)) = job_counts d"
  proof (cases "virStoragePoolObjFromStoragePool d pool")
    case (Inl err)
    then show ?thesis by (simp add: storageVolCreateXML_def)
  next
    case (Inr i)
    then show ?thesis using main by simp
  qed
qed

lemma from_build_balanced:
  assumes i: "i < length (pools d)"
    and src: "case objsrc of Some s \<Rightarrow> s = isrc \<and> s \<noteq> i \<and> s < length (pools d)
              | None \<Rightarrow> isrc = i"
  shows "job_counts (snd (storageVolCreateXMLFrom_build bf i j objsrc isrc js sv fl d))
           = job_counts d"
    and "async_trace (snd (storageVolCreateXMLFrom_build bf i j objsrc isrc js sv fl d)) =
           async_trace d @
             (case objsrc of
                None \<Rightarrow> [IncrAsyncjobs (pool_name (def (pools d ! i))), Call BuildVolFrom,
                         DecrAsyncjobs (pool_name (def (pools d ! i)))]
              | Some s \<Rightarrow> [IncrAsyncjobs (pool_name (def (pools d ! i))),
                           IncrAsyncjobs (pool_name (def (pools d ! s))), Call BuildVolFrom,
                           DecrAsyncjobs (pool_name (def (pools d ! i))),
                           DecrAsyncjobs (pool_name (def (pools d ! s)))])"
proof -
  show "job_counts (snd (storageVolCreateXMLFrom_build bf i j objsrc isrc js sv fl d))
           = job_counts d"
  proof (cases objsrc)
    case None
    then show ?thesis
      using i src
      by (simp add: storageVolCreateXMLFrom_build_def Let_def job_counts_incr job_counts_decr)
  next
    case (Some s)
    then have s: "s < length (pools d)" "s \<noteq> i" "isrc = s" using src by auto
    show ?thesis
      using i s Some
      by (intro nth_equalityI)
         (simp_all add: storageVolCreateXMLFrom_build_def Let_def job_counts_incr
           job_counts_decr nth_list_update)
  qed
  show "async_trace (snd (storageVolCreateXMLFrom_build bf i j objsrc isrc js sv fl d)) =
           async_trace d @
             (case objsrc of
                None \<Rightarrow> [IncrAsyncjobs (pool_name (def (pools d ! i))), Call BuildVolFrom,
                         DecrAsyncjobs (pool_name (def (pools d ! i)))]
              | Some s \<Rightarrow> [IncrAsyncjobs (pool_name (def (pools d ! i))),
                           IncrAsyncjobs (pool_name (def (pools d ! s))), Call BuildVolFrom,
                           DecrAsyncjobs (pool_name (def (pools d ! i))),
                           DecrAsyncjobs (pool_name (def (pools d ! s)))])"
    using i src
    by (simp add: storageVolCreateXMLFrom_build_def Let_def async_trace_incr async_trace_decr
        split: option.splits)
qed

lemma from_build_result:
  assumes i: "i < length (pools d)"
    and src: "case objsrc of Some s \<Rightarrow> s = isrc \<and> s \<noteq> i \<and> s < length (pools d)
              | None \<Rightarrow> isrc = i"
  shows "\<exists>X vs. asyncjobs X = asyncjobs (pools d ! i) + 1 \<and>
           fst (storageVolCreateXMLFrom_build bf i j objsrc isrc js sv fl d) = bf X sv vs fl"
proof -
  define d3 where "d3 = upd_pool isrc (upd_vol js (\<lambda>v. v\<lparr>in_use := in_use v + 1\<rparr>))
                          (upd_pool i (upd_vol j (\<lambda>v. v\<lparr>building := True\<rparr>))
                            (virStoragePoolObjIncrAsyncjobs i d))"
  define d5 where "d5 = record_action (Call BuildVolFrom)
     (case objsrc of Some s \<Rightarrow> virStoragePoolObjIncrAsyncjobs s d3 | None \<Rightarrow> d3)"
  have r: "fst (storageVolCreateXMLFrom_build bf i j objsrc isrc js sv fl d) =
             bf (pools d5 ! i) sv (volumes (pools d5 ! isrc) ! js) fl"
    by (cases objsrc) (simp_all add: storageVolCreateXMLFrom_build_def Let_def d5_def d3_def)
  have a3: "asyncjobs (pools d3 ! i) = asyncjobs (pools d ! i) + 1"
    using i
    by (cases "isrc = i")
       (simp_all add: d3_def virStoragePoolObjIncrAsyncjobs_def upd_pool_def upd_vol_def
          record_action_def)
  have a5: "asyncjobs (pools d5 ! i) = asyncjobs (pools d ! i) + 1"
  proof (cases objsrc)
    case None
    then show ?thesis using a3 by (simp add: d5_def)
  next
    case (Some s)
    then have "s \<noteq> i" using src by simp
    then show ?thesis
      using a3 Some
      by (simp add: d5_def virStoragePoolObjIncrAsyncjobs_def upd_pool_def record_action_def)
  qed
  from a5 r show ?thesis by blast
qed

lemma from_finish_balanced [simp]:
  "job_counts (snd (storageVolCreateXMLFrom_finish be i j newvol b d)) = job_counts d"
  "async_trace (snd (storageVolCreateXMLFrom_finish be i j newvol b d)) = async_trace d"
  by (auto simp: storageVolCreateXMLFrom_finish_def Let_def pool_meta_add_def
      job_counts_upd_pool_all split: option.splits prod.splits)

lemma from_finish_result:
  "\<not> b \<Longrightarrow> \<exists>err. fst (storageVolCreateXMLFrom_finish be i j newvol b d) = Inl err"
  "b \<Longrightarrow> refreshVol be = None \<Longrightarrow>
     fst (storageVolCreateXMLFrom_finish be i j newvol b d) = Inr newvol"
  using delete_after_failure_fails [of be i j "Raised_by ''buildVolFrom''" d]
  by (auto simp: storageVolCreateXMLFrom_finish_def)

lemma refresh_src_frame:
  assumes "storageVolCreateXMLFrom_refresh_src be i isrc js d = (ok, d1)"
  shows "job_counts d1 = job_counts d" and "async_trace d1 = async_trace d"
    and "pool_name (def (pools d1 ! k)) = pool_name (def (pools d ! k))"
  using assms
  by (auto simp: storageVolCreateXMLFrom_refresh_src_def Let_def
      split: option.splits prod.splits)

lemma from_create_balanced:
  assumes i: "i < length (pools d)"
    and src: "case objsrc of Some s \<Rightarrow> s = isrc \<and> s \<noteq> i \<and> s < length (pools d)
              | None \<Rightarrow> isrc = i"
  shows "job_counts (snd (storageVolCreateXMLFrom_create e be bf i objsrc isrc js v0 fl d))
           = job_counts d \<and>
    (async_trace (snd (storageVolCreateXMLFrom_create e be bf i objsrc isrc js v0 fl d))
       = async_trace d \<or>
     async_trace (snd (storageVolCreateXMLFrom_create e be bf i objsrc isrc js v0 fl d))
       = async_trace d @
           (case objsrc of
              None \<Rightarrow> [IncrAsyncjobs (pool_name (def (pools d ! i))), Call BuildVolFrom,
                       DecrAsyncjobs (pool_name (def (pools d ! i)))]
            | Some s \<Rightarrow> [IncrAsyncjobs (pool_name (def (pools d ! i))),
                         IncrAsyncjobs (pool_name (def (pools d ! s))), Call BuildVolFrom,
                         DecrAsyncjobs (pool_name (def (pools d ! i))),
                         DecrAsyncjobs (pool_name (def (pools d ! s)))]))"
proof -
  define B where "B =
           (case objsrc of
              None \<Rightarrow> [IncrAsyncjobs (pool_name (def (pools d ! i))), Call BuildVolFrom,
                       DecrAsyncjobs (pool_name (def (pools d ! i)))]
            | Some s \<Rightarrow> [IncrAsyncjobs (pool_name (def (pools d ! i))),
                         IncrAsyncjobs (pool_name (def (pools d ! s))), Call BuildVolFrom,
                         DecrAsyncjobs (pool_name (def (pools d ! i))),
                         DecrAsyncjobs (pool_name (def (pools d ! s)))])"
  define P where "P d' \<longleftrightarrow> job_counts d' = job_counts d \<and>
     (async_trace d' = async_trace d \<or> async_trace d' = async_trace d @ B)" for d'
  define Q where "Q x \<longleftrightarrow> job_counts x = job_counts d \<and> async_trace x = async_trace d \<and>
     (\<forall>k. pool_name (def (pools x ! k)) = pool_name (def (pools d ! k)))" for x
  have Q0: "Q d" by (simp add: Q_def)
  have Qr: "Q (record_action (Call CreateVol) x)"
      "Q (upd_pool k (with_pool_values vals) x)" "Q (upd_pool k (virStoragePoolObjAddVol v) x)"
    if "Q x" for x k vals v
    using that by (simp_all add: Q_def)
  have QP: "P x" if "Q x" for x using that by (simp add: P_def Q_def)
  have Pf: "P (snd (storageVolCreateXMLFrom_finish be i j nv b x))" if "P x" for j nv b x
    using that by (simp add: P_def)
  have Pb: "P y"
    if "Q x" and "storageVolCreateXMLFrom_build bf i j objsrc isrc js sv fl x = (b, y)"
    for x j sv b y
  proof -
    have len: "length (pools x) = length (pools d)"
      using that(1) by (metis Q_def length_job_counts)
    have i': "i < length (pools x)" using i len by simp
    have src': "case objsrc of Some s \<Rightarrow> s = isrc \<and> s \<noteq> i \<and> s < length (pools x)
              | None \<Rightarrow> isrc = i"
      using src len by (simp split: option.splits)
    have names: "pool_name (def (pools x ! k)) = pool_name (def (pools d ! k))" for k
      using that(1) by (simp add: Q_def)
    have "P (snd (storageVolCreateXMLFrom_build bf i j objsrc isrc js sv fl x))"
      using that(1) from_build_balanced [OF i' src', of bf j js sv fl]
      by (simp add: P_def Q_def B_def names split: option.splits)
    with that(2) show ?thesis by simp
  qed
  obtain refreshed d1 where r:
    "storageVolCreateXMLFrom_refresh_src be i isrc js d = (refreshed, d1)"
    by (cases "storageVolCreateXMLFrom_refresh_src be i isrc js d")
  have Qd1: "Q d1"
    using refresh_src_frame [OF r] by (simp add: Q_def)
  have Pd1: "P d1" using Qd1 by (rule QP)
  have Pd2: "P (upd_pool i (with_pool_values vals) (record_action (Call CreateVol) d1))" for vals
    using Qd1 by (intro QP Qr)
  have Pb3: "P y"
    if "storageVolCreateXMLFrom_build bf i j objsrc isrc js sv fl
          (upd_pool i (virStoragePoolObjAddVol v)
            (upd_pool i (with_pool_values vals) (record_action (Call CreateVol) d1))) = (b, y)"
    for j sv v b y vals
    using that Qd1 by (intro Pb [OF _ that] Qr)
  have "P (snd (storageVolCreateXMLFrom_create e be bf i objsrc isrc js v0 fl d))"
    unfolding storageVolCreateXMLFrom_create_def r
    using Pd1 Pd2
    by (auto simp: Let_def split: option.splits prod.splits intro: Pf [OF Pb3])
  then show ?thesis by (simp add: P_def B_def)
qed

lemma createxmlfrom_to_create:
  assumes flags: "virCheckFlags fl (VIR_STORAGE_VOL_CREATE_PREALLOC_METADATA OR
                                     VIR_STORAGE_VOL_CREATE_REFLINK)"
    and found: "virStoragePoolObjFindByUUID (pools d) (h_uuid pool) = Some i"
    and objsrc: "objsrc = (if h_name pool \<noteq> v_pool volsrc
                           then virStoragePoolObjFindByName (pools d) (v_pool volsrc) else None)"
    and nodead: "objsrc \<noteq> Some i"
    and srcfound: "h_name pool \<noteq> v_pool volsrc \<longrightarrow> objsrc \<noteq> None"
    and isrc: "isrc = (case objsrc of Some s \<Rightarrow> s | None \<Rightarrow> i)"
    and act: "active (pools d ! i)" and actsrc: "active (pools d ! isrc)"
    and be: "virStorageBackendForType e (pool_type (def (pools d ! i))) = Some be"
    and js: "virStorageVolDefFindByName (pools d ! isrc) (v_name volsrc) = Some js"
    and parse: "virStorageVolDefParseString e (def (pools d ! i)) xmldesc = Some voldef0"
    and acl: "EnsureACL e ''virStorageVolCreateXMLFrom'' (def (pools d ! i)) (Some voldef0)"
    and fresh: "virStorageVolDefFindByName (pools d ! i) (vol_name voldef0) = None"
    and bf: "buildVolFrom be = Some bf"
    and nb: "\<not> building (volumes (pools d ! isrc) ! js)"
  shows "storageVolCreateXMLFrom e d pool xmldesc volsrc fl =
           storageVolCreateXMLFrom_create e be bf i objsrc isrc js
             (storageVolCreateXMLFrom_voldef voldef0 (volumes (pools d ! isrc) ! js)) fl d"
proof (cases "h_name pool = v_pool volsrc")
  case True
  then have o: "objsrc = None" and s: "isrc = i" using objsrc isrc by simp_all
  show ?thesis
    using flags found act be js parse acl fresh bf nb True
    unfolding o s
    by (simp add: storageVolCreateXMLFrom_def Let_def)
next
  case False
  then obtain s where o: "objsrc = Some s"
    and look: "virStoragePoolObjFindByName (pools d) (v_pool volsrc) = Some s"
    using objsrc srcfound by auto
  have s: "isrc = s" and si: "s \<noteq> i" using isrc o nodead by simp_all
  show ?thesis
    using flags found act actsrc be js parse acl fresh bf nb False look si
    unfolding o s
    by (simp add: storageVolCreateXMLFrom_def Let_def)
qed

lemma asyncjobs_from_job_counts:
  "job_counts x = job_counts d \<Longrightarrow> i < length (pools d) \<Longrightarrow>
     asyncjobs (pools x ! i) = asyncjobs (pools d ! i) \<and> i < length (pools x)"
  by (metis job_counts_def length_job_counts nth_map)

lemma createxmlfrom_build_bracket:
  assumes flags: "virCheckFlags fl (VIR_STORAGE_VOL_CREATE_PREALLOC_METADATA OR
                                     VIR_STORAGE_VOL_CREATE_REFLINK)"
    and found: "virStoragePoolObjFindByUUID (pools d) (h_uuid pool) = Some i"
    and objsrc: "objsrc = (if h_name pool \<noteq> v_pool volsrc
                           then virStoragePoolObjFindByName (pools d) (v_pool volsrc) else None)"
    and nodead: "objsrc \<noteq> Some i"
    and srcfound: "h_name pool \<noteq> v_pool volsrc \<longrightarrow> objsrc \<noteq> None"
    and isrc: "isrc = (case objsrc of Some s \<Rightarrow> s | None \<Rightarrow> i)"
    and act: "active (pools d ! i)" and actsrc: "active (pools d ! isrc)"
    and be: "virStorageBackendForType e (pool_type (def (pools d ! i))) = Some be"
    and js: "virStorageVolDefFindByName (pools d ! isrc) (v_name volsrc) = Some js"
    and parse: "virStorageVolDefParseString e (def (pools d ! i)) xmldesc = Some voldef0"
    and acl: "EnsureACL e ''virStorageVolCreateXMLFrom'' (def (pools d ! i)) (Some voldef0)"
    and fresh: "virStorageVolDefFindByName (pools d ! i) (vol_name voldef0) = None"
    and bf: "buildVolFrom be = Some bf"
    and nb: "\<not> building (volumes (pools d ! isrc) ! js)"
    and rs: "storageVolCreateXMLFrom_refresh_src be i isrc js d = (True, d1)"
    and cr: "createVol be = Some create"
    and crv: "create (pools d1 ! i)
                ((storageVolCreateXMLFrom_voldef voldef0 (volumes (pools d ! isrc) ! js))
                   \<lparr>vol_key := None\<rparr>) = (True, voldef, vals)"
    and hdl: "virGetStorageVol e (pool_name (def (pools d ! i))) (vol_name voldef)
                (vol_key voldef) = Some newvol"
  shows "async_trace (snd (storageVolCreateXMLFrom e d pool xmldesc volsrc fl)) =
           async_trace d @
           (case objsrc of
              None \<Rightarrow> [IncrAsyncjobs (pool_name (def (pools d ! i))), Call BuildVolFrom,
                       DecrAsyncjobs (pool_name (def (pools d ! i)))]
            | Some s \<Rightarrow> [IncrAsyncjobs (pool_name (def (pools d ! i))),
                         IncrAsyncjobs (pool_name (def (pools d ! s))), Call BuildVolFrom,
                         DecrAsyncjobs (pool_name (def (pools d ! i))),
                         DecrAsyncjobs (pool_name (def (pools d ! s)))])"
    and "\<exists>X vs. asyncjobs X = asyncjobs (pools d ! i) + 1 \<and>
           (\<not> bf X voldef vs fl \<longrightarrow>
              (\<exists>err. fst (storageVolCreateXMLFrom e d pool xmldesc volsrc fl) = Inl err)) \<and>
           (bf X voldef vs fl \<and> refreshVol be = None \<longrightarrow>
              fst (storageVolCreateXMLFrom e d pool xmldesc volsrc fl) = Inr newvol)"
proof -
  have i: "i < length (pools d)" by (rule find_by_uuid_Some [OF found])
  have src: "case objsrc of Some s \<Rightarrow> s = isrc \<and> s \<noteq> i \<and> s < length (pools d)
              | None \<Rightarrow> isrc = i"
    using objsrc nodead isrc
    by (auto split: option.splits if_splits dest: find_by_name_Some)
  define d2 where "d2 = upd_pool i (with_pool_values vals) (record_action (Call CreateVol) d1)"
  define d3 where "d3 = upd_pool i (virStoragePoolObjAddVol voldef) d2"
  define j where "j = length (volumes (pools d2 ! i))"
  note f1 = refresh_src_frame [OF rs]
  have n2: "pool_name (def (pools d2 ! k)) = pool_name (def (pools d ! k))" for k
    by (simp add: d2_def f1(3))
  have n3: "pool_name (def (pools d3 ! k)) = pool_name (def (pools d ! k))" for k
    by (simp add: d3_def n2)
  have c3: "job_counts d3 = job_counts d" by (simp add: d3_def d2_def f1(1))
  have t3: "async_trace d3 = async_trace d" by (simp add: d3_def d2_def f1(2))
  note a3 = asyncjobs_from_job_counts [OF c3 i]
  have i3: "i < length (pools d3)" using a3 by simp
  have len3: "length (pools d3) = length (pools d)"
    using c3 by (metis length_job_counts)
  have src3: "case objsrc of Some s \<Rightarrow> s = isrc \<and> s \<noteq> i \<and> s < length (pools d3)
              | None \<Rightarrow> isrc = i"
    using src len3 by (simp split: option.splits)
  obtain buildret d4 where
    b: "storageVolCreateXMLFrom_build bf i j objsrc isrc js voldef fl d3 = (buildret, d4)"
    by (cases "storageVolCreateXMLFrom_build bf i j objsrc isrc js voldef fl d3")
  have "storageVolCreateXMLFrom e d pool xmldesc volsrc fl =
          storageVolCreateXMLFrom_create e be bf i objsrc isrc js
             (storageVolCreateXMLFrom_voldef voldef0 (volumes (pools d ! isrc) ! js)) fl d"
    by (rule createxmlfrom_to_create [OF flags found objsrc nodead srcfound isrc act actsrc be js
          parse acl fresh bf nb])
  also have "\<dots> = storageVolCreateXMLFrom_finish be i j newvol buildret d4"
    using rs cr crv hdl b
    by (simp add: storageVolCreateXMLFrom_create_def Let_def f1(3) d3_def d2_def j_def)
  finally have eq: "storageVolCreateXMLFrom e d pool xmldesc volsrc fl =
      storageVolCreateXMLFrom_finish be i j newvol buildret d4" .
  have "async_trace d4 = async_trace d3 @
           (case objsrc of
              None \<Rightarrow> [IncrAsyncjobs (pool_name (def (pools d3 ! i))), Call BuildVolFrom,
                       DecrAsyncjobs (pool_name (def (pools d3 ! i)))]
            | Some s \<Rightarrow> [IncrAsyncjobs (pool_name (def (pools d3 ! i))),
                         IncrAsyncjobs (pool_name (def (pools d3 ! s))), Call BuildVolFrom,
                         DecrAsyncjobs (pool_name (def (pools d3 ! i))),
                         DecrAsyncjobs (pool_name (def (pools d3 ! s)))])"
    using from_build_balanced(2) [OF i3 src3, of bf j js voldef fl] b by simp
  then show "async_trace (snd (storageVolCreateXMLFrom e d pool xmldesc volsrc fl)) =
           async_trace d @
           (case objsrc of
              None \<Rightarrow> [IncrAsyncjobs (pool_name (def (pools d ! i))), Call BuildVolFrom,
                       DecrAsyncjobs (pool_name (def (pools d ! i)))]
            | Some s \<Rightarrow> [IncrAsyncjobs (pool_name (def (pools d ! i))),
                         IncrAsyncjobs (pool_name (def (pools d ! s))), Call BuildVolFrom,
                         DecrAsyncjobs (pool_name (def (pools d ! i))),
                         DecrAsyncjobs (pool_name (def (pools d ! s)))])"
    by (simp add: eq t3 n3 split: option.splits)
  from from_build_result [OF i3 src3, of bf j js voldef fl] b a3
  obtain X vs where X: "asyncjobs X = asyncjobs (pools d ! i) + 1"
    and r: "buildret = bf X voldef vs fl"
    by auto
  have "\<not> bf X voldef vs fl \<longrightarrow>
              (\<exists>err. fst (storageVolCreateXMLFrom e d pool xmldesc volsrc fl) = Inl err)"
    using from_finish_result(1) [of buildret be i j newvol d4] r by (simp add: eq)
  moreover have "bf X voldef vs fl \<and> refreshVol be = None \<longrightarrow>
              fst (storageVolCreateXMLFrom e d pool xmldesc volsrc fl) = Inr newvol"
    using from_finish_result(2) [of buildret be i j newvol d4] r by (simp add: eq)
  ultimately show "\<exists>X vs. asyncjobs X = asyncjobs (pools d ! i) + 1 \<and>
           (\<not> bf X voldef vs fl \<longrightarrow>
              (\<exists>err. fst (storageVolCreateXMLFrom e d pool xmldesc volsrc fl) = Inl err)) \<and>
           (bf X voldef vs fl \<and> refreshVol be = None \<longrightarrow>
              fst (storageVolCreateXMLFrom e d pool xmldesc volsrc fl) = Inr newvol)"
    using X by blast
qed

lemma createxmlfrom_cases:
  assumes found: "virStoragePoolObjFindByUUID (pools d) (h_uuid pool) = Some i"
  shows "snd (storageVolCreateXMLFrom e d pool xmldesc volsrc fl) = d \<or>
    (\<exists>be bf js v0.
       snd (storageVolCreateXMLFrom e d pool xmldesc volsrc fl) =
         snd (storageVolCreateXMLFrom_create e be bf i None i js v0 fl d) \<and>
       h_name pool = v_pool volsrc) \<or>
    (\<exists>be bf js v0 s.
       snd (storageVolCreateXMLFrom e d pool xmldesc volsrc fl) =
         snd (storageVolCreateXMLFrom_create e be bf i (Some s) s js v0 fl d) \<and>
       h_name pool \<noteq> v_pool volsrc \<and> s \<noteq> i \<and>
       virStoragePoolObjFindByName (pools d) (v_pool volsrc) = Some s)"
proof (cases "h_name pool = v_pool volsrc")
  case True
  show ?thesis
    using found True
    by (auto simp: storageVolCreateXMLFrom_def Let_def split: option.splits)
next
  case False
  show ?thesis
  proof (cases "virStoragePoolObjFindByName (pools d) (v_pool volsrc)")
    case None
    then show ?thesis
      using found False by (simp add: storageVolCreateXMLFrom_def Let_def)
  next
    case (Some s)
    show ?thesis
    proof (cases "s = i")
      case True
      then show ?thesis
        using found False Some by (simp add: storageVolCreateXMLFrom_def Let_def)
    next
      case ne: False
      show ?thesis
        using found False Some ne
        by (auto simp: storageVolCreateXMLFrom_def Let_def split: option.splits)
    qed
  qed
qed

lemma createxmlfrom_balanced:
  "job_counts (snd (storageVolCreateXMLFrom e d pool xmldesc volsrc fl)) = job_counts d"
  "virStoragePoolObjFindByUUID (pools d) (h_uuid pool) = Some i \<Longrightarrow>
    async_trace (snd (storageVolCreateXMLFrom e d pool xmldesc volsrc fl)) = async_trace d \<or>
    (h_name pool = v_pool volsrc \<and>
     async_trace (snd (storageVolCreateXMLFrom e d pool xmldesc volsrc fl)) =
       async_trace d @ [IncrAsyncjobs (pool_name (def (pools d ! i))), Call BuildVolFrom,
                        DecrAsyncjobs (pool_name (def (pools d ! i)))]) \<or>
    (\<exists>s. h_name pool \<noteq> v_pool volsrc \<and>
         virStoragePoolObjFindByName (pools d) (v_pool volsrc) = Some s \<and>
         async_trace (snd (storageVolCreateXMLFrom e d pool xmldesc volsrc fl)) =
           async_trace d @ [IncrAsyncjobs (pool_name (def (pools d ! i))),
                            IncrAsyncjobs (pool_name (def (pools d ! s))), Call BuildVolFrom,
                            DecrAsyncjobs (pool_name (def (pools d ! i))),
                            DecrAsyncjobs (pool_name (def (pools d ! s)))])"
  "virStoragePoolObjFindByUUID (pools d) (h_uuid pool) = None \<Longrightarrow>
         snd (storageVolCreateXMLFrom e d pool xmldesc volsrc fl) = d"
proof -
  show none: "snd (storageVolCreateXMLFrom e d pool xmldesc volsrc fl) = d"
    if "virStoragePoolObjFindByUUID (pools d) (h_uuid pool) = None"
    using that by (simp add: storageVolCreateXMLFrom_def)
  have main: "job_counts (snd (storageVolCreateXMLFrom e d pool xmldesc volsrc fl)) = job_counts d \<and>
    (async_trace (snd (storageVolCreateXMLFrom e d pool xmldesc volsrc fl)) = async_trace d \<or>
    (h_name pool = v_pool volsrc \<and>
     async_trace (snd (storageVolCreateXMLFrom e d pool xmldesc volsrc fl)) =
       async_trace d @ [IncrAsyncjobs (pool_name (def (pools d ! i))), Call BuildVolFrom,
                        DecrAsyncjobs (pool_name (def (pools d ! i)))]) \<or>
    (\<exists>s. h_name pool \<noteq> v_pool volsrc \<and>
         virStoragePoolObjFindByName (pools d) (v_pool volsrc) = Some s \<and>
         async_trace (snd (storageVolCreateXMLFrom e d pool xmldesc volsrc fl)) =
           async_trace d @ [IncrAsyncjobs (pool_name (def (pools d ! i))),
                            IncrAsyncjobs (pool_name (def (pools d ! s))), Call BuildVolFrom,
                            DecrAsyncjobs (pool_name (def (pools d ! i))),
                            DecrAsyncjobs (pool_name (def (pools d ! s)))]))"
    if found: "virStoragePoolObjFindByUUID (pools d) (h_uuid pool) = Some i" for i
  proof -
    have i: "i < length (pools d)" by (rule find_by_uuid_Some [OF found])
    from createxmlfrom_cases [OF found, of e xmldesc volsrc fl]
    consider
      (same) "snd (storageVolCreateXMLFrom e d pool xmldesc volsrc fl) = d"
    | (one) be bf js v0 where
        "snd (storageVolCreateXMLFrom e d pool xmldesc volsrc fl) =
           snd (storageVolCreateXMLFrom_create e be bf i None i js v0 fl d)"
        "h_name pool = v_pool volsrc"
    | (two) be bf js v0 s where
        "snd (storageVolCreateXMLFrom e d pool xmldesc volsrc fl) =
           snd (storageVolCreateXMLFrom_create e be bf i (Some s) s js v0 fl d)"
        "h_name pool \<noteq> v_pool volsrc" "s \<noteq> i"
        "virStoragePoolObjFindByName (pools d) (v_pool volsrc) = Some s"
      by blast
    then show ?thesis
    proof cases
      case same
      then show ?thesis by simp
    next
      case one
      have "case (None :: nat option) of Some s \<Rightarrow> s = i \<and> s \<noteq> i \<and> s < length (pools d)
              | None \<Rightarrow> i = i" by simp
      from from_create_balanced [OF i this, of e be bf js v0 fl] one
      show ?thesis by auto
    next
      case two
      have s: "s < length (pools d)" by (rule find_by_name_Some [OF two(4), THEN conjunct1])
      have "case Some s of Some s' \<Rightarrow> s' = s \<and> s' \<noteq> i \<and> s' < length (pools d)
              | None \<Rightarrow> s = i" using two(3) s by simp
      from from_create_balanced [OF i this, of e be bf js v0 fl] two
      show ?thesis by auto
    qed
  qed
  show "async_trace (snd (storageVolCreateXMLFrom e d pool xmldesc volsrc fl)) = async_trace d \<or>
    (h_name pool = v_pool volsrc \<and>
     async_trace (snd (storageVolCreateXMLFrom e d pool xmldesc volsrc fl)) =
       async_trace d @ [IncrAsyncjobs (pool_name (def (pools d ! i))), Call BuildVolFrom,
                        DecrAsyncjobs (pool_name (def (pools d ! i)))]) \<or>
    (\<exists>s. h_name pool \<noteq> v_pool volsrc \<and>
         virStoragePoolObjFindByName (pools d) (v_pool volsrc) = Some s \<and>
         async_trace (snd (storageVolCreateXMLFrom e d pool xmldesc volsrc fl)) =
           async_trace d @ [IncrAsyncjobs (pool_name (def (pools d ! i))),
                            IncrAsyncjobs (pool_name (def (pools d ! s))), Call BuildVolFrom,
                            DecrAsyncjobs (pool_name (def (pools d ! i))),
                            DecrAsyncjobs (pool_name (def (pools d ! s)))])"
    if "virStoragePoolObjFindByUUID (pools d) (h_uuid pool) = Some i"
    using main [OF that] by simp
  show "job_counts (snd (storageVolCreateXMLFrom e d pool xmldesc volsrc fl)) = job_counts d"
  proof (cases "virStoragePoolObjFindByUUID (pools d) (h_uuid pool)")
    case None
    then show ?thesis using none by simp
  next
    case (Some i)
    then show ?thesis using main by simp
  qed
qed

text \<open>
  C3. The async-job counter is a natural number, so it is never negative. For every
  input, \<^verbatim>\<open>storageVolCreateXML\<close> and \<^verbatim>\<open>storageVolCreateXMLFrom\<close> return a driver state
  in which every pool has the counter value it had before the call, on the success path
  and on every failure path; a pool that had no running job before has none after. No
  call changes a counter more than once in each direction: the part of the journal that
  concerns async jobs is either unchanged, or extended by one increment of the
  destination pool's counter (and, for a clone from another pool, one of the source
  pool's counter), the call of the build entry point, and one decrement of the same
  counters.

  Every build does so. When \<^verbatim>\<open>storageVolCreateXML\<close> gets to a backend that has a
  \<^verbatim>\<open>buildVol\<close> entry point (flags, pool, backend, document, access, name and
  \<^verbatim>\<open>createVol\<close> have passed and the handle exists), the journal is extended by exactly
  the increment of the pool's counter, the call of \<^verbatim>\<open>buildVol\<close> and the decrement,
  whether the build and what follows it succeed or fail; the pool object that is handed
  to \<^verbatim>\<open>buildVol\<close> has the counter raised by one, and the call fails with the error of
  the build exactly when \<^verbatim>\<open>buildVol\<close> fails on that object. When
  \<^verbatim>\<open>storageVolCreateXMLFrom\<close> gets to \<^verbatim>\<open>buildVolFrom\<close>, the journal is extended by
  exactly the increments, the call and the decrements, for the destination pool and for
  the source pool if it is another pool; \<^verbatim>\<open>buildVolFrom\<close> is handed a pool object with
  the counter raised by one, its failure is a failure of the call, and its success is
  the success of the call if the backend has no \<^verbatim>\<open>refreshVol\<close>.
\<close>

theorem async_job_counter_balanced:
  "job_counts (snd (storageVolCreateXML e d pool xmldesc fl)) = job_counts d \<and>
   job_counts (snd (storageVolCreateXMLFrom e d pool xmldesc volsrc fl)) = job_counts d \<and>
   (virStoragePoolObjFromStoragePool d pool = Inr i \<longrightarrow>
      async_trace (snd (storageVolCreateXML e d pool xmldesc fl)) = async_trace d \<or>
      async_trace (snd (storageVolCreateXML e d pool xmldesc fl)) =
        async_trace d @ [IncrAsyncjobs (pool_name (def (pools d ! i))), Call BuildVol,
                         DecrAsyncjobs (pool_name (def (pools d ! i)))]) \<and>
   (virStoragePoolObjFindByUUID (pools d) (h_uuid pool) = Some i \<longrightarrow>
      async_trace (snd (storageVolCreateXMLFrom e d pool xmldesc volsrc fl)) = async_trace d \<or>
      (h_name pool = v_pool volsrc \<and>
       async_trace (snd (storageVolCreateXMLFrom e d pool xmldesc volsrc fl)) =
         async_trace d @ [IncrAsyncjobs (pool_name (def (pools d ! i))), Call BuildVolFrom,
                          DecrAsyncjobs (pool_name (def (pools d ! i)))]) \<or>
      (\<exists>s. h_name pool \<noteq> v_pool volsrc \<and>
           virStoragePoolObjFindByName (pools d) (v_pool volsrc) = Some s \<and>
           async_trace (snd (storageVolCreateXMLFrom e d pool xmldesc volsrc fl)) =
             async_trace d @ [IncrAsyncjobs (pool_name (def (pools d ! i))),
                              IncrAsyncjobs (pool_name (def (pools d ! s))), Call BuildVolFrom,
                              DecrAsyncjobs (pool_name (def (pools d ! i))),
                              DecrAsyncjobs (pool_name (def (pools d ! s)))])) \<and>
   (virCheckFlags fl VIR_STORAGE_VOL_CREATE_PREALLOC_METADATA \<and>
    virStoragePoolObjFromStoragePool d pool = Inr i \<and>
    active (pools d ! i) \<and>
    virStorageBackendForType e (pool_type (def (pools d ! i))) = Some be \<and>
    virStorageVolDefParseString e (def (pools d ! i)) xmldesc = Some parsed \<and>
    EnsureACL e ''virStorageVolCreateXML'' (def (pools d ! i)) (Some parsed) \<and>
    virStorageVolDefFindByName (pools d ! i) (vol_name parsed) = None \<and>
    createVol be = Some create \<and>
    create (pools d ! i) (parsed\<lparr>vol_key := None\<rparr>) = (True, voldef, vals) \<and>
    virGetStorageVol e (pool_name (def (pools d ! i))) (vol_name voldef) (vol_key voldef)
      = Some newvol \<and>
    buildVol be = Some build \<longrightarrow>
      async_trace (snd (storageVolCreateXML e d pool xmldesc fl)) =
        async_trace d @ [IncrAsyncjobs (pool_name (def (pools d ! i))), Call BuildVol,
                         DecrAsyncjobs (pool_name (def (pools d ! i)))] \<and>
      (fst (storageVolCreateXML e d pool xmldesc fl) = Inl (Raised_by ''buildVol'') \<longleftrightarrow>
         \<not> build (upd_vol (length (volumes (pools d ! i))) (\<lambda>v. v\<lparr>building := True\<rparr>)
                   ((virStoragePoolObjAddVol voldef (with_pool_values vals (pools d ! i)))
                      \<lparr>asyncjobs := asyncjobs (pools d ! i) + 1\<rparr>))
                 voldef fl)) \<and>
   (virCheckFlags fl (VIR_STORAGE_VOL_CREATE_PREALLOC_METADATA OR
                      VIR_STORAGE_VOL_CREATE_REFLINK) \<and>
    virStoragePoolObjFindByUUID (pools d) (h_uuid pool) = Some i \<and>
    objsrc = (if h_name pool \<noteq> v_pool volsrc
              then virStoragePoolObjFindByName (pools d) (v_pool volsrc) else None) \<and>
    objsrc \<noteq> Some i \<and>
    (h_name pool \<noteq> v_pool volsrc \<longrightarrow> objsrc \<noteq> None) \<and>
    isrc = (case objsrc of Some s \<Rightarrow> s | None \<Rightarrow> i) \<and>
    active (pools d ! i) \<and> active (pools d ! isrc) \<and>
    virStorageBackendForType e (pool_type (def (pools d ! i))) = Some be \<and>
    virStorageVolDefFindByName (pools d ! isrc) (v_name volsrc) = Some js \<and>
    virStorageVolDefParseString e (def (pools d ! i)) xmldesc = Some parsed \<and>
    EnsureACL e ''virStorageVolCreateXMLFrom'' (def (pools d ! i)) (Some parsed) \<and>
    virStorageVolDefFindByName (pools d ! i) (vol_name parsed) = None \<and>
    buildVolFrom be = Some bf \<and>
    \<not> building (volumes (pools d ! isrc) ! js) \<and>
    storageVolCreateXMLFrom_refresh_src be i isrc js d = (True, dr) \<and>
    createVol be = Some create \<and>
    create (pools dr ! i)
      ((storageVolCreateXMLFrom_voldef parsed (volumes (pools d ! isrc) ! js))
         \<lparr>vol_key := None\<rparr>) = (True, voldef, vals) \<and>
    virGetStorageVol e (pool_name (def (pools d ! i))) (vol_name voldef) (vol_key voldef)
      = Some newvol \<longrightarrow>
      async_trace (snd (storageVolCreateXMLFrom e d pool xmldesc volsrc fl)) =
        async_trace d @
          (case objsrc of
             None \<Rightarrow> [IncrAsyncjobs (pool_name (def (pools d ! i))), Call BuildVolFrom,
                      DecrAsyncjobs (pool_name (def (pools d ! i)))]
           | Some s \<Rightarrow> [IncrAsyncjobs (pool_name (def (pools d ! i))),
                        IncrAsyncjobs (pool_name (def (pools d ! s))), Call BuildVolFrom,
                        DecrAsyncjobs (pool_name (def (pools d ! i))),
                        DecrAsyncjobs (pool_name (def (pools d ! s)))]) \<and>
      (\<exists>X vs. asyncjobs X = asyncjobs (pools d ! i) + 1 \<and>
         (\<not> bf X voldef vs fl \<longrightarrow>
            (\<exists>err. fst (storageVolCreateXMLFrom e d pool xmldesc volsrc fl) = Inl err)) \<and>
         (bf X voldef vs fl \<and> refreshVol be = None \<longrightarrow>
            fst (storageVolCreateXMLFrom e d pool xmldesc volsrc fl) = Inr newvol)))"
  apply (intro conjI impI)
        apply (rule createxml_balanced(1))
       apply (rule createxmlfrom_balanced(1))
      apply (rule createxml_balanced(2), assumption)
     apply (rule createxmlfrom_balanced(2), assumption)
    apply (elim conjE, rule createxml_build_bracket(1); assumption)
   apply (elim conjE, rule createxml_build_bracket(2); assumption)
  apply (elim conjE, rule createxmlfrom_build_bracket(1); assumption)
  apply (elim conjE, rule createxmlfrom_build_bracket(2); assumption)
  done

text \<open>
  On the concrete configuration: a successful build and a failed build of a new volume
  \<open>v2\<close> in \<open>p1\<close>, and a clone of \<open>v1\<close> of pool \<open>p1\<close> into pool \<open>p2\<close>.
\<close>

theorem async_job_counter_balanced_witness:
  "job_counts (sample_driver VIR_STORAGE_POOL_DIR) = [0] \<and>
   job_counts (snd (storageVolCreateXML (sample_env sample_backend)
      (sample_driver VIR_STORAGE_POOL_DIR) sample_pool_handle ''v2'' 0)) = [0] \<and>
   async_trace (snd (storageVolCreateXML (sample_env sample_backend)
      (sample_driver VIR_STORAGE_POOL_DIR) sample_pool_handle ''v2'' 0))
     = [IncrAsyncjobs ''p1'', Call BuildVol, DecrAsyncjobs ''p1''] \<and>
   fst (storageVolCreateXML (sample_env sample_backend)
      (sample_driver VIR_STORAGE_POOL_DIR) sample_pool_handle ''v2'' 0)
     \<noteq> Inl (Raised_by ''buildVol'') \<and>
   job_counts (snd (storageVolCreateXML
      (sample_env (sample_backend\<lparr>buildVol := Some (\<lambda>_ _ _. False)\<rparr>))
      (sample_driver VIR_STORAGE_POOL_DIR) sample_pool_handle ''v2'' 0)) = [0] \<and>
   async_trace (snd (storageVolCreateXML
      (sample_env (sample_backend\<lparr>buildVol := Some (\<lambda>_ _ _. False)\<rparr>))
      (sample_driver VIR_STORAGE_POOL_DIR) sample_pool_handle ''v2'' 0))
     = [IncrAsyncjobs ''p1'', Call BuildVol, DecrAsyncjobs ''p1''] \<and>
   fst (storageVolCreateXML
      (sample_env (sample_backend\<lparr>buildVol := Some (\<lambda>_ _ _. False)\<rparr>))
      (sample_driver VIR_STORAGE_POOL_DIR) sample_pool_handle ''v2'' 0)
     = Inl (Raised_by ''buildVol'') \<and>
   job_counts (snd (storageVolCreateXMLFrom (sample_env sample_backend) sample_driver2
      \<lparr>h_name = ''p2'', h_uuid = ''p2''\<rparr> ''c1'' sample_vol_handle 0)) = [0, 0] \<and>
   async_trace (snd (storageVolCreateXMLFrom (sample_env sample_backend) sample_driver2
      \<lparr>h_name = ''p2'', h_uuid = ''p2''\<rparr> ''c1'' sample_vol_handle 0))
     = [IncrAsyncjobs ''p2'', IncrAsyncjobs ''p1'', Call BuildVolFrom,
        DecrAsyncjobs ''p2'', DecrAsyncjobs ''p1''] \<and>
   fst (storageVolCreateXMLFrom (sample_env sample_backend) sample_driver2
      \<lparr>h_name = ''p2'', h_uuid = ''p2''\<rparr> ''c1'' sample_vol_handle 0)
     = Inr \<lparr>v_pool = ''p2'', v_name = ''c1'', v_key = Some ''c1''\<rparr>"
proof -
  let ?d = "sample_driver VIR_STORAGE_POOL_DIR"
  let ?bad = "sample_backend\<lparr>buildVol := Some (\<lambda>_ _ _. False)\<rparr>"
  let ?create = "\<lambda>obj v. (True, v\<lparr>vol_key := Some (vol_name v)\<rparr>, pool_values_of obj)"
  let ?v = "(sample_vol ''v2'' 10)\<lparr>vol_key := Some ''v2''\<rparr>"
  let ?nv = "\<lparr>v_pool = ''p1'', v_name = ''v2'', v_key = Some ''v2''\<rparr>"
  let ?p2 = "\<lparr>h_name = ''p2'', h_uuid = ''p2''\<rparr>"
  let ?c = "(sample_vol ''c1'' 10)\<lparr>vol_key := Some ''c1''\<rparr>"
  let ?nc = "\<lparr>v_pool = ''p2'', v_name = ''c1'', v_key = Some ''c1''\<rparr>"
  note ev = sample_defs sample_driver2_def virCheckFlags_def
    VIR_STORAGE_VOL_CREATE_PREALLOC_METADATA_def VIR_STORAGE_VOL_CREATE_REFLINK_def
    virStoragePoolObjFromStoragePool_def storagePoolObjFindByUUID_def
    virStoragePoolObjFindByUUID_def virStoragePoolObjFindByName_def
    virStorageVolDefFindByName_def pool_values_of_def job_counts_def async_trace_def
    storageVolCreateXMLFrom_refresh_src_def storageVolCreateXMLFrom_voldef_def
    upd_vol_def virStoragePoolObjAddVol_def with_pool_values_def
  note G = async_job_counter_balanced
    [where e = "sample_env sample_backend" and d = ?d and pool = sample_pool_handle
       and xmldesc = "''v2''" and fl = 0 and i = 0 and be = sample_backend
       and parsed = "sample_vol ''v2'' 10" and create = ?create and voldef = ?v
       and vals = "(100, 10, 90)" and newvol = ?nv and build = "\<lambda>_ _ _. True"]
  note B = async_job_counter_balanced
    [where e = "sample_env ?bad" and d = ?d and pool = sample_pool_handle
       and xmldesc = "''v2''" and fl = 0 and i = 0 and be = ?bad
       and parsed = "sample_vol ''v2'' 10" and create = ?create and voldef = ?v
       and vals = "(100, 10, 90)" and newvol = ?nv and build = "\<lambda>_ _ _. False"]
  note C = async_job_counter_balanced
    [where e = "sample_env sample_backend" and d = sample_driver2 and pool = ?p2
       and xmldesc = "''c1''" and volsrc = sample_vol_handle and fl = 0 and i = 1
       and objsrc = "Some 0" and isrc = 0 and js = 0 and be = sample_backend
       and parsed = "sample_vol ''c1'' 10" and bf = "\<lambda>_ _ _ _. True"
       and dr = sample_driver2 and create = ?create and voldef = ?c
       and vals = "(100, 10, 90)" and newvol = ?nc]
  have j0: "job_counts ?d = [0]" "job_counts sample_driver2 = [0, 0]"
    by (simp_all add: ev)
  have g1: "job_counts (snd (storageVolCreateXML (sample_env sample_backend) ?d
              sample_pool_handle ''v2'' 0)) = [0]"
    using G [THEN conjunct1] by (simp only: j0)
  have g2: "async_trace (snd (storageVolCreateXML (sample_env sample_backend) ?d
              sample_pool_handle ''v2'' 0))
            = [IncrAsyncjobs ''p1'', Call BuildVol, DecrAsyncjobs ''p1''] \<and>
          fst (storageVolCreateXML (sample_env sample_backend) ?d sample_pool_handle ''v2'' 0)
            \<noteq> Inl (Raised_by ''buildVol'')"
    using G [THEN conjunct2, THEN conjunct2, THEN conjunct2, THEN conjunct2, THEN conjunct1]
    by (simp add: ev)
  have b1: "job_counts (snd (storageVolCreateXML (sample_env ?bad) ?d
              sample_pool_handle ''v2'' 0)) = [0]"
    using B [THEN conjunct1] by (simp only: j0)
  have b2: "async_trace (snd (storageVolCreateXML (sample_env ?bad) ?d
              sample_pool_handle ''v2'' 0))
            = [IncrAsyncjobs ''p1'', Call BuildVol, DecrAsyncjobs ''p1''] \<and>
          fst (storageVolCreateXML (sample_env ?bad) ?d sample_pool_handle ''v2'' 0)
            = Inl (Raised_by ''buildVol'')"
    using B [THEN conjunct2, THEN conjunct2, THEN conjunct2, THEN conjunct2, THEN conjunct1]
    by (simp add: ev)
  have c1: "job_counts (snd (storageVolCreateXMLFrom (sample_env sample_backend) sample_driver2
              ?p2 ''c1'' sample_vol_handle 0)) = [0, 0]"
    using C [THEN conjunct2, THEN conjunct1] by (simp only: j0)
  have c2: "async_trace (snd (storageVolCreateXMLFrom (sample_env sample_backend) sample_driver2
              ?p2 ''c1'' sample_vol_handle 0))
            = [IncrAsyncjobs ''p2'', IncrAsyncjobs ''p1'', Call BuildVolFrom,
               DecrAsyncjobs ''p2'', DecrAsyncjobs ''p1''] \<and>
          fst (storageVolCreateXMLFrom (sample_env sample_backend) sample_driver2
              ?p2 ''c1'' sample_vol_handle 0) = Inr ?nc"
    using C [THEN conjunct2, THEN conjunct2, THEN conjunct2, THEN conjunct2, THEN conjunct2]
    by (simp add: ev)
  show ?thesis
    using j0(1) g1 g2 b1 b2 c1 c2 by (simp only: simp_thms)
qed

subsection \<open>Frames of the pool helpers\<close>

lemma virFileBuildPath_inj [simp]:
  "virFileBuildPath dir n ext = virFileBuildPath dir m ext \<longleftrightarrow> n = m"
  by (simp add: virFileBuildPath_def)

lemma pool_status_record_action [simp]: "pool_status (record_action a d) = pool_status d"
  by (simp add: pool_status_def)

lemma pool_status_upd_pool:
  "pool_name (def (f (pools d ! i))) = pool_name (def (pools d ! i)) \<Longrightarrow>
   active (f (pools d ! i)) = active (pools d ! i) \<Longrightarrow>
     pool_status (upd_pool i f d) = pool_status d"
proof (cases "i < length (pools d)")
  case True
  assume same: "pool_name (def (f (pools d ! i))) = pool_name (def (pools d ! i))"
    "active (f (pools d ! i)) = active (pools d ! i)"
  have "(map (\<lambda>obj. (pool_name (def obj), active obj)) (pools d))
          [i := (pool_name (def (pools d ! i)), active (pools d ! i))]
        = map (\<lambda>obj. (pool_name (def obj), active obj)) (pools d)"
    using True by (simp add: list_update_same_conv)
  with same show ?thesis
    by (simp add: pool_status_def upd_pool_def map_update)
next
  case False
  then show ?thesis
    by (simp add: pool_status_def upd_pool_def list_update_beyond)
qed

lemma pool_status_set_active:
  "pool_status (upd_pool i (virStoragePoolObjSetActive a) d)
     = (pool_status d)[i := (pool_name (def (pools d ! i)), a)]"
  by (simp add: pool_status_def upd_pool_def map_update virStoragePoolObjSetActive_def)

lemma frame_record_action [simp]:
  "files (record_action a d) = files d"
  "stateDir (record_action a d) = stateDir d"
  "events (record_action a d) = events d"
  by (simp_all add: record_action_def)

lemma frame_upd_pool [simp]:
  "files (upd_pool i f d) = files d"
  "stateDir (upd_pool i f d) = stateDir d"
  "events (upd_pool i f d) = events d"
  by (simp_all add: upd_pool_def)

lemma frame_unlink [simp]:
  "files (unlink p d) = files d - {p}"
  "stateDir (unlink p d) = stateDir d"
  "events (unlink p d) = events d"
  "pools (unlink p d) = pools d"
  "journal (unlink p d) = journal d"
  by (simp_all add: unlink_def)

lemma pool_status_unlink [simp]: "pool_status (unlink p d) = pool_status d"
  by (simp add: pool_status_def)

lemma pool_create_build_frame [simp]:
  "pools (snd (pool_create_build be i fl d)) = pools d"
  "files (snd (pool_create_build be i fl d)) = files d"
  "stateDir (snd (pool_create_build be i fl d)) = stateDir d"
  "events (snd (pool_create_build be i fl d)) = events d"
  by (simp_all add: pool_create_build_def Let_def split: option.splits)

lemma pool_start_frame [simp]:
  "pools (snd (pool_start be i d)) = pools d"
  "files (snd (pool_start be i d)) = files d"
  "stateDir (snd (pool_start be i d)) = stateDir d"
  "events (snd (pool_start be i d)) = events d"
  by (simp_all add: pool_start_def split: option.splits)

lemma pool_stop_frame [simp]:
  "pools (snd (pool_stop be i d)) = pools d"
  "files (snd (pool_stop be i d)) = files d"
  "stateDir (snd (pool_stop be i d)) = stateDir d"
  "events (snd (pool_stop be i d)) = events d"
  by (simp_all add: pool_stop_def split: option.splits)

lemma refreshed_obj_fields [simp]:
  "pool_name (def (refreshed_obj be obj)) = pool_name (def obj)"
  "pool_uuid (def (refreshed_obj be obj)) = pool_uuid (def obj)"
  "pool_type (def (refreshed_obj be obj)) = pool_type (def obj)"
  "active (refreshed_obj be obj) = active obj"
  "asyncjobs (refreshed_obj be obj) = asyncjobs obj"
  "configFile (refreshed_obj be obj) = configFile obj"
  "newDef (refreshed_obj be obj) = newDef obj"
  by (simp_all add: refreshed_obj_def split: prod.splits)

lemma pool_refresh_eq:
  "pool_refresh be i d =
     (fst (refreshPool be (pools d ! i)),
      upd_pool i (refreshed_obj be) (record_action (Call RefreshPool) d))"
  by (simp add: pool_refresh_def Let_def refreshed_obj_def upd_pool_def split: prod.splits)


lemma pool_save_and_refresh_frame:
  assumes "pool_save_and_refresh e be i d = (r, d')"
  shows "stateDir d' = stateDir d"
    and "events d' = events d"
    and "pools d' = (pools d)[i := virStoragePoolObjClearVols (pools d ! i)] \<or>
         pools d' = (pools d)[i := refreshed_obj be (virStoragePoolObjClearVols (pools d ! i))]"
    and "files d' =
          (if r = None
           then insert (virFileBuildPath (stateDir d) (pool_name (def (pools d ! i))) ''.xml'')
                  (files d)
           else files d - {virFileBuildPath (stateDir d) (pool_name (def (pools d ! i))) ''.xml''})"
  using assms
  by (cases "i < length (pools d)";
      auto simp: pool_save_and_refresh_def Let_def pool_refresh_eq upd_pool_def
        list_update_beyond split: if_splits)+

lemma pool_status_list_update:
  assumes "pools d' = (pools d)[i := x]"
    and "pool_name (def x) = pool_name (def (pools d ! i))"
    and "active x = active (pools d ! i)"
  shows "pool_status d' = pool_status d"
proof -
  have "pools d' = pools (upd_pool i (\<lambda>_. x) d)"
    using assms(1) by (simp add: upd_pool_def)
  then have "pool_status d' = pool_status (upd_pool i (\<lambda>_. x) d)"
    by (simp add: pool_status_def)
  also have "\<dots> = pool_status d"
    using assms(2,3) by (intro pool_status_upd_pool)
  finally show ?thesis .
qed

lemma pool_save_and_refresh_status:
  assumes "pool_save_and_refresh e be i d = (r, d')"
  shows "pool_status d' = pool_status d"
    and "length (pools d') = length (pools d)"
    and "pool_name (def (pools d' ! i)) = pool_name (def (pools d ! i))"
    and "pool_uuid (def (pools d' ! i)) = pool_uuid (def (pools d ! i))"
proof -
  note alt = pool_save_and_refresh_frame(3) [OF assms]
  show "pool_status d' = pool_status d"
    using alt
    by (auto intro!: pool_status_list_update simp: virStoragePoolObjClearVols_def)
  show "length (pools d') = length (pools d)"
    using alt by auto
  show "pool_name (def (pools d' ! i)) = pool_name (def (pools d ! i))"
    using alt
    by (cases "i < length (pools d)")
       (auto simp: virStoragePoolObjClearVols_def list_update_beyond)
  show "pool_uuid (def (pools d' ! i)) = pool_uuid (def (pools d ! i))"
    using alt
    by (cases "i < length (pools d)")
       (auto simp: virStoragePoolObjClearVols_def list_update_beyond)
qed


lemma pool_create_build_eq:
  "pool_create_build be i fl d = (b, d') \<Longrightarrow>
     pools d' = pools d \<and> files d' = files d \<and> stateDir d' = stateDir d \<and> events d' = events d"
  by (metis pool_create_build_frame snd_conv)

lemma pool_start_eq:
  "pool_start be i d = (b, d') \<Longrightarrow>
     pools d' = pools d \<and> files d' = files d \<and> stateDir d' = stateDir d \<and> events d' = events d"
  by (metis pool_start_frame snd_conv)

lemma pool_stop_eq:
  "pool_stop be i d = (b, d') \<Longrightarrow>
     pools d' = pools d \<and> files d' = files d \<and> stateDir d' = stateDir d \<and> events d' = events d"
  by (metis pool_stop_frame snd_conv)

lemma remove_nth_last [simp]: "remove_nth (length ps) (ps @ [y]) = ps"
  by (simp add: remove_nth_def)

lemma frame_remove [simp]:
  "files (virStoragePoolObjRemove i d) = files d"
  "stateDir (virStoragePoolObjRemove i d) = stateDir d"
  "events (virStoragePoolObjRemove i d) = events d"
  "pools (virStoragePoolObjRemove i d) = remove_nth i (pools d)"
  by (simp_all add: virStoragePoolObjRemove_def)

subsection \<open>Creating a pool from a document\<close>

lemma storagePoolCreateXML_summary:
  assumes run: "storagePoolCreateXML e d xml fl = (r, d')"
  shows "stateDir d' = stateDir d \<and>
    (case r of
       Inl err \<Rightarrow>
         pools d' = pools d \<and> events d' = events d \<and>
         (err \<in> {Raised_by ''virStoragePoolSaveState'', Raised_by ''refreshPool''} \<longrightarrow>
           (\<exists>newdef. virStoragePoolDefParseString e xml = Some newdef \<and>
              files d' = files d - {virFileBuildPath (stateDir d) (pool_name newdef) ''.xml''})) \<and>
         (err \<notin> {Raised_by ''virStoragePoolSaveState'', Raised_by ''refreshPool''} \<longrightarrow>
           files d' = files d)
     | Inr h \<Rightarrow>
         (\<exists>newdef obj. virStoragePoolDefParseString e xml = Some newdef \<and>
            pools d' = pools d @ [obj] \<and> active obj \<and>
            pool_name (def obj) = pool_name newdef \<and>
            h = \<lparr>h_name = pool_name newdef, h_uuid = pool_uuid newdef\<rparr> \<and>
            files d' = insert (virFileBuildPath (stateDir d) (pool_name newdef) ''.xml'') (files d) \<and>
            events d' = events d @
              [(pool_name newdef, pool_uuid newdef, VIR_STORAGE_POOL_EVENT_STARTED)]))"
proof (cases "pool_create_flags_error fl")
  case (Some x)
  with run show ?thesis
    by (auto simp: storagePoolCreateXML_def pool_create_flags_error_def unsupported_flags_def
        split: if_splits)
next
  case None
  note flags = this
  show ?thesis
  proof (cases "virStoragePoolDefParseString e xml")
    case None
    with run flags show ?thesis by (auto simp: storagePoolCreateXML_def)
  next
    case (Some newdef)
    note parse = this
    show ?thesis
    proof (cases "EnsureACL e ''virStoragePoolCreateXML'' newdef None \<and>
                  \<not> virStoragePoolObjIsDuplicate (pools d) newdef \<and>
                  \<not> virStoragePoolObjSourceFindDuplicate e (pools d) newdef \<and>
                  virStorageBackendForType e (pool_type newdef) \<noteq> None")
      case False
      with run flags parse show ?thesis
        by (auto simp: storagePoolCreateXML_def split: if_splits option.splits)
    next
      case True
      then obtain be where be: "virStorageBackendForType e (pool_type newdef) = Some be"
        by auto
      define i where "i = length (pools d)"
      define d1 where "d1 = d\<lparr>pools := pools d @ [virStoragePoolObjNew newdef]\<rparr>"
      obtain built d2 where b: "pool_create_build be i fl d1 = (built, d2)"
        by (cases "pool_create_build be i fl d1")
      obtain started d3 where st: "pool_start be i d2 = (started, d3)"
        by (cases "pool_start be i d2")
      obtain r4 d4 where sv: "pool_save_and_refresh e be i d3 = (r4, d4)"
        by (cases "pool_save_and_refresh e be i d3")
      have f2: "pools d2 = pools d1" "files d2 = files d1" "stateDir d2 = stateDir d1"
          "events d2 = events d1"
        using pool_create_build_eq [OF b] by simp_all
      have f3: "pools d3 = pools d1" "files d3 = files d1" "stateDir d3 = stateDir d1"
          "events d3 = events d1"
        using pool_start_eq [OF st] f2 by simp_all
      have f1: "pools d1 = pools d @ [virStoragePoolObjNew newdef]" "files d1 = files d"
          "stateDir d1 = stateDir d" "events d1 = events d"
        by (simp_all add: d1_def)
      have name3: "pool_name (def (pools d3 ! i)) = pool_name newdef"
        by (simp add: f3 f1 i_def virStoragePoolObjNew_def)
      have f4: "stateDir d4 = stateDir d" "events d4 = events d"
          "files d4 = (if r4 = None
              then insert (virFileBuildPath (stateDir d) (pool_name newdef) ''.xml'') (files d)
              else files d - {virFileBuildPath (stateDir d) (pool_name newdef) ''.xml''})"
        using pool_save_and_refresh_frame [OF sv] name3
        by (auto simp: f3 f1 i_def)
      obtain y where y: "pools d4 = pools d @ [y]" "pool_name (def y) = pool_name newdef"
          "pool_uuid (def y) = pool_uuid newdef"
        using pool_save_and_refresh_frame(3) [OF sv]
        by (auto simp: f3 f1 i_def virStoragePoolObjNew_def virStoragePoolObjClearVols_def)
      have unfolded: "(r, d') =
          (if \<not> built then (Inl (Raised_by ''buildPool''), virStoragePoolObjRemove i d2)
           else if \<not> started then (Inl (Raised_by ''startPool''), virStoragePoolObjRemove i d3)
           else (case r4 of
                   Some err4 \<Rightarrow> (Inl err4, virStoragePoolObjRemove i d4)
                 | None \<Rightarrow>
                    (Inr \<lparr>h_name = pool_name (def (pools d4 ! i)),
                          h_uuid = pool_uuid (def (pools d4 ! i))\<rparr>,
                     virObjectEventStateQueue
                       (lifecycle_event (def (pools d4 ! i)) VIR_STORAGE_POOL_EVENT_STARTED)
                       (upd_pool i (virStoragePoolObjSetActive True) d4))))"
        using flags parse True be b st sv run
        by (cases built; cases started; cases r4;
            simp add: storagePoolCreateXML_def Let_def virStoragePoolObjAssignDef_def
              i_def [symmetric] d1_def [symmetric])
      have r4: "r4 = Some (Raised_by ''virStoragePoolSaveState'') \<or>
                r4 = Some (Raised_by ''refreshPool'') \<or> r4 = None"
        using sv by (auto simp: pool_save_and_refresh_def Let_def split: if_splits prod.splits)
      show ?thesis
        using unfolded r4 parse f4 f3 f2 f1 y
        by (auto simp: i_def upd_pool_def virObjectEventStateQueue_def lifecycle_event_def
            virStoragePoolObjSetActive_def split: if_splits)
    qed
  qed
qed



lemmas pool_op_defs = pool_create_flags_error_def virCheckFlags_def
  VIR_STORAGE_POOL_CREATE_WITH_BUILD_def VIR_STORAGE_POOL_CREATE_WITH_BUILD_OVERWRITE_def
  VIR_STORAGE_POOL_CREATE_WITH_BUILD_NO_OVERWRITE_def VIR_STORAGE_POOL_BUILD_NO_OVERWRITE_def
  VIR_STORAGE_POOL_BUILD_OVERWRITE_def virStoragePoolObjIsDuplicate_def
  virStoragePoolObjFindByUUID_def virStoragePoolObjFindByName_def
  storagePoolObjFindByUUID_def virStoragePoolObjFromStoragePool_def
  virStoragePoolObjAssignDef_def virStoragePoolObjNew_def pool_create_build_def pool_start_def
  pool_stop_def pool_refresh_def pool_save_and_refresh_def virFileBuildPath_def unlink_def
  virStoragePoolObjClearVols_def virStoragePoolObjRemove_def virStoragePoolObjSetActive_def
  virStoragePoolUpdateInactive_def remove_nth_def upd_pool_def record_action_def
  virObjectEventStateQueue_def lifecycle_event_def Let_def


subsection \<open>State files and the active flag\<close>

lemma storagePoolCreate_summary:
  assumes run: "storagePoolCreate e d pool fl = (r, d')"
  shows "stateDir d' = stateDir d \<and>
    (case r of
       Inl err \<Rightarrow> pool_status d' = pool_status d \<and> files d' \<subseteq> files d
     | Inr u \<Rightarrow>
         (\<exists>i. virStoragePoolObjFromStoragePool d pool = Inr i \<and>
            pool_status d' = (pool_status d)[i := (pool_name (def (pools d ! i)), True)] \<and>
            files d' = insert (virFileBuildPath (stateDir d) (pool_name (def (pools d ! i))) ''.xml'')
                         (files d)))"
proof (cases "pool_create_flags_error fl = None \<and>
              (\<exists>i. virStoragePoolObjFromStoragePool d pool = Inr i \<and>
                 EnsureACL e ''virStoragePoolCreate'' (def (pools d ! i)) None \<and>
                 virStorageBackendForType e (pool_type (def (pools d ! i))) \<noteq> None \<and>
                 \<not> active (pools d ! i))")
  case False
  with run show ?thesis
    by (auto simp: storagePoolCreate_def Let_def split: option.splits sum.splits if_splits)
next
  case True
  then obtain i be where flags: "pool_create_flags_error fl = None"
    and i: "virStoragePoolObjFromStoragePool d pool = Inr i"
    and acl: "EnsureACL e ''virStoragePoolCreate'' (def (pools d ! i)) None"
    and be: "virStorageBackendForType e (pool_type (def (pools d ! i))) = Some be"
    and inactive: "\<not> active (pools d ! i)"
    by auto
  obtain built d2 where b: "pool_create_build be i fl d = (built, d2)"
    by (cases "pool_create_build be i fl d")
  obtain started d3 where st: "pool_start be i d2 = (started, d3)"
    by (cases "pool_start be i d2")
  obtain r4 d4 where sv: "pool_save_and_refresh e be i d3 = (r4, d4)"
    by (cases "pool_save_and_refresh e be i d3")
  have f2: "pools d2 = pools d" "files d2 = files d" "stateDir d2 = stateDir d"
    using pool_create_build_eq [OF b] by simp_all
  have f3: "pools d3 = pools d" "files d3 = files d" "stateDir d3 = stateDir d"
    using pool_start_eq [OF st] f2 by simp_all
  have s2: "pool_status d2 = pool_status d" and s3: "pool_status d3 = pool_status d"
    using f2 f3 by (simp_all add: pool_status_def)
  have f4: "stateDir d4 = stateDir d"
      "files d4 = (if r4 = None
          then insert (virFileBuildPath (stateDir d) (pool_name (def (pools d ! i))) ''.xml'')
                 (files d)
          else files d - {virFileBuildPath (stateDir d) (pool_name (def (pools d ! i))) ''.xml''})"
      "pool_status d4 = pool_status d"
      "pool_name (def (pools d4 ! i)) = pool_name (def (pools d ! i))"
    using pool_save_and_refresh_frame [OF sv] pool_save_and_refresh_status [OF sv]
    by (simp_all add: f3 s3)
  have unfolded: "(r, d') =
      (if \<not> built then (Inl (Raised_by ''buildPool''), d2)
       else if \<not> started then (Inl (Raised_by ''startPool''), d3)
       else (case r4 of
               Some err4 \<Rightarrow> (Inl err4, d4)
             | None \<Rightarrow>
                (Inr (),
                 virObjectEventStateQueue
                   (lifecycle_event (def (pools d4 ! i)) VIR_STORAGE_POOL_EVENT_STARTED)
                   (upd_pool i (virStoragePoolObjSetActive True) d4))))"
    using flags i acl be inactive b st sv run
    by (cases built; cases started; cases r4; simp add: storagePoolCreate_def Let_def)
  have queue: "pool_status (virObjectEventStateQueue ev x) = pool_status x"
      "files (virObjectEventStateQueue ev x) = files x"
      "stateDir (virObjectEventStateQueue ev x) = stateDir x" for ev x
    by (simp_all add: virObjectEventStateQueue_def pool_status_def)
  show ?thesis
    using unfolded i f2 f3 f4 s2 s3
    by (auto simp: queue pool_status_set_active split: if_splits option.splits)
qed


lemma pool_status_remove:
  "pool_status (virStoragePoolObjRemove i d) = remove_nth i (pool_status d)"
  by (simp add: pool_status_def virStoragePoolObjRemove_def remove_nth_def take_map drop_map)

lemma pool_status_update_inactive:
  "pool_status (virStoragePoolUpdateInactive i d) = remove_nth i (pool_status d) \<or>
   (\<exists>n. pool_status (virStoragePoolUpdateInactive i d)
          = (pool_status d)[i := (n, active (pools d ! i))]) \<or>
   pool_status (virStoragePoolUpdateInactive i d) = pool_status d"
proof (cases "configFile (pools d ! i)")
  case None
  then show ?thesis
    by (simp add: virStoragePoolUpdateInactive_def pool_status_remove)
next
  case (Some cf)
  show ?thesis
  proof (cases "newDef (pools d ! i)")
    case None
    with Some show ?thesis by (simp add: virStoragePoolUpdateInactive_def)
  next
    case (Some nd)
    with \<open>configFile (pools d ! i) = Some cf\<close>
    have "pool_status (virStoragePoolUpdateInactive i d)
            = (pool_status d)[i := (pool_name nd, active (pools d ! i))]"
      by (simp add: virStoragePoolUpdateInactive_def pool_status_def upd_pool_def map_update)
    then show ?thesis by blast
  qed
qed

lemma update_inactive_frame [simp]:
  "files (virStoragePoolUpdateInactive i d) = files d"
  "stateDir (virStoragePoolUpdateInactive i d) = stateDir d"
  by (simp_all add: virStoragePoolUpdateInactive_def Let_def split: option.splits)

lemma storagePoolDestroy_summary:
  assumes run: "storagePoolDestroy e d pool = (r, d')"
  shows "stateDir d' = stateDir d \<and>
    (case r of
       Inl err \<Rightarrow> pool_status d' = pool_status d \<and> files d' \<subseteq> files d
     | Inr u \<Rightarrow>
         (\<exists>i. storagePoolObjFindByUUID d (h_uuid pool) (h_name pool) = Inr i \<and>
            files d' = files d -
               {virFileBuildPath (stateDir d) (pool_name (def (pools d ! i))) ''.xml''} \<and>
            (pool_status d' = remove_nth i (pool_status d) \<or>
             (\<exists>n. pool_status d' = (pool_status d)[i := (n, False)]))))"
proof (cases "\<exists>i. storagePoolObjFindByUUID d (h_uuid pool) (h_name pool) = Inr i \<and>
                 EnsureACL e ''virStoragePoolDestroy'' (def (pools d ! i)) None \<and>
                 virStorageBackendForType e (pool_type (def (pools d ! i))) \<noteq> None \<and>
                 active (pools d ! i) \<and> asyncjobs (pools d ! i) = 0")
  case False
  with run show ?thesis
    by (auto simp: storagePoolDestroy_def Let_def split: option.splits sum.splits if_splits)
next
  case True
  then obtain i be where i: "storagePoolObjFindByUUID d (h_uuid pool) (h_name pool) = Inr i"
    and acl: "EnsureACL e ''virStoragePoolDestroy'' (def (pools d ! i)) None"
    and be: "virStorageBackendForType e (pool_type (def (pools d ! i))) = Some be"
    and act: "active (pools d ! i)" and idle: "asyncjobs (pools d ! i) = 0"
    by auto
  define path where "path = virFileBuildPath (stateDir d) (pool_name (def (pools d ! i))) ''.xml''"
  obtain stopped d2 where sp: "pool_stop be i (unlink path d) = (stopped, d2)"
    by (cases "pool_stop be i (unlink path d)")
  have f2: "pools d2 = pools d" "files d2 = files d - {path}" "stateDir d2 = stateDir d"
    using pool_stop_eq [OF sp] by simp_all
  have s2: "pool_status d2 = pool_status d"
    using f2 by (simp add: pool_status_def)
  define d4 where "d4 = upd_pool i (virStoragePoolObjSetActive False)
                          (upd_pool i virStoragePoolObjClearVols d2)"
  have ilen: "i < length (pools d)"
    using storagePoolObjFindByUUID_Inr [OF i] by simp
  have s4: "pool_status d4 = (pool_status d)[i := (pool_name (def (pools d ! i)), False)]"
    using ilen
    by (simp add: d4_def pool_status_def upd_pool_def map_update f2
        virStoragePoolObjSetActive_def virStoragePoolObjClearVols_def)
  have a4: "\<not> active (pools d4 ! i)"
    using ilen by (simp add: d4_def upd_pool_def f2 virStoragePoolObjSetActive_def)
  have f4: "files d4 = files d - {path}" "stateDir d4 = stateDir d"
    by (simp_all add: d4_def f2)
  have unfolded: "(r, d') =
      (if \<not> stopped then (Inl (Raised_by ''stopPool''), d2)
       else (Inr (),
             virObjectEventStateQueue
               (lifecycle_event (def (pools d ! i)) VIR_STORAGE_POOL_EVENT_STOPPED)
               (virStoragePoolUpdateInactive i d4)))"
    using i acl be act idle sp run
    by (cases stopped;
        simp add: storagePoolDestroy_def Let_def path_def [symmetric] d4_def [symmetric])
  have queue: "pool_status (virObjectEventStateQueue ev x) = pool_status x"
      "files (virObjectEventStateQueue ev x) = files x"
      "stateDir (virObjectEventStateQueue ev x) = stateDir x" for ev x
    by (simp_all add: virObjectEventStateQueue_def pool_status_def)
  have upd: "pool_status (virStoragePoolUpdateInactive i d4) = remove_nth i (pool_status d) \<or>
             (\<exists>n. pool_status (virStoragePoolUpdateInactive i d4) = (pool_status d)[i := (n, False)])"
  proof -
    have rm: "remove_nth i ((pool_status d)[i := x]) = remove_nth i (pool_status d)" for x
      by (simp add: remove_nth_def)
    show ?thesis
      using pool_status_update_inactive [of i d4] a4
      by (auto simp: s4 rm)
  qed
  show ?thesis
    using unfolded i f2 s2 f4 upd
    by (auto simp: queue path_def split: if_splits)
qed


lemma length_pool_status [simp]: "length (pool_status d) = length (pools d)"
  by (simp add: pool_status_def)

lemma backed_shrink:
  assumes "state_files_backed d" and "stateDir d' = stateDir d"
    and "files d' \<subseteq> files d" and "pool_status d' = pool_status d"
  shows "state_files_backed d'"
  using assms by (auto simp: state_files_backed_def has_state_file_def)

lemma backed_activate:
  assumes inv: "state_files_backed d" and dir: "stateDir d' = stateDir d"
    and i: "i < length (pools d)"
    and st: "pool_status d' = (pool_status d)[i := (pool_name (def (pools d ! i)), True)]"
    and fs: "files d' = insert (virFileBuildPath (stateDir d) (pool_name (def (pools d ! i))) ''.xml'')
                         (files d)"
  shows "state_files_backed d'"
  unfolding state_files_backed_def
proof (intro allI impI)
  fix name
  assume "has_state_file d' name"
  then consider "name = pool_name (def (pools d ! i))" | "has_state_file d name"
    using fs dir by (auto simp: has_state_file_def)
  then show "(name, True) \<in> set (pool_status d')"
  proof cases
    case 1
    then show ?thesis using st i by (simp add: set_update_memI)
  next
    case 2
    then have "(name, True) \<in> set (pool_status d)"
      using inv by (simp add: state_files_backed_def)
    then obtain k where k: "k < length (pool_status d)" "pool_status d ! k = (name, True)"
      by (auto simp: in_set_conv_nth)
    show ?thesis
    proof (cases "k = i")
      case True
      then have "name = pool_name (def (pools d ! i))"
        using k i by (simp add: pool_status_def)
      then show ?thesis using st i by (simp add: set_update_memI)
    next
      case False
      then have "pool_status d' ! k = (name, True)" using st k by simp
      moreover have "k < length (pool_status d')" using st k by simp
      ultimately show ?thesis by (metis nth_mem)
    qed
  qed
qed

lemma nth_in_remove_nth:
  assumes "k < length xs" and "k \<noteq> i"
  shows "xs ! k \<in> set (remove_nth i xs)"
proof (cases "k < i")
  case True
  then have "xs ! k \<in> set (take i xs)"
    using assms by (simp add: in_set_conv_nth) (metis min_less_iff_conj nth_take)
  then show ?thesis by (simp add: remove_nth_def)
next
  case False
  then have gt: "Suc i \<le> k" using assms by simp
  then have "xs ! k = drop (Suc i) xs ! (k - Suc i)" "k - Suc i < length (drop (Suc i) xs)"
    using assms by simp_all
  then have "xs ! k \<in> set (drop (Suc i) xs)" by (metis nth_mem)
  then show ?thesis by (simp add: remove_nth_def)
qed

lemma backed_deactivate:
  assumes inv: "state_files_backed d" and dir: "stateDir d' = stateDir d"
    and i: "i < length (pools d)"
    and fs: "files d' = files d -
               {virFileBuildPath (stateDir d) (pool_name (def (pools d ! i))) ''.xml''}"
    and st: "pool_status d' = remove_nth i (pool_status d) \<or>
             (\<exists>n. pool_status d' = (pool_status d)[i := (n, False)])"
  shows "state_files_backed d'"
  unfolding state_files_backed_def
proof (intro allI impI)
  fix name
  assume h: "has_state_file d' name"
  then have ne: "name \<noteq> pool_name (def (pools d ! i))" and old: "has_state_file d name"
    using fs dir by (auto simp: has_state_file_def)
  from old have "(name, True) \<in> set (pool_status d)"
    using inv by (simp add: state_files_backed_def)
  then obtain k where k: "k < length (pool_status d)" "pool_status d ! k = (name, True)"
    by (auto simp: in_set_conv_nth)
  have ki: "k \<noteq> i"
    using k ne i by (auto simp: pool_status_def)
  from st show "(name, True) \<in> set (pool_status d')"
  proof
    assume "pool_status d' = remove_nth i (pool_status d)"
    then show ?thesis using nth_in_remove_nth [OF k(1) ki] k(2) by simp
  next
    assume "\<exists>n. pool_status d' = (pool_status d)[i := (n, False)]"
    then obtain n where n: "pool_status d' = (pool_status d)[i := (n, False)]" by blast
    then have "pool_status d' ! k = (name, True)" "k < length (pool_status d')"
      using k ki by simp_all
    then show ?thesis by (metis nth_mem)
  qed
qed

lemma backed_append:
  assumes inv: "state_files_backed d" and dir: "stateDir d' = stateDir d"
    and st: "pool_status d' = pool_status d @ [(n, True)]"
    and fs: "files d' = insert (virFileBuildPath (stateDir d) n ''.xml'') (files d)"
  shows "state_files_backed d'"
  using assms by (auto simp: state_files_backed_def has_state_file_def)

lemma create_keeps_backed:
  assumes "state_files_backed d"
  shows "state_files_backed (snd (storagePoolCreate e d pool fl))"
proof -
  obtain r d' where run: "storagePoolCreate e d pool fl = (r, d')"
    by (cases "storagePoolCreate e d pool fl")
  note s = storagePoolCreate_summary [OF run]
  have "state_files_backed d'"
  proof (cases r)
    case (Inl err)
    with s assms show ?thesis by (auto intro: backed_shrink)
  next
    case (Inr u)
    with s obtain i where i: "virStoragePoolObjFromStoragePool d pool = Inr i"
      and st: "pool_status d' = (pool_status d)[i := (pool_name (def (pools d ! i)), True)]"
      and fs: "files d' = insert (virFileBuildPath (stateDir d)
                                    (pool_name (def (pools d ! i))) ''.xml'') (files d)"
      and dir: "stateDir d' = stateDir d"
      by auto
    show ?thesis
      by (rule backed_activate [OF assms dir from_storage_pool_Inr [OF i] st fs])
  qed
  with run show ?thesis by simp
qed

lemma destroy_keeps_backed:
  assumes "state_files_backed d"
  shows "state_files_backed (snd (storagePoolDestroy e d pool))"
proof -
  obtain r d' where run: "storagePoolDestroy e d pool = (r, d')"
    by (cases "storagePoolDestroy e d pool")
  note s = storagePoolDestroy_summary [OF run]
  have "state_files_backed d'"
  proof (cases r)
    case (Inl err)
    with s assms show ?thesis by (auto intro: backed_shrink)
  next
    case (Inr u)
    with s obtain i where i: "storagePoolObjFindByUUID d (h_uuid pool) (h_name pool) = Inr i"
      and fs: "files d' = files d -
               {virFileBuildPath (stateDir d) (pool_name (def (pools d ! i))) ''.xml''}"
      and st: "pool_status d' = remove_nth i (pool_status d) \<or>
             (\<exists>n. pool_status d' = (pool_status d)[i := (n, False)])"
      and dir: "stateDir d' = stateDir d"
      by auto
    have ilen: "i < length (pools d)"
      using storagePoolObjFindByUUID_Inr [OF i] by simp
    show ?thesis
      by (rule backed_deactivate [OF assms dir ilen fs st])
  qed
  with run show ?thesis by simp
qed

lemma createxml_keeps_backed:
  assumes "state_files_backed d"
  shows "state_files_backed (snd (storagePoolCreateXML e d xml fl))"
proof -
  obtain r d' where run: "storagePoolCreateXML e d xml fl = (r, d')"
    by (cases "storagePoolCreateXML e d xml fl")
  note s = storagePoolCreateXML_summary [OF run]
  have "state_files_backed d'"
  proof (cases r)
    case (Inl err)
    with s have "stateDir d' = stateDir d" "pools d' = pools d" "files d' \<subseteq> files d"
      by auto
    then show ?thesis
      using assms by (auto intro!: backed_shrink [of d] simp: pool_status_def)
  next
    case (Inr h)
    from s Inr have dir: "stateDir d' = stateDir d" by simp
    from s Inr have "\<exists>newdef obj. virStoragePoolDefParseString e xml = Some newdef \<and>
            pools d' = pools d @ [obj] \<and> active obj \<and>
            pool_name (def obj) = pool_name newdef \<and>
            h = \<lparr>h_name = pool_name newdef, h_uuid = pool_uuid newdef\<rparr> \<and>
            files d' = insert (virFileBuildPath (stateDir d) (pool_name newdef) ''.xml'') (files d) \<and>
            events d' = events d @
              [(pool_name newdef, pool_uuid newdef, VIR_STORAGE_POOL_EVENT_STARTED)]"
      by simp
    then obtain newdef obj where c: "virStoragePoolDefParseString e xml = Some newdef \<and>
            pools d' = pools d @ [obj] \<and> active obj \<and>
            pool_name (def obj) = pool_name newdef \<and>
            h = \<lparr>h_name = pool_name newdef, h_uuid = pool_uuid newdef\<rparr> \<and>
            files d' = insert (virFileBuildPath (stateDir d) (pool_name newdef) ''.xml'') (files d) \<and>
            events d' = events d @
              [(pool_name newdef, pool_uuid newdef, VIR_STORAGE_POOL_EVENT_STARTED)]"
      by (elim exE)
    then have ps: "pools d' = pools d @ [obj]" "active obj"
        "pool_name (def obj) = pool_name newdef"
      and fs: "files d' = insert (virFileBuildPath (stateDir d) (pool_name newdef) ''.xml'')
                            (files d)"
      by simp_all
    have st: "pool_status d' = pool_status d @ [(pool_name newdef, True)]"
      using ps by (simp add: pool_status_def)
    show ?thesis
      by (rule backed_append [OF assms dir st fs])
  qed
  with run show ?thesis by simp
qed


text \<open>
  C2, as amended. A state file exists for a pool name only if an active pool of that
  name is in the pool list (so a listed pool that is not active has no state file,
  pool names being unique). \<^verbatim>\<open>storagePoolCreate\<close>, \<^verbatim>\<open>storagePoolCreateXML\<close> and
  \<^verbatim>\<open>storagePoolDestroy\<close> keep this rule on every path, failing or not. A successful
  \<^verbatim>\<open>storagePoolCreate\<close> leaves the pool active with its state file present, and a
  successful \<^verbatim>\<open>storagePoolDestroy\<close> leaves no state file for the pool.
\<close>

theorem state_files_backed_preserved:
  assumes "state_files_backed d"
  shows "state_files_backed (snd (storagePoolCreate e d pool fl)) \<and>
         state_files_backed (snd (storagePoolCreateXML e d xml fl')) \<and>
         state_files_backed (snd (storagePoolDestroy e d pool)) \<and>
         (fst (storagePoolCreate e d pool fl) = Inr () \<longrightarrow>
            (\<exists>i. virStoragePoolObjFromStoragePool d pool = Inr i \<and>
               pool_status (snd (storagePoolCreate e d pool fl)) ! i
                 = (pool_name (def (pools d ! i)), True) \<and>
               has_state_file (snd (storagePoolCreate e d pool fl))
                 (pool_name (def (pools d ! i))))) \<and>
         (fst (storagePoolDestroy e d pool) = Inr () \<longrightarrow>
            (\<exists>i. storagePoolObjFindByUUID d (h_uuid pool) (h_name pool) = Inr i \<and>
               \<not> has_state_file (snd (storagePoolDestroy e d pool))
                   (pool_name (def (pools d ! i)))))"
proof (intro conjI impI)
  show "state_files_backed (snd (storagePoolCreate e d pool fl))"
    using assms by (rule create_keeps_backed)
  show "state_files_backed (snd (storagePoolCreateXML e d xml fl'))"
    using assms by (rule createxml_keeps_backed)
  show "state_files_backed (snd (storagePoolDestroy e d pool))"
    using assms by (rule destroy_keeps_backed)
next
  assume ok: "fst (storagePoolCreate e d pool fl) = Inr ()"
  obtain d' where run: "storagePoolCreate e d pool fl = (Inr (), d')"
    using ok by (cases "storagePoolCreate e d pool fl") simp
  from storagePoolCreate_summary [OF run]
  obtain i where i: "virStoragePoolObjFromStoragePool d pool = Inr i"
    and st: "pool_status d' = (pool_status d)[i := (pool_name (def (pools d ! i)), True)]"
    and fs: "files d' = insert (virFileBuildPath (stateDir d)
                                  (pool_name (def (pools d ! i))) ''.xml'') (files d)"
    and dir: "stateDir d' = stateDir d"
    by auto
  have "i < length (pools d)" by (rule from_storage_pool_Inr [OF i])
  then have "pool_status d' ! i = (pool_name (def (pools d ! i)), True)"
    using st by simp
  moreover have "has_state_file d' (pool_name (def (pools d ! i)))"
    using fs dir by (simp add: has_state_file_def)
  ultimately show "\<exists>i. virStoragePoolObjFromStoragePool d pool = Inr i \<and>
               pool_status (snd (storagePoolCreate e d pool fl)) ! i
                 = (pool_name (def (pools d ! i)), True) \<and>
               has_state_file (snd (storagePoolCreate e d pool fl))
                 (pool_name (def (pools d ! i)))"
    using i run by simp
next
  assume ok: "fst (storagePoolDestroy e d pool) = Inr ()"
  obtain d' where run: "storagePoolDestroy e d pool = (Inr (), d')"
    using ok by (cases "storagePoolDestroy e d pool") simp
  from storagePoolDestroy_summary [OF run]
  obtain i where i: "storagePoolObjFindByUUID d (h_uuid pool) (h_name pool) = Inr i"
    and fs: "files d' = files d -
               {virFileBuildPath (stateDir d) (pool_name (def (pools d ! i))) ''.xml''}"
    and dir: "stateDir d' = stateDir d"
    by auto
  have "\<not> has_state_file d' (pool_name (def (pools d ! i)))"
    using fs dir by (simp add: has_state_file_def)
  then show "\<exists>i. storagePoolObjFindByUUID d (h_uuid pool) (h_name pool) = Inr i \<and>
               \<not> has_state_file (snd (storagePoolDestroy e d pool))
                   (pool_name (def (pools d ! i)))"
    using i run by simp
qed

lemma sample_state_file: "''/run/p1.xml'' = virFileBuildPath ''/run'' ''p1'' ''.xml''"
  by (simp add: virFileBuildPath_def)

lemma sample_backed: "state_files_backed (sample_driver ty)"
  unfolding state_files_backed_def has_state_file_def
  by (simp add: sample_driver_def sample_state_file pool_status_def sample_pool_def
      sample_pool_def_def)

theorem state_files_backed_preserved_witness:
  "state_files_backed (sample_driver VIR_STORAGE_POOL_DIR) \<and>
   fst (storagePoolDestroy (sample_env sample_backend) (sample_driver VIR_STORAGE_POOL_DIR)
          sample_pool_handle) = Inr () \<and>
   \<not> has_state_file (snd (storagePoolDestroy (sample_env sample_backend)
          (sample_driver VIR_STORAGE_POOL_DIR) sample_pool_handle)) ''p1'' \<and>
   state_files_backed (snd (storagePoolDestroy (sample_env sample_backend)
          (sample_driver VIR_STORAGE_POOL_DIR) sample_pool_handle)) \<and>
   state_files_backed
     ((sample_driver VIR_STORAGE_POOL_DIR)
        \<lparr>pools := [(sample_pool ''p1'' VIR_STORAGE_POOL_DIR)\<lparr>active := False\<rparr>], files := {}\<rparr>) \<and>
   fst (storagePoolCreate (sample_env sample_backend)
          ((sample_driver VIR_STORAGE_POOL_DIR)
             \<lparr>pools := [(sample_pool ''p1'' VIR_STORAGE_POOL_DIR)\<lparr>active := False\<rparr>],
              files := {}\<rparr>) sample_pool_handle 0) = Inr () \<and>
   has_state_file (snd (storagePoolCreate (sample_env sample_backend)
          ((sample_driver VIR_STORAGE_POOL_DIR)
             \<lparr>pools := [(sample_pool ''p1'' VIR_STORAGE_POOL_DIR)\<lparr>active := False\<rparr>],
              files := {}\<rparr>) sample_pool_handle 0)) ''p1''"
proof -
  let ?e = "sample_env sample_backend"
  let ?d = "sample_driver VIR_STORAGE_POOL_DIR"
  let ?off = "?d\<lparr>pools := [(sample_pool ''p1'' VIR_STORAGE_POOL_DIR)\<lparr>active := False\<rparr>],
                files := {}\<rparr>"
  have inv: "state_files_backed ?d" by (rule sample_backed)
  have inv_off: "state_files_backed ?off"
    by (simp add: state_files_backed_def has_state_file_def)
  have destroyed: "fst (storagePoolDestroy ?e ?d sample_pool_handle) = Inr ()"
    by (simp add: storagePoolDestroy_def sample_defs pool_op_defs)
  have found: "storagePoolObjFindByUUID ?d (h_uuid sample_pool_handle)
                 (h_name sample_pool_handle) = Inr 0"
    by (simp add: sample_defs pool_op_defs)
  have name: "pool_name (def (pools ?d ! 0)) = ''p1''"
    by (simp add: sample_defs)
  have created: "fst (storagePoolCreate ?e ?off sample_pool_handle 0) = Inr ()"
    by (simp add: storagePoolCreate_def sample_defs pool_op_defs)
  have found_off: "virStoragePoolObjFromStoragePool ?off sample_pool_handle = Inr 0"
    by (simp add: sample_defs pool_op_defs)
  have name_off: "pool_name (def (pools ?off ! 0)) = ''p1''"
    by (simp add: sample_defs)
  note a = state_files_backed_preserved [OF inv, of ?e sample_pool_handle 0 "''x''" 0]
  note b = state_files_backed_preserved [OF inv_off, of ?e sample_pool_handle 0 "''x''" 0]
  from a destroyed found name
  have 1: "\<not> has_state_file (snd (storagePoolDestroy ?e ?d sample_pool_handle)) ''p1''"
    by auto
  from a have 2: "state_files_backed (snd (storagePoolDestroy ?e ?d sample_pool_handle))"
    by blast
  from b created found_off name_off
  have 3: "has_state_file (snd (storagePoolCreate ?e ?off sample_pool_handle 0)) ''p1''"
    by auto
  from inv destroyed 1 2 inv_off created 3 show ?thesis by blast
qed

text \<open>
  The claim as stated fails on the path of \<^verbatim>\<open>storagePoolDestroy\<close> that the design
  describes as "remove state file, then call backend, then commit in-memory flag":
  when the backend's \<^verbatim>\<open>stopPool\<close> fails, the state file is already gone and the pool
  is still active.
\<close>

theorem active_pool_without_state_file:
  "active (pools (sample_driver VIR_STORAGE_POOL_DIR) ! 0) \<and>
   has_state_file (sample_driver VIR_STORAGE_POOL_DIR) ''p1'' \<and>
   fst (storagePoolDestroy (sample_env (sample_backend\<lparr>stopPool := Some (\<lambda>_. False)\<rparr>))
          (sample_driver VIR_STORAGE_POOL_DIR) sample_pool_handle)
     = Inl (Raised_by ''stopPool'') \<and>
   pool_status (snd (storagePoolDestroy
          (sample_env (sample_backend\<lparr>stopPool := Some (\<lambda>_. False)\<rparr>))
          (sample_driver VIR_STORAGE_POOL_DIR) sample_pool_handle)) = [(''p1'', True)] \<and>
   \<not> has_state_file (snd (storagePoolDestroy
          (sample_env (sample_backend\<lparr>stopPool := Some (\<lambda>_. False)\<rparr>))
          (sample_driver VIR_STORAGE_POOL_DIR) sample_pool_handle)) ''p1''"
  by (simp add: storagePoolDestroy_def sample_defs pool_op_defs has_state_file_def
      pool_status_def)

text \<open>
  The failure path of \<^verbatim>\<open>storagePoolRefresh\<close> marks the pool inactive and never
  touches the state file, unlike the refresh-failure paths of \<^verbatim>\<open>storagePoolCreate\<close>
  and \<^verbatim>\<open>storagePoolCreateXML\<close>, which unlink it: the pool ends up inactive with its
  state file still present.
\<close>

lemma refresh_failure_keeps_state_file:
  "fst (storagePoolRefresh
          (sample_env (sample_backend\<lparr>refreshPool := (\<lambda>obj. (False, (100, 0, 100), []))\<rparr>))
          (sample_driver VIR_STORAGE_POOL_DIR) sample_pool_handle 0)
     = Inl (Raised_by ''refreshPool'') \<and>
   pool_status (snd (storagePoolRefresh
          (sample_env (sample_backend\<lparr>refreshPool := (\<lambda>obj. (False, (100, 0, 100), []))\<rparr>))
          (sample_driver VIR_STORAGE_POOL_DIR) sample_pool_handle 0)) = [(''p1'', False)] \<and>
   has_state_file (snd (storagePoolRefresh
          (sample_env (sample_backend\<lparr>refreshPool := (\<lambda>obj. (False, (100, 0, 100), []))\<rparr>))
          (sample_driver VIR_STORAGE_POOL_DIR) sample_pool_handle 0)) ''p1''"
  by (simp add: storagePoolRefresh_def sample_defs pool_op_defs has_state_file_def
      pool_status_def)

subsection \<open>Pool counters on volume create, delete and resize\<close>










lemmas vol_op_defs = storageVolDelete_def storageVolDeleteInternal_def storageVolCreateXML_def
  storageVolCreateXML_build_def storageVolCreateXML_finish_def pool_meta_add_def
  storageVolResize_def resize_abs_capacity_def resize_flags_def virCheckFlags_def
  VIR_STORAGE_VOL_RESIZE_ALLOCATE_def VIR_STORAGE_VOL_RESIZE_DELTA_def
  VIR_STORAGE_VOL_RESIZE_SHRINK_def VIR_STORAGE_VOL_CREATE_PREALLOC_METADATA_def
  virStorageVolDefFindByName_def virStoragePoolObjIncrAsyncjobs_def
  virStoragePoolObjDecrAsyncjobs_def virStoragePoolObjAddVol_def virStoragePoolObjRemoveVol_def
  with_pool_values_def pool_values_of_def sample_disk_backend_def
  remove_nth_def upd_pool_def upd_vol_def record_action_def Let_def


text \<open>
  Part (4) needs its hypothesis on the backend table: \<^verbatim>\<open>storageVolResize\<close> itself has
  no test of the pool type, unlike the create and delete paths. For a disk pool served by
  a backend that has a \<^verbatim>\<open>resizeVol\<close> entry point, a resize with the allocate flag moves
  the delta between the pool counters like on any other pool.
\<close>

lemma storageVolResize_has_no_pool_type_test:
  "pool_type (def (pools (sample_driver VIR_STORAGE_POOL_DISK) ! 0)) = VIR_STORAGE_POOL_DISK \<and>
   allocation (def (pools (sample_driver VIR_STORAGE_POOL_DISK) ! 0)) = 10 \<and>
   available (def (pools (sample_driver VIR_STORAGE_POOL_DISK) ! 0)) = 90 \<and>
   fst (storageVolResize (sample_env sample_backend) (sample_driver VIR_STORAGE_POOL_DISK)
          sample_vol_handle 30 VIR_STORAGE_VOL_RESIZE_ALLOCATE) = Inr () \<and>
   allocation (def (pools (snd (storageVolResize (sample_env sample_backend)
          (sample_driver VIR_STORAGE_POOL_DISK) sample_vol_handle 30
          VIR_STORAGE_VOL_RESIZE_ALLOCATE)) ! 0)) = 30 \<and>
   available (def (pools (snd (storageVolResize (sample_env sample_backend)
          (sample_driver VIR_STORAGE_POOL_DISK) sample_vol_handle 30
          VIR_STORAGE_VOL_RESIZE_ALLOCATE)) ! 0)) = 70"
  by (simp add: storageVolResize_def sample_lookup)
     (simp add: sample_defs vol_op_defs)

end
